theory Spec2Isabelle
  imports Main "HOL-Library.AList"
begin

section \<open>Values, errors and the state of the outside world\<close>

text \<open>
  JSON-like property values. A JavaScript object is an association list with distinct
  keys; \<open>undefined\<close> is the absence of a key (\<open>None\<close> of \<open>map_of\<close>).
\<close>

datatype pval =
    PNull
  | PBool bool
  | PNum int
  | PStr string
  | PArr "pval list"
  | PObj "(string \<times> pval) list"

type_synonym Properties = "(string \<times> pval) list"

text \<open>The object spread \<open>{ ...a, ...b }\<close>: the keys of both, \<open>b\<close> winning on a conflict.\<close>

definition spread :: "Properties \<Rightarrow> Properties \<Rightarrow> Properties" where
  "spread a b = AList.merge a b"

text \<open>
  \<open>fast-deep-equal\<close>: two arrays are equal when they have the same length and equal
  elements at every index; two objects when they have the same number of keys, every key
  of the first is a key of the second, and the values under every key are equal, whatever
  the order of the keys; any other two values when they are the same.
\<close>

function (sequential) fast_deep_equal :: "pval \<Rightarrow> pval \<Rightarrow> bool" where
  "fast_deep_equal (PArr a) (PArr b) =
     (length a = length b \<and> (\<forall>i < length a. fast_deep_equal (a ! i) (b ! i)))"
| "fast_deep_equal (PObj a) (PObj b) =
     (length a = length b
      \<and> (\<forall>key \<in> set (map fst a). map_of b key \<noteq> None)
      \<and> (\<forall>key \<in> set (map fst a).
            case (map_of a key, map_of b key) of
              (Some x, Some y) \<Rightarrow> fast_deep_equal x y
            | _ \<Rightarrow> False))"
| "fast_deep_equal a b = (a = b)"
  by pat_completeness auto

termination
proof -
  have property: "size v < Suc (size_list (size_prod (\<lambda>_. 0) size) a)"
    if "Some v = map_of a k" for v :: pval and a and k :: string
    using that by (induction a) (auto split: if_splits)
  have element: "size (a ! i) < Suc (size_list size a)"
    if "i < length a" for a :: "pval list" and i
    using that size_list_estimation' [of "a ! i" a "size (a ! i)" size] by simp
  show ?thesis
    by (relation "measure (\<lambda>(a, b). size a)") (auto simp: property element)
qed

text \<open>\<open>equal(a, b)\<close> on two objects.\<close>

definition equal_props :: "Properties \<Rightarrow> Properties \<Rightarrow> bool" where
  "equal_props a b = fast_deep_equal (PObj a) (PObj b)"

text \<open>JavaScript truthiness of a looked-up property.\<close>

fun truthy :: "pval option \<Rightarrow> bool" where
  "truthy None = False"
| "truthy (Some PNull) = False"
| "truthy (Some (PBool b)) = b"
| "truthy (Some (PNum n)) = (n \<noteq> 0)"
| "truthy (Some (PStr s)) = (s \<noteq> [])"
| "truthy (Some (PArr _)) = True"
| "truthy (Some (PObj _)) = True"

text \<open>
  The errors the code distinguishes: a plain \<open>Error\<close> with its message, the \<open>DatabaseError\<close>
  of the Postgres driver with its SQLSTATE code, and \<open>RaceConditionError\<close>.
\<close>

datatype exn =
    Error string
  | DatabaseError string
  | RaceConditionError string

fun is_DatabaseError :: "exn \<Rightarrow> bool" where
  "is_DatabaseError (DatabaseError _) = True"
| "is_DatabaseError _ = False"

fun is_RaceConditionError :: "exn \<Rightarrow> bool" where
  "is_RaceConditionError (RaceConditionError _) = True"
| "is_RaceConditionError _ = False"

text \<open>
  A valid \<open>DateTime\<close> is an instant: milliseconds since the epoch. \<open>now\<close>, \<open>sent_at\<close> and the
  \<open>created_at\<close> of a person are valid. A \<open>DateTime\<close> that the date library makes from a text
  is an instant or the invalid \<open>DateTime\<close>.
\<close>

type_synonym DateTime = int

datatype LuxonDateTime = Valid DateTime | Invalid

record Person =
  pid :: nat
  created_at :: DateTime
  team_id :: nat
  properties :: Properties
  is_user_id :: "nat option"
  is_identified :: bool
  uuid :: string

record PersonDistinctId =
  pdi_id :: nat
  person_id :: nat
  distinct_id :: string
  pdi_team_id :: nat

datatype Topic =
    KAFKA_PERSON
  | KAFKA_PERSON_UNIQUE_ID
  | KAFKA_EVENTS
  | KAFKA_SESSION_RECORDING_EVENTS

text \<open>
  A message of a \<open>ProducerRecord\<close>: an optional key and the value, kept as the JSON value
  that the code serialises into the buffer.
\<close>

record Message =
  msg_key :: "string option"
  msg_value :: pval

record ProducerRecord =
  topic :: Topic
  messages :: "Message list"

record Organization =
  org_id :: string
  org_name :: string

text \<open>
  The state outside the process: the relational tables the code reads and writes, the
  queue of the log producer, the statements sent to ClickHouse, what was reported to
  Sentry, the id sequence, the number of UUIDs generated and the number of external
  calls made so far.
\<close>

text \<open>The canonical event (\<open>IEvent\<close>) and the rows of the event tables.\<close>

record IEvent =
  ev_uuid :: string
  ev_event :: string
  ev_properties :: Properties
  ev_timestamp :: string
  ev_teamId :: nat
  ev_distinctId :: string
  ev_elementsChain :: string
  ev_createdAt :: string

record Event =
  row_id :: nat
  row_created_at :: string
  row_event :: string
  row_distinct_id :: string
  row_properties :: Properties
  row_team_id :: nat
  row_timestamp :: string
  row_elements :: "Properties list"
  row_elements_hash :: string

record SessionRecordingEvent =
  sre_uuid :: string
  sre_team_id :: nat
  sre_distinct_id :: string
  sre_session_id :: "pval option"
  sre_snapshot_data :: "pval option"
  sre_timestamp :: string
  sre_created_at :: string

record PostgresSessionRecordingEvent =
  psre_id :: nat
  psre_created_at :: string
  psre_team_id :: nat
  psre_distinct_id :: string
  psre_session_id :: "pval option"
  psre_timestamp :: string
  psre_snapshot_data :: "pval option"

record Team =
  team_pk :: nat
  anonymize_ips :: bool

record world =
  posthog_person :: "Person list"
  posthog_persondistinctid :: "PersonDistinctId list"
  posthog_cohortpeople :: "(nat \<times> nat) list"
  posthog_organization :: "Organization list"
  posthog_event :: "Event list"
  posthog_sessionrecordingevent :: "PostgresSessionRecordingEvent list"
  posthog_elementgroup :: "(nat \<times> string \<times> nat) list"
  posthog_element :: "(Properties \<times> nat) list"
  kafka_queue :: "ProducerRecord list"
  clickhouse_queries :: "string list"
  sentry :: "exn list"
  next_id :: nat
  uuids_made :: nat
  calls :: nat

text \<open>
  What the deployment and the environment decide: whether a log producer and a ClickHouse
  client are configured, which external call fails (by the name of the operation and the
  index of the call: lost connections, constraint violations caused by other workers),
  the clock and the generator of fresh UUIDs.

  The functions the code imports from files that are not among these sources are
  parameters as well: \<open>castTimestampOrNow\<close>, \<open>UUID.validateString\<close>, \<open>sanitizeEventName\<close>,
  \<open>extractElements\<close>, \<open>elementsToString\<close>, \<open>hashElements\<close>, \<open>personInitialAndUTMProperties\<close>,
  \<open>filterIncrementProperties\<close>, the team manager (\<open>fetchTeam\<close>,
  \<open>updateEventNamesAndProperties\<close>) and the person manager (\<open>isNewPerson\<close>). So are the
  two parsers of the date library, \<open>DateTime.fromJSDate(new Date(text))\<close> and
  \<open>DateTime.fromISO(text)\<close>, and \<open>prepareValue\<close>, the text the Postgres driver sends for a
  query parameter that is neither a string nor null. From a text that does not parse,
  \<open>DateTime.fromISO\<close> yields the invalid \<open>DateTime\<close>; it does not throw. The code calls
  \<open>DateTime.fromJSDate\<close> inside a \<open>try\<close> block only: it may yield the invalid \<open>DateTime\<close>
  as well, and whether the computation in that block throws is left to the environment
  (the \<open>Inl\<close> of \<open>DateTime_fromJSDate\<close>).
\<close>

datatype TimestampFormat = ClickHouseSecondPrecision | ClickHouse | ISO

record env =
  kafkaProducer :: bool
  clickhouse :: bool
  fault :: "string \<Rightarrow> nat \<Rightarrow> exn option"
  utc :: "nat \<Rightarrow> DateTime"
  new_UUIDT :: "nat \<Rightarrow> string"
  castTimestampOrNow :: "LuxonDateTime \<Rightarrow> TimestampFormat \<Rightarrow> string"
  prepareValue :: "pval \<Rightarrow> string option"
  DateTime_fromJSDate :: "string \<Rightarrow> exn + LuxonDateTime"
  DateTime_fromISO :: "string \<Rightarrow> LuxonDateTime"
  UUID_validateString :: "string \<Rightarrow> bool"
  sanitizeEventName :: "string \<Rightarrow> string"
  extractElements :: "pval list \<Rightarrow> Properties list"
  elementsToString :: "Properties list \<Rightarrow> string"
  hashElements :: "Properties list \<Rightarrow> string"
  personInitialAndUTMProperties :: "Properties \<Rightarrow> Properties"
  filterIncrementProperties :: "pval option \<Rightarrow> (string \<times> int) list"
  fetchTeam :: "nat \<Rightarrow> world \<Rightarrow> (exn + Team option) \<times> world"
  updateEventNamesAndProperties :: "nat \<Rightarrow> string \<Rightarrow> Properties \<Rightarrow> world \<Rightarrow> (exn + unit) \<times> world"
  isNewPerson :: "nat \<Rightarrow> string \<Rightarrow> world \<Rightarrow> (exn + bool) \<times> world"

type_synonym 'a io = "world \<Rightarrow> (exn + 'a) \<times> world"

definition return :: "'a \<Rightarrow> 'a io" where
  "return x = (\<lambda>s. (Inr x, s))"

definition throw :: "exn \<Rightarrow> 'a io" where
  "throw e = (\<lambda>s. (Inl e, s))"

definition bind :: "'a io \<Rightarrow> ('a \<Rightarrow> 'b io) \<Rightarrow> 'b io" where
  "bind m f = (\<lambda>s. case m s of (Inl e, s') \<Rightarrow> (Inl e, s') | (Inr x, s') \<Rightarrow> f x s')"

text \<open>\<open>try { m } catch (e) { h e }\<close>\<close>

definition catch :: "'a io \<Rightarrow> (exn \<Rightarrow> 'a io) \<Rightarrow> 'a io" where
  "catch m h = (\<lambda>s. case m s of (Inl e, s') \<Rightarrow> h e s' | (Inr x, s') \<Rightarrow> (Inr x, s'))"

fun forEach :: "'a list \<Rightarrow> ('a \<Rightarrow> unit io) \<Rightarrow> unit io" where
  "forEach [] f = return ()"
| "forEach (x # xs) f = bind (f x) (\<lambda>_. forEach xs f)"

text \<open>
  One external call: it counts, the environment may make it fail (then nothing is
  written: a failed statement or a rolled-back transaction leaves the tables as they
  were), and otherwise the statement runs and may itself violate a constraint.
\<close>

definition call :: "env \<Rightarrow> string \<Rightarrow> (world \<Rightarrow> exn + 'a \<times> world) \<Rightarrow> 'a io" where
  "call E tag run = (\<lambda>s.
     let s' = s\<lparr>calls := Suc (calls s)\<rparr> in
     case fault E tag (calls s) of
       Some e \<Rightarrow> (Inl e, s')
     | None \<Rightarrow> (case run s' of Inl e \<Rightarrow> (Inl e, s') | Inr (x, s'') \<Rightarrow> (Inr x, s'')))"

definition Sentry_captureException :: "exn \<Rightarrow> unit io" where
  "Sentry_captureException e = (\<lambda>s. (Inr (), s\<lparr>sentry := sentry s @ [e]\<rparr>))"

definition queueMessage :: "env \<Rightarrow> ProducerRecord \<Rightarrow> unit io" where
  "queueMessage E r = call E ''queueMessage'' (\<lambda>s. Inr ((), s\<lparr>kafka_queue := kafka_queue s @ [r]\<rparr>))"

definition clickhouseQuery :: "env \<Rightarrow> string \<Rightarrow> unit io" where
  "clickhouseQuery E q =
     (if \<not> clickhouse E
      then throw (Error ''ClickHouse connection has not been provided to this DB instance!'')
      else call E ''clickhouseQuery'' (\<lambda>s. Inr ((), s\<lparr>clickhouse_queries := clickhouse_queries s @ [q]\<rparr>)))"

section \<open>The person store (class DB)\<close>

text \<open>
  \<open>fetchPerson\<close>: the join of both tables on the person id, restricted to the team and
  the distinct id; the first row, or \<open>undefined\<close>. A distinct id that is \<open>undefined\<close>
  reaches the statement as NULL and matches no row.
\<close>

definition fetchPerson :: "env \<Rightarrow> nat \<Rightarrow> string option \<Rightarrow> Person option io" where
  "fetchPerson E teamId distinctId =
     call E ''fetchPerson'' (\<lambda>s.
       let rows = concat (map (\<lambda>p. map (\<lambda>d. p)
                    (filter (\<lambda>d. person_id d = pid p \<and> team_id p = teamId
                                \<and> pdi_team_id d = teamId \<and> Some (distinct_id d) = distinctId)
                            (posthog_persondistinctid s)))
                  (posthog_person s))
       in Inr (case rows of [] \<Rightarrow> None | p # _ \<Rightarrow> Some p, s))"

text \<open>
  \<open>addDistinctIdPooled\<close>: the INSERT into \<open>posthog_persondistinctid\<close> on the given client,
  and the message for the distinct-id topic when a producer is configured. The table
  rejects a NULL distinct id (23502), a person that does not exist (23503) and a second
  row for the same team and distinct id (23505).
\<close>

definition addDistinctIdPooled ::
    "env \<Rightarrow> Person \<Rightarrow> string option \<Rightarrow> world \<Rightarrow> exn + ProducerRecord option \<times> world" where
  "addDistinctIdPooled E person distinctId s =
     (case distinctId of
        None \<Rightarrow> Inl (DatabaseError ''23502'')
      | Some d \<Rightarrow>
          if pid person \<notin> set (map pid (posthog_person s)) then Inl (DatabaseError ''23503'')
          else if \<exists>r \<in> set (posthog_persondistinctid s).
                    pdi_team_id r = team_id person \<and> distinct_id r = d
          then Inl (DatabaseError ''23505'')
          else
            let personDistinctIdCreated =
                  \<lparr>pdi_id = next_id s, person_id = pid person, distinct_id = d,
                   pdi_team_id = team_id person\<rparr>;
                s' = s\<lparr>posthog_persondistinctid :=
                          posthog_persondistinctid s @ [personDistinctIdCreated],
                        next_id := Suc (next_id s)\<rparr>
            in Inr (if kafkaProducer E
                    then Some \<lparr>topic = KAFKA_PERSON_UNIQUE_ID,
                               messages = [\<lparr>msg_key = None,
                                 msg_value = PObj [(''id'', PNum (int (pdi_id personDistinctIdCreated))),
                                   (''distinct_id'', PStr d),
                                   (''person_id'', PStr (uuid person)),
                                   (''team_id'', PNum (int (team_id person)))]\<rparr>]\<rparr>
                    else None, s'))"

definition addDistinctId :: "env \<Rightarrow> Person \<Rightarrow> string option \<Rightarrow> unit io" where
  "addDistinctId E person distinctId =
     bind (call E ''addDistinctId'' (addDistinctIdPooled E person distinctId)) (\<lambda>kafkaMessage.
       case kafkaMessage of
         Some m \<Rightarrow> if kafkaProducer E then queueMessage E m else return ()
       | None \<Rightarrow> return ())"

text \<open>The message a person mutation puts on the person topic.\<close>

definition person_message :: "env \<Rightarrow> Person \<Rightarrow> TimestampFormat \<Rightarrow> ProducerRecord" where
  "person_message E p fmt =
     \<lparr>topic = KAFKA_PERSON,
      messages = [\<lparr>msg_key = None,
        msg_value = PObj [(''created_at'', PStr (castTimestampOrNow E (Valid (created_at p)) fmt)),
          (''properties'', PObj (properties p)),
          (''team_id'', PNum (int (team_id p))),
          (''is_identified'', PBool (is_identified p)),
          (''id'', PStr (uuid p))]\<rparr>]\<rparr>"

text \<open>
  The body of the transaction of \<open>createPerson\<close>: the person row, then one distinct-id
  row for each distinct id, collecting the messages. An error anywhere aborts it.
\<close>

fun addDistinctIds ::
    "env \<Rightarrow> Person \<Rightarrow> string option list \<Rightarrow> ProducerRecord list \<Rightarrow> world
     \<Rightarrow> exn + ProducerRecord list \<times> world" where
  "addDistinctIds E person [] kafkaMessages s = Inr (kafkaMessages, s)"
| "addDistinctIds E person (d # ds) kafkaMessages s =
     (case addDistinctIdPooled E person d s of
        Inl e \<Rightarrow> Inl e
      | Inr (kafkaMessage, s') \<Rightarrow>
          addDistinctIds E person ds
            (case kafkaMessage of Some m \<Rightarrow> kafkaMessages @ [m] | None \<Rightarrow> kafkaMessages) s')"

definition createPerson_transaction ::
    "env \<Rightarrow> DateTime \<Rightarrow> Properties \<Rightarrow> nat \<Rightarrow> nat option \<Rightarrow> bool \<Rightarrow> string \<Rightarrow> string option list
     \<Rightarrow> world \<Rightarrow> exn + (Person \<times> ProducerRecord list) \<times> world" where
  "createPerson_transaction E createdAt props teamId isUserId isIdentified uuid' distinctIds s =
     (let person = \<lparr>pid = next_id s, created_at = createdAt, team_id = teamId,
                     properties = props, is_user_id = isUserId,
                     is_identified = isIdentified, uuid = uuid'\<rparr>;
          s1 = s\<lparr>posthog_person := posthog_person s @ [person], next_id := Suc (next_id s)\<rparr>;
          kafkaMessages = (if kafkaProducer E then [person_message E person ClickHouse] else [])
      in case addDistinctIds E person distinctIds kafkaMessages s1 of
           Inl e \<Rightarrow> Inl e
         | Inr (ms, s2) \<Rightarrow> Inr ((person, ms), s2))"

definition createPerson ::
    "env \<Rightarrow> DateTime \<Rightarrow> Properties \<Rightarrow> nat \<Rightarrow> nat option \<Rightarrow> bool \<Rightarrow> string \<Rightarrow> string option list
     \<Rightarrow> Person io" where
  "createPerson E createdAt props teamId isUserId isIdentified uuid' distinctIds =
     bind (call E ''createPerson''
             (createPerson_transaction E createdAt props teamId isUserId isIdentified uuid' distinctIds))
       (\<lambda>(person, kafkaMessages).
          bind (if kafkaProducer E then forEach kafkaMessages (queueMessage E) else return ())
            (\<lambda>_. return person))"

text \<open>
  \<open>Partial<Person>\<close>, for the fields the callers set. \<open>updatePerson\<close> writes exactly these
  columns of the row with the person's id and returns the person it was given with the
  update laid over it.
\<close>

record PersonUpdate =
  upd_created_at :: "DateTime option"
  upd_properties :: "Properties option"
  upd_is_identified :: "bool option"

definition apply_update :: "Person \<Rightarrow> PersonUpdate \<Rightarrow> Person" where
  "apply_update p u =
     p\<lparr>created_at := (case upd_created_at u of Some c \<Rightarrow> c | None \<Rightarrow> created_at p),
       properties := (case upd_properties u of Some ps \<Rightarrow> ps | None \<Rightarrow> properties p),
       is_identified := (case upd_is_identified u of Some b \<Rightarrow> b | None \<Rightarrow> is_identified p)\<rparr>"

definition updatePerson :: "env \<Rightarrow> Person \<Rightarrow> PersonUpdate \<Rightarrow> Person io" where
  "updatePerson E person update =
     (let updatedPerson = apply_update person update in
      bind (call E ''updatePerson'' (\<lambda>s.
              Inr ((), s\<lparr>posthog_person :=
                          map (\<lambda>r. if pid r = pid person then apply_update r update else r)
                              (posthog_person s)\<rparr>)))
        (\<lambda>_. bind (if kafkaProducer E
                    then queueMessage E (person_message E updatedPerson ClickHouseSecondPrecision)
                    else return ())
           (\<lambda>_. return updatedPerson)))"

text \<open>
  \<open>deletePerson\<close>: one transaction deleting the distinct-id rows of the person and then
  the person row; with ClickHouse configured, the two tombstone statements after it
  (\<open>escapeClickHouseString\<close>, not among these sources, is taken to leave a UUID as it is).
\<close>

definition deletePerson :: "env \<Rightarrow> Person \<Rightarrow> unit io" where
  "deletePerson E person =
     bind (call E ''deletePerson'' (\<lambda>s.
             Inr ((), s\<lparr>posthog_persondistinctid :=
                         filter (\<lambda>d. person_id d \<noteq> pid person) (posthog_persondistinctid s),
                       posthog_person :=
                         filter (\<lambda>r. pid r \<noteq> pid person) (posthog_person s)\<rparr>)))
       (\<lambda>_. if clickhouse E
             then bind (clickhouseQuery E
                          (''ALTER TABLE person DELETE WHERE id = '' @ [CHR 0x27] @ uuid person
                             @ [CHR 0x27]))
                    (\<lambda>_. clickhouseQuery E
                            (''ALTER TABLE person_distinct_id DELETE WHERE person_id = ''
                               @ [CHR 0x27] @ uuid person @ [CHR 0x27]))
             else return ())"

text \<open>\<open>fetchDistinctIds\<close> on Postgres, its default: the rows of the person in its team, by id.\<close>

definition fetchDistinctIds :: "env \<Rightarrow> Person \<Rightarrow> PersonDistinctId list io" where
  "fetchDistinctIds E person =
     call E ''fetchDistinctIds'' (\<lambda>s.
       Inr (sort_key pdi_id
              (filter (\<lambda>d. person_id d = pid person \<and> pdi_team_id d = team_id person)
                      (posthog_persondistinctid s)), s))"

definition moveDistinctId :: "env \<Rightarrow> Person \<Rightarrow> PersonDistinctId \<Rightarrow> Person \<Rightarrow> unit io" where
  "moveDistinctId E person personDistinctId moveToPerson =
     bind (call E ''updateDistinctIdPerson'' (\<lambda>s.
             Inr ((), s\<lparr>posthog_persondistinctid :=
                         map (\<lambda>d. if pdi_id d = pdi_id personDistinctId
                                   then d\<lparr>person_id := pid moveToPerson\<rparr> else d)
                             (posthog_persondistinctid s)\<rparr>)))
       (\<lambda>_. if kafkaProducer E
             then queueMessage E
                    \<lparr>topic = KAFKA_PERSON_UNIQUE_ID,
                     messages = [\<lparr>msg_key = None,
                       msg_value = PObj [(''id'', PNum (int (pdi_id personDistinctId))),
                         (''distinct_id'', PStr (distinct_id personDistinctId)),
                         (''person_id'', PStr (uuid moveToPerson)),
                         (''team_id'', PNum (int (pdi_team_id personDistinctId)))]\<rparr>]\<rparr>
             else return ())"

text \<open>
  Modelled from the spec: \<open>DB.moveDistinctIds\<close>, which \<open>mergePeople\<close> calls, is missing from
  the sources of the store. The spec has it move the distinct ids of the one person to the
  other (\<open>move_distinct_ids(other \<rightarrow> into)\<close>, built on \<open>move_distinct_id(id, into_person)\<close>),
  so that all distinct ids formerly on the source are on the target; it raises
  \<open>RaceConditionError\<close> when another worker interferes, which here is a failure the
  environment injects.
\<close>

definition moveDistinctIds :: "env \<Rightarrow> Person \<Rightarrow> Person \<Rightarrow> unit io" where
  "moveDistinctIds E source target =
     bind (call E ''moveDistinctIds'' (\<lambda>s. Inr ((), s))) (\<lambda>_.
       bind (fetchDistinctIds E source) (\<lambda>personDistinctIds.
         forEach personDistinctIds (\<lambda>d. moveDistinctId E source d target)))"

section \<open>The identity resolver (class EventsProcessor)\<close>

definition MAX_FAILED_PERSON_MERGE_ATTEMPTS :: nat where
  "MAX_FAILED_PERSON_MERGE_ATTEMPTS = 3"

text \<open>\<open>new UUIDT().toString()\<close> and \<open>DateTime.utc()\<close>.\<close>

definition UUIDT_toString :: "env \<Rightarrow> world \<Rightarrow> string \<times> world" where
  "UUIDT_toString E s = (new_UUIDT E (uuids_made s), s\<lparr>uuids_made := Suc (uuids_made s)\<rparr>)"

definition DateTime_utc :: "env \<Rightarrow> world \<Rightarrow> DateTime" where
  "DateTime_utc E s = utc E (calls s)"

text \<open>
  The retry loop of \<open>mergePeople\<close> (\<open>while (true)\<close>), one unit of fuel for each iteration.
  It ends with an error, or with \<open>shouldRetryAliasOperation\<close> and \<open>failedAttempts\<close>;
  \<open>None\<close> means that the iterations allowed did not suffice.
\<close>

fun merge_loop ::
    "nat \<Rightarrow> env \<Rightarrow> Person \<Rightarrow> Person \<Rightarrow> nat \<Rightarrow> world \<Rightarrow> ((exn + bool \<times> nat) \<times> world) option" where
  "merge_loop 0 E mergeInto otherPerson failedAttempts s = None"
| "merge_loop (Suc k) E mergeInto otherPerson failedAttempts s =
     (case moveDistinctIds E otherPerson mergeInto s of
        (Inl error, s1) \<Rightarrow>
          (let s2 = snd (Sentry_captureException error s1) in
           if is_RaceConditionError error
              \<and> failedAttempts + 1 < MAX_FAILED_PERSON_MERGE_ATTEMPTS
           then Some (Inr (True, failedAttempts + 1), s2)
           else Some (Inl error, s2))
      | (Inr _, s1) \<Rightarrow>
          (case deletePerson E otherPerson s1 of
             (Inr _, s2) \<Rightarrow> Some (Inr (False, failedAttempts), s2)
           | (Inl error, s2) \<Rightarrow>
               if \<not> is_DatabaseError error then Some (Inl error, s2)
               else if failedAttempts + 1 = MAX_FAILED_PERSON_MERGE_ATTEMPTS
               then Some (Inl error, s2)
               else merge_loop k E mergeInto otherPerson (failedAttempts + 1) s2))"

text \<open>
  \<open>alias\<close> (here \<open>alias'\<close>) and \<open>mergePeople\<close> call each other; the fuel bounds the depth
  of the calls and the iterations of the loop.
\<close>

fun alias' ::
    "nat \<Rightarrow> env \<Rightarrow> string option \<Rightarrow> string \<Rightarrow> nat \<Rightarrow> bool \<Rightarrow> nat \<Rightarrow> world
     \<Rightarrow> ((exn + unit) \<times> world) option"
and mergePeople ::
    "nat \<Rightarrow> env \<Rightarrow> Person \<Rightarrow> string \<Rightarrow> Person \<Rightarrow> string option \<Rightarrow> nat \<Rightarrow> world
     \<Rightarrow> ((exn + unit) \<times> world) option" where
  "alias' 0 E previousDistinctId distinctId teamId retryIfFailed totalMergeAttempts s = None"
| "alias' (Suc k) E previousDistinctId distinctId teamId retryIfFailed totalMergeAttempts s =
     (case fetchPerson E teamId previousDistinctId s of
        (Inl e, s1) \<Rightarrow> Some (Inl e, s1)
      | (Inr oldPerson, s1) \<Rightarrow>
     (case fetchPerson E teamId (Some distinctId) s1 of
        (Inl e, s2) \<Rightarrow> Some (Inl e, s2)
      | (Inr newPerson, s2) \<Rightarrow>
     (case (oldPerson, newPerson) of
        (Some old, None) \<Rightarrow>
          (case addDistinctId E old (Some distinctId) s2 of
             (Inr _, s3) \<Rightarrow> Some (Inr (), s3)
           | (Inl error, s3) \<Rightarrow>
               (let s4 = snd (Sentry_captureException error s3) in
                if retryIfFailed then alias' k E previousDistinctId distinctId teamId False 0 s4
                else Some (Inr (), s4)))
      | (None, Some new) \<Rightarrow>
          (case addDistinctId E new previousDistinctId s2 of
             (Inr _, s3) \<Rightarrow> Some (Inr (), s3)
           | (Inl error, s3) \<Rightarrow>
               (let s4 = snd (Sentry_captureException error s3) in
                if retryIfFailed then alias' k E previousDistinctId distinctId teamId False 0 s4
                else Some (Inr (), s4)))
      | (None, None) \<Rightarrow>
          (let (u, s2') = UUIDT_toString E s2 in
           case createPerson E (DateTime_utc E s2) [] teamId None False u
                  [Some distinctId, previousDistinctId] s2' of
             (Inr _, s3) \<Rightarrow> Some (Inr (), s3)
           | (Inl error, s3) \<Rightarrow>
               (let s4 = snd (Sentry_captureException error s3) in
                if retryIfFailed then alias' k E previousDistinctId distinctId teamId False 0 s4
                else Some (Inr (), s4)))
      | (Some old, Some new) \<Rightarrow>
          if pid old \<noteq> pid new
          then mergePeople k E new distinctId old previousDistinctId totalMergeAttempts s2
          else Some (Inr (), s2))))"
| "mergePeople 0 E mergeInto mergeIntoDistinctId otherPerson otherPersonDistinctId
     totalMergeAttempts s = None"
| "mergePeople (Suc k) E mergeInto mergeIntoDistinctId otherPerson otherPersonDistinctId
     totalMergeAttempts s =
     (let teamId = team_id mergeInto;
          mergeInto = mergeInto\<lparr>properties := spread (properties otherPerson) (properties mergeInto)\<rparr>;
          firstSeen = (if created_at otherPerson < created_at mergeInto
                       then created_at otherPerson else created_at mergeInto)
      in
      case updatePerson E mergeInto
             \<lparr>upd_created_at = Some firstSeen, upd_properties = Some (properties mergeInto),
              upd_is_identified = None\<rparr> s of
        (Inl e, s1) \<Rightarrow> Some (Inl e, s1)
      | (Inr _, s1) \<Rightarrow>
     (case call E ''updateCohortPeople'' (\<lambda>w.
             Inr ((), w\<lparr>posthog_cohortpeople :=
                         map (\<lambda>(c, p). if p = pid otherPerson then (c, pid mergeInto) else (c, p))
                             (posthog_cohortpeople w)\<rparr>)) s1 of
        (Inl e, s2) \<Rightarrow> Some (Inl e, s2)
      | (Inr _, s2) \<Rightarrow>
     (case merge_loop k E mergeInto otherPerson totalMergeAttempts s2 of
        None \<Rightarrow> None
      | Some (Inl e, s3) \<Rightarrow> Some (Inl e, s3)
      | Some (Inr (shouldRetryAliasOperation, failedAttempts), s3) \<Rightarrow>
          if shouldRetryAliasOperation
          then alias' k E otherPersonDistinctId mergeIntoDistinctId teamId False failedAttempts s3
          else Some (Inr (), s3))))"

definition setIsIdentified :: "env \<Rightarrow> nat \<Rightarrow> string \<Rightarrow> bool \<Rightarrow> unit io" where
  "setIsIdentified E teamId distinctId isIdentified =
     bind (fetchPerson E teamId (Some distinctId)) (\<lambda>personFound.
     bind (case personFound of
             Some p \<Rightarrow> return (Some p)
           | None \<Rightarrow>
               catch (\<lambda>s. let (u, s') = UUIDT_toString E s in
                           bind (createPerson E (DateTime_utc E s) [] teamId None True u
                                   [Some distinctId])
                                (\<lambda>p. return (Some p)) s')
                     (\<lambda>_. fetchPerson E teamId (Some distinctId))) (\<lambda>personFound.
       case personFound of
         Some p \<Rightarrow>
           if \<not> is_identified p
           then bind (updatePerson E p
                        \<lparr>upd_created_at = None, upd_properties = None,
                         upd_is_identified = Some isIdentified\<rparr>) (\<lambda>_. return ())
           else return ()
       | None \<Rightarrow> return ()))"

text \<open>
  A property used as a distinct id: a string as it is, \<open>undefined\<close> and \<open>null\<close> as NULL,
  anything else as the driver renders it.
\<close>

definition distinct_id_param :: "env \<Rightarrow> pval option \<Rightarrow> string option" where
  "distinct_id_param E v =
     (case v of
        None \<Rightarrow> None
      | Some PNull \<Rightarrow> None
      | Some (PStr x) \<Rightarrow> Some x
      | Some x \<Rightarrow> prepareValue E x)"

definition handleIdentifyOrAlias ::
    "nat \<Rightarrow> env \<Rightarrow> string \<Rightarrow> Properties \<Rightarrow> string \<Rightarrow> nat \<Rightarrow> world
     \<Rightarrow> ((exn + unit) \<times> world) option" where
  "handleIdentifyOrAlias fuel E event props distinctId teamId s =
     (if event = ''$create_alias''
      then alias' fuel E (distinct_id_param E (map_of props ''alias'')) distinctId teamId True 0 s
      else if event = ''$identify''
      then (case (if truthy (map_of props ''$anon_distinct_id'')
                  then alias' fuel E (distinct_id_param E (map_of props ''$anon_distinct_id''))
                         distinctId teamId True 0 s
                  else Some (Inr (), s)) of
              None \<Rightarrow> None
            | Some (Inl e, s1) \<Rightarrow> Some (Inl e, s1)
            | Some (Inr _, s1) \<Rightarrow> Some (setIsIdentified E teamId distinctId True s1))
      else Some (Inr (), s))"

section \<open>Person properties\<close>

fun show_nat :: "nat \<Rightarrow> string" where
  "show_nat n =
     (if n < 10 then [char_of (48 + n)] else show_nat (n div 10) @ [char_of (48 + n mod 10)])"

declare show_nat.simps [simp del]

text \<open>
  Modelled from the spec: the increment of \<open>DB.incrementPersonProperties\<close>, which is missing
  from the sources of the store (\<open>atomic SQL jsonb increment per key\<close>). A key that is
  absent counts from zero; a value that is not a number is left as it is.
\<close>

fun increment_props :: "(string \<times> int) list \<Rightarrow> Properties \<Rightarrow> Properties" where
  "increment_props [] ps = ps"
| "increment_props ((k, v) # incs) ps =
     increment_props incs
       (case map_of ps k of
          None \<Rightarrow> AList.update k (PNum v) ps
        | Some (PNum n) \<Rightarrow> AList.update k (PNum (n + v)) ps
        | Some _ \<Rightarrow> ps)"

text \<open>
  Modelled from the spec: \<open>DB.incrementPersonProperties\<close> is missing from the sources of
  the store. The spec has it increment each key atomically in the row of the person and
  hand back the properties of that row (\<open>capture result row's properties\<close>).
\<close>

definition incrementPersonProperties ::
    "env \<Rightarrow> Person \<Rightarrow> (string \<times> int) list \<Rightarrow> Properties list io" where
  "incrementPersonProperties E person propertiesToIncrement =
     call E ''incrementPersonProperties'' (\<lambda>s.
       let rows = map (\<lambda>r. if pid r = pid person
                             then r\<lparr>properties := increment_props propertiesToIncrement (properties r)\<rparr>
                             else r) (posthog_person s)
       in Inr (map properties (filter (\<lambda>r. pid r = pid person) rows),
               s\<lparr>posthog_person := rows\<rparr>))"

definition updatePersonProperties ::
    "env \<Rightarrow> nat \<Rightarrow> string \<Rightarrow> Properties \<Rightarrow> Properties \<Rightarrow> (string \<times> int) list \<Rightarrow> Person io" where
  "updatePersonProperties E teamId distinctId props propertiesOnce incrementProperties =
     bind (fetchPerson E teamId (Some distinctId)) (\<lambda>personFound.
     bind (case personFound of
             Some p \<Rightarrow> return (Some p)
           | None \<Rightarrow>
               catch (\<lambda>s. let (u, s') = UUIDT_toString E s in
                           bind (createPerson E (DateTime_utc E s) props teamId None False u
                                   [Some distinctId])
                                (\<lambda>p. return (Some p)) s')
                     (\<lambda>_. fetchPerson E teamId (Some distinctId))) (\<lambda>personFound.
       case personFound of
         None \<Rightarrow>
           throw (Error (''Could not find person with distinct id '' @ [CHR 0x22] @ distinctId
                    @ [CHR 0x22] @ '' in team '' @ [CHR 0x22] @ show_nat teamId @ [CHR 0x22]
                    @ '', even after trying to insert them''))
       | Some personFound \<Rightarrow>
           (let updatedProperties = spread (spread propertiesOnce (properties personFound)) props;
                areTherePropsToIncrement = (incrementProperties \<noteq> [])
            in
            bind (if areTherePropsToIncrement
                  then bind (incrementPersonProperties E personFound incrementProperties)
                         (\<lambda>rows. return (Some rows))
                  else return None) (\<lambda>incrementedPropertiesQueryResult.
              let arePersonsEqualExcludingIncrement =
                    equal_props (properties personFound) updatedProperties
              in
              if arePersonsEqualExcludingIncrement
                 \<and> (\<not> kafkaProducer E \<or> \<not> areTherePropsToIncrement)
              then return personFound
              else
                (let updatedProperties =
                       (case incrementedPropertiesQueryResult of
                          Some (row # _) \<Rightarrow> spread updatedProperties row
                        | _ \<Rightarrow> updatedProperties)
                 in updatePerson E personFound
                      \<lparr>upd_created_at = None, upd_properties = Some updatedProperties,
                       upd_is_identified = None\<rparr>)))))"

section \<open>Organizations\<close>

text \<open>
  The statement of \<open>fetchOrganization\<close> as the source has it, and what Postgres does with
  the text of such a statement: a selection from \<open>posthog_organization\<close> by the equality
  of \<open>id\<close> with the first parameter yields the rows; a text that is not a statement is
  rejected with a syntax error (42601).
\<close>

definition fetchOrganization_sql :: string where
  "fetchOrganization_sql = ''SELECT * FROM posthog_organization WHERE id $1''"

fun words :: "string \<Rightarrow> string \<Rightarrow> string list" where
  "words acc [] = (if acc = [] then [] else [acc])"
| "words acc (c # cs) =
     (if c = CHR '' '' then (if acc = [] then words [] cs else acc # words [] cs)
      else words (acc @ [c]) cs)"

definition select_organization :: "string \<Rightarrow> string list \<Rightarrow> world \<Rightarrow> exn + Organization list" where
  "select_organization sql params s =
     (if words [] sql = [''SELECT'', ''*'', ''FROM'', ''posthog_organization'', ''WHERE'', ''id'', ''='', ''$1'']
      then (case params of
              [v] \<Rightarrow> Inr (filter (\<lambda>r. org_id r = v) (posthog_organization s))
            | _ \<Rightarrow> Inl (DatabaseError ''08P01''))
      else Inl (DatabaseError ''42601''))"

definition fetchOrganization :: "env \<Rightarrow> string \<Rightarrow> Organization option io" where
  "fetchOrganization E organizationId =
     bind (call E ''fetchOrganization'' (\<lambda>s.
             case select_organization fetchOrganization_sql [organizationId] s of
               Inl e \<Rightarrow> Inl e
             | Inr rows \<Rightarrow> Inr (rows, s)))
       (\<lambda>rows. return (case rows of [] \<Rightarrow> None | rawOrganization # _ \<Rightarrow> Some rawOrganization))"

section \<open>Event processing\<close>

text \<open>
  The fields of \<open>PluginEvent\<close> that \<open>processEvent\<close> reads from \<open>data\<close>. The watchdog timers
  (\<open>timeoutGuard\<close>) and the StatsD timings only log and are left out.
\<close>

record PluginEvent =
  d_event :: string
  d_properties :: "Properties option"
  d_set :: "Properties option"
  d_set_once :: "Properties option"
  d_timestamp :: "string option"
  d_offset :: "int option"

record EventProcessingResult =
  res_event :: IEvent
  res_eventId :: "nat option"
  res_elements :: "Properties list"

text \<open>
  \<open>handleTimestamp\<close>. The guard \<open>if (data['timestamp'])\<close> holds for a string that is there
  and not empty, \<open>if (data['offset'])\<close> for a number that is there and not zero. The
  difference \<open>timestamp - sent_at\<close> and the sums with \<open>now\<close> are those of instants; with an
  invalid \<open>DateTime\<close> in it, \<open>now.plus(t.diff(sentAt))\<close> is invalid. Nothing here throws
  past the \<open>catch\<close>, so the function returns a \<open>DateTime\<close>, valid or not, together with the
  state, in which an error caught has been reported.
\<close>

definition handleTimestamp ::
    "env \<Rightarrow> PluginEvent \<Rightarrow> DateTime \<Rightarrow> DateTime option \<Rightarrow> world \<Rightarrow> LuxonDateTime \<times> world" where
  "handleTimestamp E data now sentAt s =
     (case d_timestamp data of
        Some (c # cs) \<Rightarrow>
          (case sentAt of
             Some sent \<Rightarrow>
               (case DateTime_fromJSDate E (c # cs) of
                  Inr (Valid t) \<Rightarrow> (Valid (now + (t - sent)), s)
                | Inr Invalid \<Rightarrow> (Invalid, s)
                | Inl error \<Rightarrow>
                    (DateTime_fromISO E (c # cs), snd (Sentry_captureException error s)))
           | None \<Rightarrow> (DateTime_fromISO E (c # cs), s))
      | _ \<Rightarrow>
          (case d_offset data of
             Some off \<Rightarrow> if off \<noteq> 0 then (Valid (now - off), s) else (Valid now, s)
           | None \<Rightarrow> (Valid now, s)))"

text \<open>
  \<open>createElementGroup\<close>: the group and its elements in one transaction; a second group
  with the same hash in the team violates the unique constraint, which is absorbed.
\<close>

definition createElementGroup :: "env \<Rightarrow> Properties list \<Rightarrow> nat \<Rightarrow> string io" where
  "createElementGroup E elements teamId =
     (let cleanedElements =
            map (\<lambda>(element, index). AList.update ''order'' (PNum (int index)) element)
                (zip elements [0 ..< length elements]);
          hash = hashElements E cleanedElements
      in bind (catch
                 (call E ''createElementGroup'' (\<lambda>s.
                    if \<exists>(g, h, t) \<in> set (posthog_elementgroup s). h = hash \<and> t = teamId
                    then Inl (DatabaseError ''23505'')
                    else Inr ((), s\<lparr>posthog_elementgroup :=
                                      posthog_elementgroup s @ [(next_id s, hash, teamId)],
                                    posthog_element :=
                                      posthog_element s @ map (\<lambda>e. (e, next_id s)) cleanedElements,
                                    next_id := Suc (next_id s)\<rparr>)))
                 (\<lambda>error. if error \<noteq> DatabaseError ''23505'' then throw error else return ()))
           (\<lambda>_. return hash))"

definition createEvent ::
    "env \<Rightarrow> string \<Rightarrow> string \<Rightarrow> nat \<Rightarrow> string \<Rightarrow> Properties \<Rightarrow> LuxonDateTime \<Rightarrow> Properties list
     \<Rightarrow> string \<Rightarrow> (IEvent \<times> nat option \<times> Properties list) io" where
  "createEvent E uuid' event teamId distinctId props timestamp elements siteUrl =
     (let timestampString =
            castTimestampOrNow E timestamp (if kafkaProducer E then ClickHouse else ISO);
          elementsChain = (if elements \<noteq> [] then elementsToString E elements else []);
          eventPayload =
            \<lparr>ev_uuid = uuid', ev_event = event, ev_properties = props,
             ev_timestamp = timestampString, ev_teamId = teamId, ev_distinctId = distinctId,
             ev_elementsChain = elementsChain, ev_createdAt = timestampString\<rparr>
      in
      if kafkaProducer E
      then bind (queueMessage E
                   \<lparr>topic = KAFKA_EVENTS,
                    messages = [\<lparr>msg_key = Some uuid',
                      msg_value = PObj [(''uuid'', PStr (ev_uuid eventPayload)),
                        (''event'', PStr (ev_event eventPayload)),
                        (''properties'', PObj (ev_properties eventPayload)),
                        (''timestamp'', PStr (ev_timestamp eventPayload)),
                        (''teamId'', PNum (int (ev_teamId eventPayload))),
                        (''distinctId'', PStr (ev_distinctId eventPayload)),
                        (''elementsChain'', PStr (ev_elementsChain eventPayload)),
                        (''createdAt'', PStr (ev_createdAt eventPayload))]\<rparr>]\<rparr>)
             (\<lambda>_. return (eventPayload, None, elements))
      else bind (if elements \<noteq> [] then createElementGroup E elements teamId else return [])
             (\<lambda>elementsHash.
                bind (call E ''createEventInsert'' (\<lambda>s.
                        Inr (next_id s,
                             s\<lparr>posthog_event := posthog_event s @
                                 [\<lparr>row_id = next_id s,
                                   row_created_at = ev_createdAt eventPayload,
                                   row_event = ev_event eventPayload,
                                   row_distinct_id = distinctId,
                                   row_properties = ev_properties eventPayload,
                                   row_team_id = ev_teamId eventPayload,
                                   row_timestamp = ev_timestamp eventPayload,
                                   row_elements = elements,
                                   row_elements_hash = elementsHash\<rparr>],
                               next_id := Suc (next_id s)\<rparr>)))
                  (\<lambda>eventId. return (eventPayload, Some eventId, elements))))"

definition createPersonIfDistinctIdIsNew :: "env \<Rightarrow> nat \<Rightarrow> string \<Rightarrow> DateTime \<Rightarrow> string \<Rightarrow> unit io" where
  "createPersonIfDistinctIdIsNew E teamId distinctId sentAt personUuid =
     bind (isNewPerson E teamId distinctId) (\<lambda>isNewPerson'.
       if isNewPerson'
       then catch (bind (createPerson E sentAt [] teamId None False personUuid [Some distinctId])
                     (\<lambda>_. return ()))
                  (\<lambda>error. Sentry_captureException error)
       else return ())"

definition createSessionRecordingEvent ::
    "env \<Rightarrow> string \<Rightarrow> nat \<Rightarrow> string \<Rightarrow> pval option \<Rightarrow> LuxonDateTime \<Rightarrow> pval option \<Rightarrow> string
     \<Rightarrow> (SessionRecordingEvent + PostgresSessionRecordingEvent) io" where
  "createSessionRecordingEvent E uuid' team_id' distinct_id' session_id timestamp snapshot_data
       personUuid =
     (let timestampString =
            castTimestampOrNow E timestamp (if kafkaProducer E then ClickHouse else ISO)
      in
      bind (\<lambda>s. createPersonIfDistinctIdIsNew E team_id' distinct_id' (DateTime_utc E s)
                   personUuid s) (\<lambda>_.
        let data = \<lparr>sre_uuid = uuid', sre_team_id = team_id', sre_distinct_id = distinct_id',
                     sre_session_id = session_id, sre_snapshot_data = snapshot_data,
                     sre_timestamp = timestampString, sre_created_at = timestampString\<rparr>
        in
        if kafkaProducer E
        then bind (queueMessage E
                     \<lparr>topic = KAFKA_SESSION_RECORDING_EVENTS,
                      messages = [\<lparr>msg_key = Some uuid',
                        msg_value = PObj ([(''uuid'', PStr (sre_uuid data)),
                          (''team_id'', PNum (int (sre_team_id data))),
                          (''distinct_id'', PStr (sre_distinct_id data))]
                          @ (case sre_session_id data of Some v \<Rightarrow> [(''session_id'', v)] | None \<Rightarrow> [])
                          @ (case sre_snapshot_data data of
                               Some v \<Rightarrow> [(''snapshot_data'', v)] | None \<Rightarrow> [])
                          @ [(''timestamp'', PStr (sre_timestamp data)),
                             (''created_at'', PStr (sre_created_at data))])\<rparr>]\<rparr>)
               (\<lambda>_. return (Inl data))
        else bind (call E ''insertSessionRecording'' (\<lambda>s.
                     let eventCreated =
                           \<lparr>psre_id = next_id s, psre_created_at = sre_created_at data,
                            psre_team_id = sre_team_id data,
                            psre_distinct_id = sre_distinct_id data,
                            psre_session_id = sre_session_id data,
                            psre_timestamp = sre_timestamp data,
                            psre_snapshot_data = sre_snapshot_data data\<rparr>
                     in Inr (eventCreated,
                             s\<lparr>posthog_sessionrecordingevent :=
                                 posthog_sessionrecordingevent s @ [eventCreated],
                               next_id := Suc (next_id s)\<rparr>)))
               (\<lambda>eventCreated. return (Inr eventCreated))))"

definition EVENTS_WITHOUT_EVENT_DEFINITION :: "string list" where
  "EVENTS_WITHOUT_EVENT_DEFINITION = [''$$plugin_metrics'']"

text \<open>
  The own enumerable properties that a spread copies: those of an object, the indexed
  elements of an array, the indexed characters of a string, none of anything else.
\<close>

definition own_props :: "pval option \<Rightarrow> Properties" where
  "own_props v =
     (case v of
        Some (PObj ps) \<Rightarrow> ps
      | Some (PArr vs) \<Rightarrow> zip (map show_nat [0 ..< length vs]) vs
      | Some (PStr cs) \<Rightarrow> zip (map show_nat [0 ..< length cs]) (map (\<lambda>c. PStr [c]) cs)
      | _ \<Rightarrow> [])"

text \<open>
  \<open>capture\<close>. \<open>$elements\<close> is an array of records by its type; \<open>$set\<close> and \<open>$set_once\<close> are
  objects by theirs. The guard \<open>if (ip && ...)\<close> holds for an address that is neither null
  nor the empty string.
\<close>

definition capture ::
    "env \<Rightarrow> string \<Rightarrow> string \<Rightarrow> string option \<Rightarrow> string \<Rightarrow> nat \<Rightarrow> string \<Rightarrow> string \<Rightarrow> Properties
     \<Rightarrow> LuxonDateTime \<Rightarrow> DateTime option \<Rightarrow> (IEvent \<times> nat option \<times> Properties list) io" where
  "capture E eventUuid personUuid ip siteUrl teamId event distinctId props timestamp sentAt =
     (let event = sanitizeEventName E event;
          elements = map_of props ''$elements'';
          (props, elementsList) =
            (case elements of
               Some (PArr (x # xs)) \<Rightarrow> (AList.delete ''$elements'' props, extractElements E (x # xs))
             | _ \<Rightarrow> (props, []))
      in
      bind (fetchTeam E teamId) (\<lambda>team.
        case team of
          None \<Rightarrow> throw (Error (''No team found with ID '' @ show_nat teamId @ ''. Can''
                            @ [CHR 0x27] @ ''t ingest event.''))
        | Some team \<Rightarrow>
            (let props =
                   (case ip of
                      Some (c # cs) \<Rightarrow>
                        if \<not> anonymize_ips team \<and> map_of props ''$ip'' = None
                        then AList.update ''$ip'' (PStr (c # cs)) props
                        else props
                    | _ \<Rightarrow> props)
             in
             bind (if event \<notin> set EVENTS_WITHOUT_EVENT_DEFINITION
                   then updateEventNamesAndProperties E teamId event props
                   else return ()) (\<lambda>_.
             bind (\<lambda>s. createPersonIfDistinctIdIsNew E teamId distinctId
                          (case sentAt of Some t \<Rightarrow> t | None \<Rightarrow> DateTime_utc E s)
                          personUuid s) (\<lambda>_.
               let props = personInitialAndUTMProperties E props in
               bind (if truthy (map_of props ''$set'') \<or> truthy (map_of props ''$set_once'')
                        \<or> truthy (map_of props ''$increment'')
                     then (let filteredIncrementProperties =
                                 filterIncrementProperties E (map_of props ''$increment'')
                           in bind (updatePersonProperties E teamId distinctId
                                      (if truthy (map_of props ''$set'')
                                       then own_props (map_of props ''$set'') else [])
                                      (if truthy (map_of props ''$set_once'')
                                       then own_props (map_of props ''$set_once'') else [])
                                      filteredIncrementProperties)
                                (\<lambda>_. return ()))
                     else return ()) (\<lambda>_.
                 createEvent E eventUuid event teamId distinctId props timestamp elementsList
                   siteUrl))))))"

text \<open>The first statements of \<open>processEvent\<close>: \<open>$set\<close> and \<open>$set_once\<close> of the event join the properties.\<close>

definition sanitized_properties :: "PluginEvent \<Rightarrow> Properties" where
  "sanitized_properties data =
     (let props = (case d_properties data of Some ps \<Rightarrow> ps | None \<Rightarrow> []);
          props = (case d_set data of
                     Some st \<Rightarrow>
                       AList.update ''$set'' (PObj (spread (own_props (map_of props ''$set'')) st))
                         props
                   | None \<Rightarrow> props)
      in case d_set_once data of
           Some st \<Rightarrow>
             AList.update ''$set_once''
               (PObj (spread (own_props (map_of props ''$set_once'')) st)) props
         | None \<Rightarrow> props)"

text \<open>
  \<open>processEvent\<close>: the check of the UUID, then the body of its \<open>try\<close> block. An error of
  the identity step is caught, logged and reported; then the event is recorded, by
  \<open>createSessionRecordingEvent\<close> for \<open>$snapshot\<close> and by \<open>capture\<close> otherwise. The result is
  \<open>None\<close> when the identity step did not finish with the fuel given.
\<close>

definition processEvent_try ::
    "nat \<Rightarrow> env \<Rightarrow> string \<Rightarrow> string option \<Rightarrow> string \<Rightarrow> PluginEvent \<Rightarrow> nat \<Rightarrow> DateTime
     \<Rightarrow> DateTime option \<Rightarrow> string \<Rightarrow> world
     \<Rightarrow> ((exn + EventProcessingResult option) \<times> world) option" where
  "processEvent_try fuel E distinctId ip siteUrl data teamId now sentAt eventUuid s =
     (let props = sanitized_properties data;
          (personUuid, s0) = UUIDT_toString E s;
          (ts, s1) = handleTimestamp E data now sentAt s0
      in
      case handleIdentifyOrAlias fuel E (d_event data) props distinctId teamId s1 of
        None \<Rightarrow> None
      | Some (r, s2) \<Rightarrow>
          (let s3 = (case r of Inl e \<Rightarrow> snd (Sentry_captureException e s2) | Inr _ \<Rightarrow> s2) in
           if d_event data = ''$snapshot''
           then Some (bind (createSessionRecordingEvent E eventUuid teamId distinctId
                              (map_of props ''$session_id'') ts (map_of props ''$snapshot_data'')
                              personUuid)
                        (\<lambda>_. return None) s3)
           else Some (bind (capture E eventUuid personUuid ip siteUrl teamId (d_event data)
                              distinctId props ts sentAt)
                        (\<lambda>(event, eventId, elements).
                           return (Some \<lparr>res_event = event, res_eventId = eventId,
                                         res_elements = elements\<rparr>)) s3)))"

definition processEvent ::
    "nat \<Rightarrow> env \<Rightarrow> string \<Rightarrow> string option \<Rightarrow> string \<Rightarrow> PluginEvent \<Rightarrow> nat \<Rightarrow> DateTime
     \<Rightarrow> DateTime option \<Rightarrow> string \<Rightarrow> world
     \<Rightarrow> ((exn + EventProcessingResult option) \<times> world) option" where
  "processEvent fuel E distinctId ip siteUrl data teamId now sentAt eventUuid s =
     (if \<not> UUID_validateString E eventUuid
      then Some (Inl (Error (''Not a valid UUID: '' @ [CHR 0x22] @ eventUuid @ [CHR 0x22])), s)
      else processEvent_try fuel E distinctId ip siteUrl data teamId now sentAt eventUuid s)"

section \<open>Example inputs\<close>

text \<open>
  A parser of timestamps of the form \<open>2024-01-01T00:00:05Z\<close>, to milliseconds since the
  epoch; any other text gives the invalid \<open>DateTime\<close>.
\<close>

definition digits_value :: "string \<Rightarrow> int" where
  "digits_value cs = foldl (\<lambda>n c. 10 * n + (of_char c - 48)) 0 cs"

definition days_from_civil :: "int \<Rightarrow> int \<Rightarrow> int \<Rightarrow> int" where
  "days_from_civil y m d =
     (let y' = (if m \<le> 2 then y - 1 else y);
          era = y' div 400;
          yoe = y' - era * 400;
          doy = (153 * (if m > 2 then m - 3 else m + 9) + 2) div 5 + d - 1;
          doe = yoe * 365 + yoe div 4 - yoe div 100 + doy
      in era * 146097 + doe - 719468)"

definition parse_iso_utc :: "string \<Rightarrow> LuxonDateTime" where
  "parse_iso_utc cs =
     (if length cs = 20 \<and> cs ! 4 = CHR ''-'' \<and> cs ! 7 = CHR ''-'' \<and> cs ! 10 = CHR ''T''
         \<and> cs ! 13 = CHR '':'' \<and> cs ! 16 = CHR '':'' \<and> cs ! 19 = CHR ''Z''
      then Valid ((((days_from_civil (digits_value (take 4 cs)) (digits_value (take 2 (drop 5 cs)))
                     (digits_value (take 2 (drop 8 cs))) * 24
                   + digits_value (take 2 (drop 11 cs))) * 60
                  + digits_value (take 2 (drop 14 cs))) * 60
                 + digits_value (take 2 (drop 17 cs))) * 1000)
      else Invalid)"

definition numeric_increments :: "pval option \<Rightarrow> (string \<times> int) list" where
  "numeric_increments v =
     (case v of
        Some (PObj ps) \<Rightarrow> concat (map (\<lambda>(k, x). case x of PNum n \<Rightarrow> [(k, n)] | _ \<Rightarrow> []) ps)
      | _ \<Rightarrow> [])"

text \<open>
  A deployment on the row sink with a calm environment: no call fails, every team exists
  and keeps addresses, a distinct id is new when no row has it.
\<close>

definition calm :: env where
  "calm =
     \<lparr>kafkaProducer = False, clickhouse = False, fault = (\<lambda>tag i. None), utc = (\<lambda>i. 0),
      new_UUIDT = (\<lambda>i. ''0179-'' @ show_nat i),
      castTimestampOrNow = (\<lambda>t f. case t of Valid x \<Rightarrow> show_nat (nat x) | Invalid \<Rightarrow> ''Invalid DateTime''),
      prepareValue = (\<lambda>v. None),
      DateTime_fromJSDate = (\<lambda>t. Inr (parse_iso_utc t)), DateTime_fromISO = parse_iso_utc,
      UUID_validateString = (\<lambda>u. length u = 36),
      sanitizeEventName = (\<lambda>e. e), extractElements = (\<lambda>es. []),
      elementsToString = (\<lambda>es. []), hashElements = (\<lambda>es. []),
      personInitialAndUTMProperties = (\<lambda>ps. ps),
      filterIncrementProperties = numeric_increments,
      fetchTeam = (\<lambda>t s. (Inr (Some \<lparr>team_pk = t, anonymize_ips = False\<rparr>), s)),
      updateEventNamesAndProperties = (\<lambda>t e ps s. (Inr (), s)),
      isNewPerson = (\<lambda>t d s. (Inr (\<forall>r \<in> set (posthog_persondistinctid s).
                                      \<not> (pdi_team_id r = t \<and> distinct_id r = d)), s))\<rparr>"

text \<open>The same deployment on the log sink.\<close>

definition calm_log :: env where
  "calm_log = calm\<lparr>kafkaProducer := True\<rparr>"

text \<open>
  The log sink with a producer that fails once: at the third external call, which for a
  person created on the way is the first message after the transaction has committed.
\<close>

definition flaky_log :: env where
  "flaky_log = calm_log\<lparr>fault := (\<lambda>tag i.
     if tag = ''queueMessage'' \<and> i = 2 then Some (Error ''producer'') else None)\<rparr>"

text \<open>
  An environment in which the computation that the code guards with \<open>try\<close> throws for a
  text that does not parse.
\<close>

definition strict :: env where
  "strict = calm\<lparr>DateTime_fromJSDate := (\<lambda>t.
     case parse_iso_utc t of Invalid \<Rightarrow> Inl (Error ''Invalid DateTime'') | Valid x \<Rightarrow> Inr (Valid x))\<rparr>"

definition empty_world :: world where
  "empty_world =
     \<lparr>posthog_person = [], posthog_persondistinctid = [], posthog_cohortpeople = [],
      posthog_organization = [], posthog_event = [], posthog_sessionrecordingevent = [],
      posthog_elementgroup = [], posthog_element = [], kafka_queue = [],
      clickhouse_queries = [], sentry = [], next_id = 1, uuids_made = 0, calls = 0\<rparr>"

text \<open>
  Two persons of team 2 (scenario S3): \<open>A\<close> with the distinct id \<open>a\<close>, created at 0, and
  \<open>B\<close> with the distinct id \<open>b\<close>, created at 10.
\<close>

definition person_A :: Person where
  "person_A = \<lparr>pid = 1, created_at = 0, team_id = 2, properties = [(''x'', PNum 1)],
                is_user_id = None, is_identified = False, uuid = ''A''\<rparr>"

definition person_B :: Person where
  "person_B = \<lparr>pid = 2, created_at = 10, team_id = 2,
                properties = [(''x'', PNum 2), (''y'', PNum 3)],
                is_user_id = None, is_identified = False, uuid = ''B''\<rparr>"

definition two_persons :: world where
  "two_persons = empty_world
     \<lparr>posthog_person := [person_A, person_B],
      posthog_persondistinctid :=
        [\<lparr>pdi_id = 3, person_id = 1, distinct_id = ''a'', pdi_team_id = 2\<rparr>,
         \<lparr>pdi_id = 4, person_id = 2, distinct_id = ''b'', pdi_team_id = 2\<rparr>],
      next_id := 5\<rparr>"

text \<open>
  An environment in which the first \<open>deletePerson\<close> of a merge fails with a database
  error and the \<open>moveDistinctIds\<close> that follows with a \<open>RaceConditionError\<close>.
\<close>

definition racy :: env where
  "racy = calm\<lparr>fault := (\<lambda>tag i.
     if tag = ''deletePerson'' \<and> i = 5 then Some (DatabaseError ''23503'')
     else if tag = ''moveDistinctIds'' \<and> i = 6 then Some (RaceConditionError ''moved'')
     else None)\<rparr>"

text \<open>An environment in which every \<open>deletePerson\<close> fails with a database error.\<close>

definition hopeless :: env where
  "hopeless = calm\<lparr>fault := (\<lambda>tag i.
     if tag = ''deletePerson'' then Some (DatabaseError ''23503'') else None)\<rparr>"

text \<open>A person with \<open>{color: "red"}\<close> and the distinct id \<open>d\<close> (scenario S6).\<close>

definition red_person :: Person where
  "red_person = \<lparr>pid = 1, created_at = 0, team_id = 2, properties = [(''color'', PStr ''red'')],
                  is_user_id = None, is_identified = False, uuid = ''R''\<rparr>"

definition red_world :: world where
  "red_world = empty_world
     \<lparr>posthog_person := [red_person],
      posthog_persondistinctid :=
        [\<lparr>pdi_id = 2, person_id = 1, distinct_id = ''d'', pdi_team_id = 2\<rparr>],
      next_id := 3\<rparr>"

text \<open>
  The same person with the nested property \<open>{a: {x: 1, y: 2}}\<close>.
\<close>

definition nested_world :: world where
  "nested_world = red_world
     \<lparr>posthog_person :=
        [red_person\<lparr>properties := [(''a'', PObj [(''x'', PNum 1), (''y'', PNum 2)])]\<rparr>]\<rparr>"

definition skewed_event :: PluginEvent where
  "skewed_event =
     \<lparr>d_event = ''pageview'', d_properties = None, d_set = None, d_set_once = None,
      d_timestamp = Some ''2023-12-31T23:59:50Z'', d_offset = None\<rparr>"

text \<open>An event that declares the distinct id \<open>a\<close> an alias of its sender.\<close>

definition alias_event :: PluginEvent where
  "alias_event =
     \<lparr>d_event = ''$create_alias'', d_properties = Some [(''alias'', PStr ''a'')], d_set = None,
      d_set_once = None, d_timestamp = None, d_offset = None\<rparr>"

text \<open>
  An environment in which the first \<open>fetchPerson\<close> fails, and one in which the row sink is
  down as well.
\<close>

definition lossy :: env where
  "lossy = calm\<lparr>fault := (\<lambda>tag i.
     if tag = ''fetchPerson'' \<and> i = 0 then Some (DatabaseError ''08006'') else None)\<rparr>"

definition lossy_sinkless :: env where
  "lossy_sinkless = calm\<lparr>fault := (\<lambda>tag i.
     if tag = ''fetchPerson'' \<and> i = 0 \<or> tag = ''createEventInsert''
     then Some (DatabaseError ''08006'') else None)\<rparr>"

text \<open>A deployment whose teams anonymize addresses.\<close>

definition discreet :: env where
  "discreet = calm\<lparr>fetchTeam := (\<lambda>t s. (Inr (Some \<lparr>team_pk = t, anonymize_ips = True\<rparr>), s))\<rparr>"

section \<open>Predicates of the statements\<close>

text \<open>No call of the environment fails with a \<open>RaceConditionError\<close>.\<close>

definition no_race :: "env \<Rightarrow> bool" where
  "no_race E = (\<forall>tag i e. fault E tag i = Some e \<longrightarrow> \<not> is_RaceConditionError e)"

text \<open>
  A record for the person topic or the distinct-id topic whose messages have no key and
  carry the given UUID of a person: as \<open>id\<close> on the person topic, as \<open>person_id\<close> on the
  distinct-id topic.
\<close>

definition unkeyed_with_uuid :: "string \<Rightarrow> ProducerRecord \<Rightarrow> bool" where
  "unkeyed_with_uuid u r =
     ((topic r = KAFKA_PERSON \<or> topic r = KAFKA_PERSON_UNIQUE_ID)
      \<and> (\<forall>m \<in> set (messages r).
            msg_key m = None
            \<and> map_of (own_props (Some (msg_value m)))
                 (if topic r = KAFKA_PERSON then ''id'' else ''person_id'') = Some (PStr u)))"

section \<open>The timestamp of an event\<close>

lemma parse_client: "parse_iso_utc ''2023-12-31T23:59:50Z'' = Valid 1704067190000"
  by code_simp

lemma parse_expected: "parse_iso_utc ''2024-01-01T00:00:00Z'' = Valid 1704067200000"
  by code_simp

lemma parse_unparsable: "parse_iso_utc ''yesterday'' = Invalid"
  by code_simp

text \<open>
  Claim C3, as the code has it. \<open>handleTimestamp\<close> follows the four rules in their order,
  where a client timestamp counts as present only if it is not the empty string. (1) With
  such a timestamp and \<open>sent_at\<close>, the result is \<open>now + (timestamp - sent_at)\<close>, which is the
  invalid \<open>DateTime\<close> when the timestamp does not parse; only when that computation throws
  is the error reported and the next rule taken. (2) With such a timestamp alone, or after
  such a failure, the result is the timestamp parsed as ISO-8601, the invalid \<open>DateTime\<close>
  when it does not parse. (3) Without a timestamp, or with an empty one, and with an offset
  in milliseconds, the result is \<open>now - offset\<close>. (4) Otherwise it is \<open>now\<close>. The state
  changes only by the error reported. For the timestamp 2023-12-31T23:59:50Z sent at
  2023-12-31T23:59:55Z and received at 2024-01-01T00:00:05Z the result is
  2024-01-01T00:00:00Z.
\<close>

theorem handleTimestamp_rules:
  "(d_timestamp data = Some t \<and> t \<noteq> [] \<and> sentAt = Some sent
      \<and> DateTime_fromJSDate E t = Inr (Valid x)
      \<longrightarrow> handleTimestamp E data now sentAt s = (Valid (now + (x - sent)), s))
   \<and> (d_timestamp data = Some t \<and> t \<noteq> [] \<and> sentAt = Some sent
      \<and> DateTime_fromJSDate E t = Inr Invalid
      \<longrightarrow> handleTimestamp E data now sentAt s = (Invalid, s))
   \<and> (d_timestamp data = Some t \<and> t \<noteq> [] \<and> sentAt = Some sent
      \<and> DateTime_fromJSDate E t = Inl e
      \<longrightarrow> handleTimestamp E data now sentAt s
            = (DateTime_fromISO E t, s\<lparr>sentry := sentry s @ [e]\<rparr>))
   \<and> (d_timestamp data = Some t \<and> t \<noteq> [] \<and> sentAt = None
      \<longrightarrow> handleTimestamp E data now sentAt s = (DateTime_fromISO E t, s))
   \<and> ((d_timestamp data = None \<or> d_timestamp data = Some []) \<and> d_offset data = Some off
      \<longrightarrow> handleTimestamp E data now sentAt s = (Valid (now - off), s))
   \<and> ((d_timestamp data = None \<or> d_timestamp data = Some []) \<and> d_offset data = None
      \<longrightarrow> handleTimestamp E data now sentAt s = (Valid now, s))
   \<and> handleTimestamp calm skewed_event 1704067205000 (Some 1704067195000) s
        = (parse_iso_utc ''2024-01-01T00:00:00Z'', s)"
proof -
  have example: "handleTimestamp calm skewed_event 1704067205000 (Some 1704067195000) s
        = (parse_iso_utc ''2024-01-01T00:00:00Z'', s)"
    by (simp add: handleTimestamp_def skewed_event_def calm_def parse_client parse_expected)
  have rules: "(d_timestamp data = Some t \<and> t \<noteq> [] \<and> sentAt = Some sent
      \<and> DateTime_fromJSDate E t = Inr (Valid x)
      \<longrightarrow> handleTimestamp E data now sentAt s = (Valid (now + (x - sent)), s))
   \<and> (d_timestamp data = Some t \<and> t \<noteq> [] \<and> sentAt = Some sent
      \<and> DateTime_fromJSDate E t = Inr Invalid
      \<longrightarrow> handleTimestamp E data now sentAt s = (Invalid, s))
   \<and> (d_timestamp data = Some t \<and> t \<noteq> [] \<and> sentAt = Some sent
      \<and> DateTime_fromJSDate E t = Inl e
      \<longrightarrow> handleTimestamp E data now sentAt s
            = (DateTime_fromISO E t, s\<lparr>sentry := sentry s @ [e]\<rparr>))
   \<and> (d_timestamp data = Some t \<and> t \<noteq> [] \<and> sentAt = None
      \<longrightarrow> handleTimestamp E data now sentAt s = (DateTime_fromISO E t, s))
   \<and> ((d_timestamp data = None \<or> d_timestamp data = Some []) \<and> d_offset data = Some off
      \<longrightarrow> handleTimestamp E data now sentAt s = (Valid (now - off), s))
   \<and> ((d_timestamp data = None \<or> d_timestamp data = Some []) \<and> d_offset data = None
      \<longrightarrow> handleTimestamp E data now sentAt s = (Valid now, s))"
    by (auto simp: handleTimestamp_def Sentry_captureException_def split: list.splits)
  from rules example show ?thesis by blast
qed

theorem handleTimestamp_rules_witness:
  "handleTimestamp calm skewed_event 1704067205000 (Some 1704067195000) empty_world
     = (Valid 1704067200000, empty_world)
   \<and> handleTimestamp calm (skewed_event\<lparr>d_timestamp := Some ''yesterday''\<rparr>) 7 (Some 2) empty_world
     = (Invalid, empty_world)
   \<and> handleTimestamp strict (skewed_event\<lparr>d_timestamp := Some ''yesterday''\<rparr>) 7 (Some 2) empty_world
     = (Invalid, empty_world\<lparr>sentry := [Error ''Invalid DateTime'']\<rparr>)
   \<and> handleTimestamp calm skewed_event 7 None empty_world = (Valid 1704067190000, empty_world)
   \<and> handleTimestamp calm (skewed_event\<lparr>d_timestamp := Some ''yesterday''\<rparr>) 7 None empty_world
     = (Invalid, empty_world)
   \<and> handleTimestamp calm (skewed_event\<lparr>d_timestamp := None, d_offset := Some 3\<rparr>) 7 None empty_world
     = (Valid 4, empty_world)
   \<and> handleTimestamp calm (skewed_event\<lparr>d_timestamp := None\<rparr>) 7 (Some 2) empty_world
     = (Valid 7, empty_world)"
  using
    handleTimestamp_rules [where data = skewed_event and t = "''2023-12-31T23:59:50Z''"
      and sentAt = "Some 1704067195000" and sent = 1704067195000 and E = calm
      and x = 1704067190000 and now = 1704067205000 and s = empty_world]
    handleTimestamp_rules [where data = "skewed_event\<lparr>d_timestamp := Some ''yesterday''\<rparr>"
      and t = "''yesterday''" and sentAt = "Some 2" and sent = 2 and E = calm
      and now = 7 and s = empty_world]
    handleTimestamp_rules [where data = "skewed_event\<lparr>d_timestamp := Some ''yesterday''\<rparr>"
      and t = "''yesterday''" and sentAt = "Some 2" and sent = 2 and E = strict
      and e = "Error ''Invalid DateTime''" and now = 7 and s = empty_world]
    handleTimestamp_rules [where data = skewed_event and t = "''2023-12-31T23:59:50Z''"
      and sentAt = None and E = calm and now = 7 and s = empty_world]
    handleTimestamp_rules [where data = "skewed_event\<lparr>d_timestamp := Some ''yesterday''\<rparr>"
      and t = "''yesterday''" and sentAt = None and E = calm and now = 7 and s = empty_world]
    handleTimestamp_rules [where data = "skewed_event\<lparr>d_timestamp := None, d_offset := Some 3\<rparr>"
      and off = 3 and E = calm and now = 7 and sentAt = None and s = empty_world]
    handleTimestamp_rules [where data = "skewed_event\<lparr>d_timestamp := None\<rparr>"
      and E = calm and now = 7 and sentAt = "Some 2" and s = empty_world]
  by (simp add: skewed_event_def calm_def strict_def empty_world_def parse_client parse_unparsable)

text \<open>
  Claim C3 as stated fails for a client timestamp that is present and the empty string.
  By the second rule the result would be that string parsed as ISO-8601, which is the
  invalid \<open>DateTime\<close>, and by the first, with \<open>sent_at\<close>, \<open>now + (timestamp - sent_at)\<close>, which
  is invalid as well; the code takes the timestamp for absent and returns \<open>now\<close>.
\<close>

theorem handleTimestamp_counterexample:
  "handleTimestamp calm (skewed_event\<lparr>d_timestamp := Some []\<rparr>) 7 None empty_world
     = (Valid 7, empty_world)
   \<and> DateTime_fromISO calm [] = Invalid
   \<and> handleTimestamp calm (skewed_event\<lparr>d_timestamp := Some []\<rparr>) 7 (Some 2) empty_world
     = (Valid 7, empty_world)
   \<and> DateTime_fromJSDate calm [] = Inr Invalid"
  by code_simp

section \<open>What recording an event leaves behind\<close>

lemma createEvent_emits:
  assumes "createEvent E u event teamId distinctId props ts elements siteUrl s
             = (Inr (payload, eventId, els), s')"
  shows "ev_uuid payload = u \<and> ev_event payload = event \<and> ev_properties payload = props
     \<and> ev_teamId payload = teamId \<and> ev_distinctId payload = distinctId \<and> els = elements
     \<and> (if kafkaProducer E
         then eventId = None
              \<and> (\<exists>m. last (kafka_queue s') = \<lparr>topic = KAFKA_EVENTS, messages = [m]\<rparr>
                     \<and> msg_key m = Some u
                     \<and> map_of (own_props (Some (msg_value m))) ''properties'' = Some (PObj props))
         else posthog_event s' \<noteq> []
              \<and> eventId = Some (row_id (last (posthog_event s')))
              \<and> row_event (last (posthog_event s')) = event
              \<and> row_distinct_id (last (posthog_event s')) = distinctId
              \<and> row_team_id (last (posthog_event s')) = teamId
              \<and> row_properties (last (posthog_event s')) = props)"
  using assms
  by (auto simp: createEvent_def Let_def bind_def return_def queueMessage_def call_def
      own_props_def split: if_splits prod.splits sum.splits option.splits)

lemma createSessionRecordingEvent_emits:
  assumes "createSessionRecordingEvent E u teamId distinctId session_id ts snapshot_data
             personUuid s = (Inr recorded, s')"
  shows "if kafkaProducer E
         then \<exists>m. last (kafka_queue s')
                     = \<lparr>topic = KAFKA_SESSION_RECORDING_EVENTS, messages = [m]\<rparr>
                   \<and> msg_key m = Some u
         else posthog_sessionrecordingevent s' \<noteq> []
              \<and> recorded = Inr (last (posthog_sessionrecordingevent s'))
              \<and> psre_distinct_id (last (posthog_sessionrecordingevent s')) = distinctId
              \<and> psre_team_id (last (posthog_sessionrecordingevent s')) = teamId
              \<and> psre_snapshot_data (last (posthog_sessionrecordingevent s')) = snapshot_data"
  using assms
  by (auto simp: createSessionRecordingEvent_def Let_def bind_def return_def queueMessage_def
      call_def split: if_splits prod.splits sum.splits option.splits)

text \<open>A \<open>capture\<close> that returns has ended with \<open>createEvent\<close>, on the properties it built.\<close>

lemma capture_ends_with_createEvent:
  assumes "capture E eventUuid personUuid ip siteUrl teamId event distinctId props ts sentAt s
             = (Inr r, s')"
  shows "\<exists>team s1 s3.
           fetchTeam E teamId s = (Inr (Some team), s1)
           \<and> createEvent E eventUuid (sanitizeEventName E event) teamId distinctId
               (personInitialAndUTMProperties E
                  (let props0 = (case map_of props ''$elements'' of
                                   Some (PArr (x # xs)) \<Rightarrow> AList.delete ''$elements'' props
                                 | _ \<Rightarrow> props)
                   in case ip of
                        Some (c # cs) \<Rightarrow>
                          if \<not> anonymize_ips team \<and> map_of props0 ''$ip'' = None
                          then AList.update ''$ip'' (PStr (c # cs)) props0
                          else props0
                      | _ \<Rightarrow> props0))
               ts
               (case map_of props ''$elements'' of
                  Some (PArr (x # xs)) \<Rightarrow> extractElements E (x # xs) | _ \<Rightarrow> [])
               siteUrl s3 = (Inr r, s')"
proof -
  obtain props0 elementsList where pe:
    "(case map_of props ''$elements'' of
        Some (PArr (x # xs)) \<Rightarrow> (AList.delete ''$elements'' props, extractElements E (x # xs))
      | _ \<Rightarrow> (props, [])) = (props0, elementsList)" by fastforce
  then have p0: "props0 = (case map_of props ''$elements'' of
                                   Some (PArr (x # xs)) \<Rightarrow> AList.delete ''$elements'' props
                                 | _ \<Rightarrow> props)"
    and el: "elementsList = (case map_of props ''$elements'' of
                  Some (PArr (x # xs)) \<Rightarrow> extractElements E (x # xs) | _ \<Rightarrow> [])"
    by (auto split: option.splits pval.splits list.splits)
  from assms pe obtain team s1 where
    f: "fetchTeam E teamId s = (Inr (Some team), s1)"
    by (cases "fetchTeam E teamId s")
       (auto simp: capture_def Let_def bind_def throw_def split: sum.splits option.splits)
  show ?thesis
    using assms pe f unfolding p0 [symmetric] el [symmetric]
    by (auto simp: capture_def Let_def bind_def return_def
        split: sum.splits option.splits prod.splits if_splits list.splits)
qed

lemma capture_emits:
  assumes "capture E eventUuid personUuid ip siteUrl teamId event distinctId props ts sentAt s
             = (Inr (ev, eventId, els), s')"
  shows "ev_uuid ev = eventUuid \<and> ev_event ev = sanitizeEventName E event
     \<and> ev_teamId ev = teamId \<and> ev_distinctId ev = distinctId
     \<and> (if kafkaProducer E
         then \<exists>m. last (kafka_queue s') = \<lparr>topic = KAFKA_EVENTS, messages = [m]\<rparr>
                \<and> msg_key m = Some eventUuid
         else posthog_event s' \<noteq> []
              \<and> eventId = Some (row_id (last (posthog_event s')))
              \<and> row_event (last (posthog_event s')) = sanitizeEventName E event
              \<and> row_distinct_id (last (posthog_event s')) = distinctId
              \<and> row_team_id (last (posthog_event s')) = teamId)"
proof -
  from capture_ends_with_createEvent [OF assms] obtain P L s3 where
    "createEvent E eventUuid (sanitizeEventName E event) teamId distinctId P ts L siteUrl s3
       = (Inr (ev, eventId, els), s')" by blast
  from createEvent_emits [OF this] show ?thesis by (auto split: if_splits)
qed

section \<open>The address of the sender\<close>

text \<open>
  Claim C7, as the code has it. Let \<open>props0\<close> be the properties that \<open>capture\<close> is given, less
  \<open>$elements\<close> when that is a non-empty array. In the event that \<open>capture\<close> emits, the
  properties are those that \<open>personInitialAndUTMProperties\<close> makes of \<open>props0\<close> with \<open>$ip\<close> set
  to the address, exactly when the address is neither null nor the empty string, the team
  does not anonymize addresses and \<open>$ip\<close> is not among the properties yet; otherwise they
  are those it makes of \<open>props0\<close> as it is. Setting \<open>$ip\<close> touches no other property. The
  message queued or the row inserted carries the properties of that event.
\<close>

theorem capture_injects_ip:
  assumes "capture E eventUuid personUuid ip siteUrl teamId event distinctId props timestamp
             sentAt s = (Inr (ev, eventId, els), s')"
      and "fetchTeam E teamId s = (Inr (Some team), s1)"
      and "props0 = (case map_of props ''$elements'' of
                       Some (PArr (x # xs)) \<Rightarrow> AList.delete ''$elements'' props
                     | _ \<Rightarrow> props)"
  shows "(ip = Some a \<and> a \<noteq> [] \<and> \<not> anonymize_ips team \<and> map_of props ''$ip'' = None
            \<longrightarrow> ev_properties ev
                  = personInitialAndUTMProperties E (AList.update ''$ip'' (PStr a) props0)
                \<and> map_of (AList.update ''$ip'' (PStr a) props0) ''$ip'' = Some (PStr a)
                \<and> (\<forall>k. k \<noteq> ''$ip''
                       \<longrightarrow> map_of (AList.update ''$ip'' (PStr a) props0) k = map_of props0 k))
       \<and> (ip = None \<or> ip = Some [] \<or> anonymize_ips team \<or> map_of props ''$ip'' \<noteq> None
            \<longrightarrow> ev_properties ev = personInitialAndUTMProperties E props0)
       \<and> (if kafkaProducer E
           then \<exists>m. last (kafka_queue s') = \<lparr>topic = KAFKA_EVENTS, messages = [m]\<rparr>
                  \<and> map_of (own_props (Some (msg_value m))) ''properties''
                      = Some (PObj (ev_properties ev))
           else row_properties (last (posthog_event s')) = ev_properties ev)"
proof -
  from capture_ends_with_createEvent [OF assms(1)] assms(2) obtain s3 where
    c: "createEvent E eventUuid (sanitizeEventName E event) teamId distinctId
               (personInitialAndUTMProperties E
                  (let props0 = (case map_of props ''$elements'' of
                                   Some (PArr (x # xs)) \<Rightarrow> AList.delete ''$elements'' props
                                 | _ \<Rightarrow> props)
                   in case ip of
                        Some (c # cs) \<Rightarrow>
                          if \<not> anonymize_ips team \<and> map_of props0 ''$ip'' = None
                          then AList.update ''$ip'' (PStr (c # cs)) props0
                          else props0
                      | _ \<Rightarrow> props0))
               timestamp
               (case map_of props ''$elements'' of
                  Some (PArr (x # xs)) \<Rightarrow> extractElements E (x # xs) | _ \<Rightarrow> [])
               siteUrl s3 = (Inr (ev, eventId, els), s')" by auto
  have ip0: "map_of props0 ''$ip'' = map_of props ''$ip''"
    unfolding assms(3)
    by (auto simp: delete_conv' split: option.splits pval.splits list.splits)
  note e = createEvent_emits [OF c, unfolded Let_def assms(3) [symmetric]]
  from e have p: "ev_properties ev
      = personInitialAndUTMProperties E
          (case ip of
             Some (c # cs) \<Rightarrow>
               if \<not> anonymize_ips team \<and> map_of props0 ''$ip'' = None
               then AList.update ''$ip'' (PStr (c # cs)) props0
               else props0
           | _ \<Rightarrow> props0)" by simp
  show ?thesis
  proof (intro conjI impI allI)
    assume a: "ip = Some a \<and> a \<noteq> [] \<and> \<not> anonymize_ips team \<and> map_of props ''$ip'' = None"
    with p ip0 show "ev_properties ev
                  = personInitialAndUTMProperties E (AList.update ''$ip'' (PStr a) props0)"
      by (auto split: list.splits)
    show "map_of (AList.update ''$ip'' (PStr a) props0) ''$ip'' = Some (PStr a)"
      by (simp add: update_conv')
  next
    fix k :: string
    assume "k \<noteq> ''$ip''"
    then show "map_of (AList.update ''$ip'' (PStr a) props0) k = map_of props0 k"
      by (simp add: update_conv')
  next
    assume "ip = None \<or> ip = Some [] \<or> anonymize_ips team \<or> map_of props ''$ip'' \<noteq> None"
    with p ip0 show "ev_properties ev = personInitialAndUTMProperties E props0"
      by (auto split: option.splits list.splits)
  next
    from e show "if kafkaProducer E
           then \<exists>m. last (kafka_queue s') = \<lparr>topic = KAFKA_EVENTS, messages = [m]\<rparr>
                  \<and> map_of (own_props (Some (msg_value m))) ''properties''
                      = Some (PObj (ev_properties ev))
           else row_properties (last (posthog_event s')) = ev_properties ev"
      by (auto split: if_splits)
  qed
qed

theorem capture_injects_ip_witness:
  "ev_properties (fst (projr (fst (capture calm ''e1'' ''p1'' (Some ''127.0.0.1'') ''url'' 2
        ''pageview'' ''d1'' [(''key'', PStr ''value'')] (Valid 5) None empty_world))))
     = [(''key'', PStr ''value''), (''$ip'', PStr ''127.0.0.1'')]
   \<and> map row_properties (posthog_event (snd (capture calm ''e1'' ''p1'' (Some ''127.0.0.1'')
        ''url'' 2 ''pageview'' ''d1'' [(''key'', PStr ''value'')] (Valid 5) None empty_world)))
     = [[(''key'', PStr ''value''), (''$ip'', PStr ''127.0.0.1'')]]
   \<and> ev_properties (fst (projr (fst (capture discreet ''e1'' ''p1'' (Some ''127.0.0.1'') ''url'' 2
        ''pageview'' ''d1'' [(''key'', PStr ''value'')] (Valid 5) None empty_world))))
     = [(''key'', PStr ''value'')]
   \<and> ev_properties (fst (projr (fst (capture calm ''e1'' ''p1'' (Some ''127.0.0.1'') ''url'' 2
        ''pageview'' ''d1'' [(''$ip'', PStr ''10.0.0.1'')] (Valid 5) None empty_world))))
     = [(''$ip'', PStr ''10.0.0.1'')]"
proof -
  let ?c1 = "capture calm ''e1'' ''p1'' (Some ''127.0.0.1'') ''url'' 2
        ''pageview'' ''d1'' [(''key'', PStr ''value'')] (Valid 5) None empty_world"
  let ?c2 = "capture discreet ''e1'' ''p1'' (Some ''127.0.0.1'') ''url'' 2
        ''pageview'' ''d1'' [(''key'', PStr ''value'')] (Valid 5) None empty_world"
  let ?c3 = "capture calm ''e1'' ''p1'' (Some ''127.0.0.1'') ''url'' 2
        ''pageview'' ''d1'' [(''$ip'', PStr ''10.0.0.1'')] (Valid 5) None empty_world"
  have h1: "?c1 = (Inr (fst (projr (fst ?c1)), fst (snd (projr (fst ?c1))),
                        snd (snd (projr (fst ?c1)))), snd ?c1)" by code_simp
  have h2: "?c2 = (Inr (fst (projr (fst ?c2)), fst (snd (projr (fst ?c2))),
                        snd (snd (projr (fst ?c2)))), snd ?c2)" by code_simp
  have h3: "?c3 = (Inr (fst (projr (fst ?c3)), fst (snd (projr (fst ?c3))),
                        snd (snd (projr (fst ?c3)))), snd ?c3)" by code_simp
  have f1: "fetchTeam calm 2 empty_world
              = (Inr (Some \<lparr>team_pk = 2, anonymize_ips = False\<rparr>), empty_world)"
    by (simp add: calm_def)
  have f2: "fetchTeam discreet 2 empty_world
              = (Inr (Some \<lparr>team_pk = 2, anonymize_ips = True\<rparr>), empty_world)"
    by (simp add: discreet_def calm_def)
  have p1: "[(''key'', PStr ''value'')]
              = (case map_of [(''key'', PStr ''value'')] ''$elements'' of
                   Some (PArr (x # xs)) \<Rightarrow> AList.delete ''$elements'' [(''key'', PStr ''value'')]
                 | _ \<Rightarrow> [(''key'', PStr ''value'')])" by simp
  have p3: "[(''$ip'', PStr ''10.0.0.1'')]
              = (case map_of [(''$ip'', PStr ''10.0.0.1'')] ''$elements'' of
                   Some (PArr (x # xs)) \<Rightarrow> AList.delete ''$elements'' [(''$ip'', PStr ''10.0.0.1'')]
                 | _ \<Rightarrow> [(''$ip'', PStr ''10.0.0.1'')])" by simp
  have rows: "length (posthog_event (snd ?c1)) = 1" by code_simp
  then have one: "map row_properties (posthog_event (snd ?c1))
                    = [row_properties (last (posthog_event (snd ?c1)))]"
    by (cases "posthog_event (snd ?c1)") auto
  have k: "\<not> kafkaProducer calm" "personInitialAndUTMProperties calm = (\<lambda>ps. ps)"
    "personInitialAndUTMProperties discreet = (\<lambda>ps. ps)"
    by (simp_all add: calm_def discreet_def)
  from capture_injects_ip [OF h1 f1 p1, of "''127.0.0.1''"] k
  have c1: "ev_properties (fst (projr (fst ?c1)))
              = [(''key'', PStr ''value''), (''$ip'', PStr ''127.0.0.1'')]"
    and r1: "row_properties (last (posthog_event (snd ?c1))) = ev_properties (fst (projr (fst ?c1)))"
    by simp_all
  from capture_injects_ip [OF h2 f2 p1, of "''127.0.0.1''"] k
  have c2: "ev_properties (fst (projr (fst ?c2))) = [(''key'', PStr ''value'')]"
    by simp
  from capture_injects_ip [OF h3 f1 p3, of "''127.0.0.1''"] k
  have c3: "ev_properties (fst (projr (fst ?c3))) = [(''$ip'', PStr ''10.0.0.1'')]"
    by simp
  from c1 r1 one c2 c3 show ?thesis by simp
qed

text \<open>
  Claim C7 as stated fails for an address that is the empty string: it is not null, the
  team keeps addresses and \<open>$ip\<close> is absent, yet the event that \<open>capture\<close> emits and the row
  it inserts have no \<open>$ip\<close>.
\<close>

theorem capture_ip_counterexample:
  "ev_properties (fst (projr (fst (capture calm ''e1'' ''p1'' (Some []) ''url'' 2 ''pageview''
        ''d1'' [] (Valid 0) None empty_world)))) = []
   \<and> map row_properties (posthog_event (snd (capture calm ''e1'' ''p1'' (Some []) ''url'' 2
        ''pageview'' ''d1'' [] (Valid 0) None empty_world))) = [[]]
   \<and> fst (fetchTeam calm 2 empty_world) = Inr (Some \<lparr>team_pk = 2, anonymize_ips = False\<rparr>)"
  by code_simp

section \<open>The check of the event UUID\<close>

text \<open>
  Claim C8. With an \<open>eventUuid\<close> that \<open>UUID.validateString\<close> rejects, \<open>processEvent\<close> throws
  the error \<open>Not a valid UUID\<close> and the state of the database and of the sinks is the one
  it started from; with one that it accepts, \<open>processEvent\<close> goes on with its body.
\<close>

theorem invalid_uuid_rejected:
  "(\<not> UUID_validateString E eventUuid
      \<longrightarrow> processEvent fuel E distinctId ip siteUrl data teamId now sentAt eventUuid s
            = Some (Inl (Error (''Not a valid UUID: '' @ [CHR 0x22] @ eventUuid @ [CHR 0x22])), s))
   \<and> (UUID_validateString E eventUuid
      \<longrightarrow> processEvent fuel E distinctId ip siteUrl data teamId now sentAt eventUuid s
            = processEvent_try fuel E distinctId ip siteUrl data teamId now sentAt eventUuid s)"
  by (simp add: processEvent_def)

theorem invalid_uuid_rejected_witness:
  "processEvent 8 calm ''d1'' None ''url'' skewed_event 2 5 None ''nope'' empty_world
     = Some (Inl (Error (''Not a valid UUID: '' @ [CHR 0x22] @ ''nope'' @ [CHR 0x22])), empty_world)
   \<and> processEvent 8 calm ''d1'' None ''url'' skewed_event 2 5 None
        ''0179aaaa-0000-0000-0000-000000000001'' empty_world
     = processEvent_try 8 calm ''d1'' None ''url'' skewed_event 2 5 None
        ''0179aaaa-0000-0000-0000-000000000001'' empty_world"
  using
    invalid_uuid_rejected [where E = calm and eventUuid = "''nope''" and fuel = 8
      and distinctId = "''d1''" and ip = None and siteUrl = "''url''" and data = skewed_event
      and teamId = 2 and now = 5 and sentAt = None and s = empty_world]
    invalid_uuid_rejected [where E = calm
      and eventUuid = "''0179aaaa-0000-0000-0000-000000000001''" and fuel = 8
      and distinctId = "''d1''" and ip = None and siteUrl = "''url''" and data = skewed_event
      and teamId = 2 and now = 5 and sentAt = None and s = empty_world]
  by (simp add: calm_def)

section \<open>Fetching an organization\<close>

lemma select_organization_by_id:
  "select_organization ''SELECT * FROM posthog_organization WHERE id = $1'' [v] s
     = Inr (filter (\<lambda>r. org_id r = v) (posthog_organization s))"
  by (simp add: select_organization_def)

text \<open>
  Claim C9 does not hold of the code. The statement that \<open>fetchOrganization\<close> sends has the
  predicate \<open>WHERE id $1\<close>, without the equality sign, so Postgres rejects it: for every
  organization id and in every state the call fails, and neither a row nor \<open>undefined\<close>
  is returned.
\<close>

theorem fetchOrganization_fails:
  "\<exists>e. fst (fetchOrganization E organizationId s) = Inl e"
  by (simp add: fetchOrganization_def bind_def call_def Let_def select_organization_def
      fetchOrganization_sql_def split: option.splits)

section \<open>The timestamps of the records emitted\<close>

text \<open>
  Claim C10. In the event that \<open>createEvent\<close> builds and in the record that
  \<open>createSessionRecordingEvent\<close> builds, \<open>created_at\<close> is the same string as \<open>timestamp\<close>: the
  canonical timestamp in the format of the sink. The message queued and the row inserted
  carry that string in both fields.
\<close>

theorem created_at_is_timestamp:
  "(createEvent E uuid' event teamId distinctId props timestamp elements siteUrl s
      = (Inr (payload, eventId, els), s')
    \<longrightarrow> ev_createdAt payload = ev_timestamp payload
        \<and> ev_timestamp payload
            = castTimestampOrNow E timestamp (if kafkaProducer E then ClickHouse else ISO)
        \<and> (if kafkaProducer E
            then \<exists>m. last (kafka_queue s') = \<lparr>topic = KAFKA_EVENTS, messages = [m]\<rparr>
                   \<and> map_of (own_props (Some (msg_value m))) ''createdAt''
                       = Some (PStr (ev_timestamp payload))
                   \<and> map_of (own_props (Some (msg_value m))) ''timestamp''
                       = Some (PStr (ev_timestamp payload))
            else row_created_at (last (posthog_event s')) = ev_timestamp payload
                   \<and> row_timestamp (last (posthog_event s')) = ev_timestamp payload))
   \<and> (createSessionRecordingEvent E uuid' teamId distinctId session_id timestamp snapshot_data
         personUuid s = (Inr recorded, s')
    \<longrightarrow> (case recorded of
           Inl data \<Rightarrow>
             sre_created_at data = sre_timestamp data
             \<and> sre_timestamp data = castTimestampOrNow E timestamp ClickHouse
         | Inr row \<Rightarrow>
             psre_created_at row = psre_timestamp row
             \<and> psre_timestamp row = castTimestampOrNow E timestamp ISO
             \<and> last (posthog_sessionrecordingevent s') = row))"
proof (intro conjI impI)
  assume a: "createEvent E uuid' event teamId distinctId props timestamp elements siteUrl s
      = (Inr (payload, eventId, els), s')"
  show "ev_createdAt payload = ev_timestamp payload"
    using a by (auto simp: createEvent_def Let_def bind_def return_def
        split: if_splits prod.splits sum.splits)
  show "ev_timestamp payload
            = castTimestampOrNow E timestamp (if kafkaProducer E then ClickHouse else ISO)"
    using a by (auto simp: createEvent_def Let_def bind_def return_def
        split: if_splits prod.splits sum.splits)
  show "if kafkaProducer E
            then \<exists>m. last (kafka_queue s') = \<lparr>topic = KAFKA_EVENTS, messages = [m]\<rparr>
                   \<and> map_of (own_props (Some (msg_value m))) ''createdAt''
                       = Some (PStr (ev_timestamp payload))
                   \<and> map_of (own_props (Some (msg_value m))) ''timestamp''
                       = Some (PStr (ev_timestamp payload))
            else row_created_at (last (posthog_event s')) = ev_timestamp payload
                   \<and> row_timestamp (last (posthog_event s')) = ev_timestamp payload"
    using a by (auto simp: createEvent_def Let_def bind_def return_def queueMessage_def call_def
        own_props_def split: if_splits prod.splits sum.splits option.splits)
next
  assume a: "createSessionRecordingEvent E uuid' teamId distinctId session_id timestamp
         snapshot_data personUuid s = (Inr recorded, s')"
  show "case recorded of
           Inl data \<Rightarrow>
             sre_created_at data = sre_timestamp data
             \<and> sre_timestamp data = castTimestampOrNow E timestamp ClickHouse
         | Inr row \<Rightarrow>
             psre_created_at row = psre_timestamp row
             \<and> psre_timestamp row = castTimestampOrNow E timestamp ISO
             \<and> last (posthog_sessionrecordingevent s') = row"
    using a by (auto simp: createSessionRecordingEvent_def Let_def bind_def return_def
        queueMessage_def call_def split: if_splits prod.splits sum.splits option.splits)
qed

theorem created_at_is_timestamp_witness:
  "createEvent calm ''e1'' ''pageview'' 2 ''d1'' [] (Valid 5) [] ''url'' empty_world
     = (Inr (\<lparr>ev_uuid = ''e1'', ev_event = ''pageview'', ev_properties = [],
              ev_timestamp = ''5'', ev_teamId = 2, ev_distinctId = ''d1'',
              ev_elementsChain = [], ev_createdAt = ''5''\<rparr>, Some 1, []),
        empty_world\<lparr>posthog_event :=
            [\<lparr>row_id = 1, row_created_at = ''5'', row_event = ''pageview'',
              row_distinct_id = ''d1'', row_properties = [], row_team_id = 2,
              row_timestamp = ''5'', row_elements = [], row_elements_hash = []\<rparr>],
          next_id := 2, calls := 1\<rparr>)
   \<and> createSessionRecordingEvent calm ''e2'' 2 ''d'' None (Valid 5) None ''p1'' red_world
     = (Inr (Inr \<lparr>psre_id = 3, psre_created_at = ''5'', psre_team_id = 2,
                  psre_distinct_id = ''d'', psre_session_id = None, psre_timestamp = ''5'',
                  psre_snapshot_data = None\<rparr>),
        red_world\<lparr>posthog_sessionrecordingevent :=
            [\<lparr>psre_id = 3, psre_created_at = ''5'', psre_team_id = 2,
              psre_distinct_id = ''d'', psre_session_id = None, psre_timestamp = ''5'',
              psre_snapshot_data = None\<rparr>],
          next_id := 4, calls := 1\<rparr>)
   \<and> castTimestampOrNow calm (Valid 5) ISO = ''5''"
proof -
  have h1: "createEvent calm ''e1'' ''pageview'' 2 ''d1'' [] (Valid 5) [] ''url'' empty_world
     = (Inr (\<lparr>ev_uuid = ''e1'', ev_event = ''pageview'', ev_properties = [],
              ev_timestamp = ''5'', ev_teamId = 2, ev_distinctId = ''d1'',
              ev_elementsChain = [], ev_createdAt = ''5''\<rparr>, Some 1, []),
        empty_world\<lparr>posthog_event :=
            [\<lparr>row_id = 1, row_created_at = ''5'', row_event = ''pageview'',
              row_distinct_id = ''d1'', row_properties = [], row_team_id = 2,
              row_timestamp = ''5'', row_elements = [], row_elements_hash = []\<rparr>],
          next_id := 2, calls := 1\<rparr>)"
    by code_simp
  have h2: "createSessionRecordingEvent calm ''e2'' 2 ''d'' None (Valid 5) None ''p1'' red_world
     = (Inr (Inr \<lparr>psre_id = 3, psre_created_at = ''5'', psre_team_id = 2,
                  psre_distinct_id = ''d'', psre_session_id = None, psre_timestamp = ''5'',
                  psre_snapshot_data = None\<rparr>),
        red_world\<lparr>posthog_sessionrecordingevent :=
            [\<lparr>psre_id = 3, psre_created_at = ''5'', psre_team_id = 2,
              psre_distinct_id = ''d'', psre_session_id = None, psre_timestamp = ''5'',
              psre_snapshot_data = None\<rparr>],
          next_id := 4, calls := 1\<rparr>)"
    by code_simp
  from created_at_is_timestamp [THEN conjunct1, rule_format, OF h1]
       created_at_is_timestamp [THEN conjunct2, rule_format, OF h2]
  show ?thesis using h1 h2 by (simp add: calm_def)
qed

section \<open>The messages of the person mutations\<close>

lemma queueMessage_queue:
  "queueMessage E m s = (Inr x, s') \<Longrightarrow> kafka_queue s' = kafka_queue s @ [m]"
  by (auto simp: queueMessage_def call_def Let_def split: option.splits)

lemma forEach_queueMessage:
  "forEach ms (queueMessage E) s = (Inr x, s') \<Longrightarrow> kafka_queue s' = kafka_queue s @ ms"
proof (induction ms arbitrary: s)
  case Nil
  then show ?case by (simp add: return_def)
next
  case (Cons m ms)
  then show ?case
    by (auto simp: bind_def split: prod.splits sum.splits dest!: queueMessage_queue)
qed

lemma addDistinctIdPooled_message:
  "addDistinctIdPooled E person d s = Inr (m, s') \<Longrightarrow>
     kafka_queue s' = kafka_queue s \<and> (\<forall>r. m = Some r \<longrightarrow> unkeyed_with_uuid (uuid person) r)"
  by (auto simp: addDistinctIdPooled_def Let_def unkeyed_with_uuid_def own_props_def
      split: option.splits if_splits)

lemma addDistinctIds_messages:
  "addDistinctIds E person ds ms s = Inr (ms', s') \<Longrightarrow>
     \<forall>r \<in> set ms. unkeyed_with_uuid (uuid person) r \<Longrightarrow>
     kafka_queue s' = kafka_queue s \<and> (\<forall>r \<in> set ms'. unkeyed_with_uuid (uuid person) r)"
proof (induction ds arbitrary: ms s)
  case Nil
  then show ?case by simp
next
  case (Cons d ds)
  from Cons.prems(1) obtain m s1 where
    a: "addDistinctIdPooled E person d s = Inr (m, s1)" and
    b: "addDistinctIds E person ds (case m of Some x \<Rightarrow> ms @ [x] | None \<Rightarrow> ms) s1 = Inr (ms', s')"
    by (auto split: sum.splits)
  from addDistinctIdPooled_message [OF a] Cons.prems(2)
  have "\<forall>r \<in> set (case m of Some x \<Rightarrow> ms @ [x] | None \<Rightarrow> ms). unkeyed_with_uuid (uuid person) r"
    and q: "kafka_queue s1 = kafka_queue s"
    by (auto split: option.splits)
  from Cons.IH [OF b this(1)] q show ?case by simp
qed

lemma person_message_unkeyed: "unkeyed_with_uuid (uuid p) (person_message E p fmt)"
  by (simp add: unkeyed_with_uuid_def person_message_def own_props_def)

lemma createPerson_transaction_messages:
  assumes "createPerson_transaction E createdAt props teamId isUserId isIdentified u ds s
             = Inr ((p, ms), s')"
  shows "uuid p = u \<and> kafka_queue s' = kafka_queue s \<and> (\<forall>r \<in> set ms. unkeyed_with_uuid u r)"
proof -
  let ?p = "\<lparr>pid = next_id s, created_at = createdAt, team_id = teamId,
                     properties = props, is_user_id = isUserId,
                     is_identified = isIdentified, uuid = u\<rparr>"
  let ?s1 = "s\<lparr>posthog_person := posthog_person s @ [?p], next_id := Suc (next_id s)\<rparr>"
  let ?ms = "if kafkaProducer E then [person_message E ?p ClickHouse] else []"
  from assms have a: "addDistinctIds E ?p ds ?ms ?s1 = Inr (ms, s')" and p: "p = ?p"
    by (auto simp: createPerson_transaction_def Let_def split: sum.splits)
  have "\<forall>r \<in> set ?ms. unkeyed_with_uuid (uuid ?p) r"
    using person_message_unkeyed [of ?p E ClickHouse] by simp
  from addDistinctIds_messages [OF a this] p show ?thesis by simp
qed

text \<open>
  Claim C6, as the code has it. The messages that the person mutations \<open>createPerson\<close>,
  \<open>addDistinctId\<close>, \<open>updatePerson\<close> and \<open>moveDistinctId\<close> queue for the log producer have no key.
  The UUID of the person travels in the value: as \<open>id\<close> in a message on the person topic,
  as \<open>person_id\<close> in a message on the distinct-id topic (a distinct-id row has no UUID of
  its own).
\<close>

theorem person_messages_unkeyed:
  "(createPerson E createdAt props teamId isUserId isIdentified u distinctIds s = (Inr p, s')
      \<longrightarrow> uuid p = u
          \<and> (\<exists>new. kafka_queue s' = kafka_queue s @ new \<and> (\<forall>r \<in> set new. unkeyed_with_uuid u r)))
   \<and> (addDistinctId E person distinctId s = (Inr x, s')
      \<longrightarrow> (\<exists>new. kafka_queue s' = kafka_queue s @ new
                 \<and> (\<forall>r \<in> set new. unkeyed_with_uuid (uuid person) r)))
   \<and> (updatePerson E person update s = (Inr p, s')
      \<longrightarrow> (\<exists>new. kafka_queue s' = kafka_queue s @ new
                 \<and> (\<forall>r \<in> set new. unkeyed_with_uuid (uuid person) r)))
   \<and> (moveDistinctId E person personDistinctId moveToPerson s = (Inr x, s')
      \<longrightarrow> (\<exists>new. kafka_queue s' = kafka_queue s @ new
                 \<and> (\<forall>r \<in> set new. unkeyed_with_uuid (uuid moveToPerson) r)))"
proof (intro conjI impI)
  assume a: "createPerson E createdAt props teamId isUserId isIdentified u distinctIds s = (Inr p, s')"
  then obtain ms s1 where
    t: "createPerson_transaction E createdAt props teamId isUserId isIdentified u distinctIds
          (s\<lparr>calls := Suc (calls s)\<rparr>) = Inr ((p, ms), s1)" and
    q: "(if kafkaProducer E then forEach ms (queueMessage E) else return ()) s1 = (Inr (), s')"
    by (auto simp: createPerson_def bind_def call_def Let_def return_def
        split: option.splits sum.splits prod.splits)
  from createPerson_transaction_messages [OF t]
  have u: "uuid p = u" and k: "kafka_queue s1 = kafka_queue s"
    and m: "\<forall>r \<in> set ms. unkeyed_with_uuid u r" by simp_all
  show "uuid p = u" by (rule u)
  show "\<exists>new. kafka_queue s' = kafka_queue s @ new \<and> (\<forall>r \<in> set new. unkeyed_with_uuid u r)"
  proof (cases "kafkaProducer E")
    case True
    with q forEach_queueMessage have "kafka_queue s' = kafka_queue s1 @ ms" by auto
    with k m show ?thesis by auto
  next
    case False
    with q k have "kafka_queue s' = kafka_queue s @ []" by (simp add: return_def)
    then show ?thesis by (intro exI [of _ "[]"]) simp
  qed
next
  assume a: "addDistinctId E person distinctId s = (Inr x, s')"
  then obtain m s1 where
    t: "addDistinctIdPooled E person distinctId (s\<lparr>calls := Suc (calls s)\<rparr>) = Inr (m, s1)" and
    q: "(case m of Some r \<Rightarrow> if kafkaProducer E then queueMessage E r else return ()
         | None \<Rightarrow> return ()) s1 = (Inr (), s')"
    by (auto simp: addDistinctId_def bind_def call_def Let_def
        split: option.splits sum.splits prod.splits)
  from addDistinctIdPooled_message [OF t]
  have k: "kafka_queue s1 = kafka_queue s"
    and m: "\<forall>r. m = Some r \<longrightarrow> unkeyed_with_uuid (uuid person) r" by simp_all
  show "\<exists>new. kafka_queue s' = kafka_queue s @ new
                 \<and> (\<forall>r \<in> set new. unkeyed_with_uuid (uuid person) r)"
  proof (cases "\<exists>r. m = Some r \<and> kafkaProducer E")
    case True
    then obtain r where r: "m = Some r" "kafkaProducer E" by blast
    with q have "kafka_queue s' = kafka_queue s1 @ [r]" by (auto dest: queueMessage_queue)
    with k m r show ?thesis by auto
  next
    case False
    with q k have "kafka_queue s' = kafka_queue s @ []"
      by (auto simp: return_def split: option.splits if_splits)
    then show ?thesis by (intro exI [of _ "[]"]) simp
  qed
next
  assume a: "updatePerson E person update s = (Inr p, s')"
  show "\<exists>new. kafka_queue s' = kafka_queue s @ new
                 \<and> (\<forall>r \<in> set new. unkeyed_with_uuid (uuid person) r)"
  proof (cases "kafkaProducer E")
    case True
    with a have "kafka_queue s' = kafka_queue s
                   @ [person_message E (apply_update person update) ClickHouseSecondPrecision]"
      by (auto simp: updatePerson_def bind_def call_def Let_def return_def
          split: option.splits sum.splits prod.splits dest!: queueMessage_queue)
    moreover have "uuid (apply_update person update) = uuid person"
      by (simp add: apply_update_def)
    ultimately show ?thesis
      using person_message_unkeyed [of "apply_update person update" E ClickHouseSecondPrecision]
      by auto
  next
    case False
    with a have "kafka_queue s' = kafka_queue s @ []"
      by (auto simp: updatePerson_def bind_def call_def Let_def return_def
          split: option.splits sum.splits prod.splits)
    then show ?thesis by (intro exI [of _ "[]"]) simp
  qed
next
  assume a: "moveDistinctId E person personDistinctId moveToPerson s = (Inr x, s')"
  show "\<exists>new. kafka_queue s' = kafka_queue s @ new
                 \<and> (\<forall>r \<in> set new. unkeyed_with_uuid (uuid moveToPerson) r)"
  proof (cases "kafkaProducer E")
    case True
    with a obtain r where "kafka_queue s' = kafka_queue s @ [r]" "unkeyed_with_uuid (uuid moveToPerson) r"
      by (auto simp: moveDistinctId_def bind_def call_def Let_def return_def
          unkeyed_with_uuid_def own_props_def
          split: option.splits sum.splits prod.splits dest!: queueMessage_queue)
    then show ?thesis by auto
  next
    case False
    with a have "kafka_queue s' = kafka_queue s @ []"
      by (auto simp: moveDistinctId_def bind_def call_def Let_def return_def
          split: option.splits sum.splits prod.splits)
    then show ?thesis by (intro exI [of _ "[]"]) simp
  qed
qed

theorem person_messages_unkeyed_witness:
  "map (map msg_key \<circ> messages)
     (kafka_queue (snd (createPerson calm_log 0 [] 2 None False ''U'' [Some ''d1''] empty_world)))
     = [[None], [None]]
   \<and> map (map msg_key \<circ> messages)
       (kafka_queue (snd (addDistinctId calm_log red_person (Some ''d2'') red_world))) = [[None]]
   \<and> map (map msg_key \<circ> messages)
       (kafka_queue (snd (updatePerson calm_log red_person
          \<lparr>upd_created_at = None, upd_properties = None, upd_is_identified = Some True\<rparr>
          red_world))) = [[None]]
   \<and> map (map msg_key \<circ> messages)
       (kafka_queue (snd (moveDistinctId calm_log person_A
          \<lparr>pdi_id = 3, person_id = 1, distinct_id = ''a'', pdi_team_id = 2\<rparr> person_B
          two_persons))) = [[None]]"
proof -
  let ?c = "createPerson calm_log 0 [] 2 None False ''U'' [Some ''d1''] empty_world"
  let ?a = "addDistinctId calm_log red_person (Some ''d2'') red_world"
  let ?u = "updatePerson calm_log red_person
          \<lparr>upd_created_at = None, upd_properties = None, upd_is_identified = Some True\<rparr> red_world"
  let ?m = "moveDistinctId calm_log person_A
          \<lparr>pdi_id = 3, person_id = 1, distinct_id = ''a'', pdi_team_id = 2\<rparr> person_B two_persons"
  have c: "?c = (Inr (projr (fst ?c)), snd ?c)" by code_simp
  have a: "?a = (Inr (), snd ?a)" by code_simp
  have u: "?u = (Inr (projr (fst ?u)), snd ?u)" by code_simp
  have m: "?m = (Inr (), snd ?m)" by code_simp
  have k: "map (map msg_key \<circ> messages) (kafka_queue (snd ?c)) = [[None], [None]]"
    "map (map msg_key \<circ> messages) (kafka_queue (snd ?a)) = [[None]]"
    "map (map msg_key \<circ> messages) (kafka_queue (snd ?u)) = [[None]]"
    "map (map msg_key \<circ> messages) (kafka_queue (snd ?m)) = [[None]]"
    by code_simp+
  from person_messages_unkeyed [THEN conjunct1, rule_format, OF c]
       person_messages_unkeyed [THEN conjunct2, THEN conjunct1, rule_format, OF a]
       person_messages_unkeyed [THEN conjunct2, THEN conjunct2, THEN conjunct1, rule_format, OF u]
       person_messages_unkeyed [THEN conjunct2, THEN conjunct2, THEN conjunct2, rule_format, OF m]
       k
  show ?thesis by simp
qed

text \<open>
  Claim C6 as stated fails: with a log producer configured, \<open>createPerson\<close> queues one
  message for the person topic and one for the distinct-id topic, and neither has a key
  (so none is keyed by the UUID \<open>U\<close> of the person).
\<close>

theorem person_messages_counterexample:
  "fst (createPerson calm_log 0 [] 2 None False ''U'' [Some ''d1''] empty_world)
     = Inr \<lparr>pid = 1, created_at = 0, team_id = 2, properties = [], is_user_id = None,
            is_identified = False, uuid = ''U''\<rparr>
   \<and> map topic (kafka_queue (snd (createPerson calm_log 0 [] 2 None False ''U'' [Some ''d1'']
        empty_world))) = [KAFKA_PERSON, KAFKA_PERSON_UNIQUE_ID]
   \<and> map msg_key (concat (map messages (kafka_queue (snd (createPerson calm_log 0 [] 2 None
        False ''U'' [Some ''d1''] empty_world))))) = [None, None]"
  by code_simp

section \<open>External calls and the tables of persons\<close>

lemma call_cases:
  assumes "call E tag run s = (r, s')"
  obtains (fault) e where "fault E tag (calls s) = Some e" "r = Inl e"
            "s' = s\<lparr>calls := Suc (calls s)\<rparr>"
        | (error) e where "run (s\<lparr>calls := Suc (calls s)\<rparr>) = Inl e" "r = Inl e"
            "s' = s\<lparr>calls := Suc (calls s)\<rparr>"
        | (ok) x where "run (s\<lparr>calls := Suc (calls s)\<rparr>) = Inr (x, s')" "r = Inr x"
proof (cases "fault E tag (calls s)")
  case (Some e)
  with assms have "r = Inl e" "s' = s\<lparr>calls := Suc (calls s)\<rparr>"
    by (simp_all add: call_def Let_def)
  with Some show ?thesis by (rule fault)
next
  case None
  show ?thesis
  proof (cases "run (s\<lparr>calls := Suc (calls s)\<rparr>)")
    case (Inl e)
    with assms None have "r = Inl e" "s' = s\<lparr>calls := Suc (calls s)\<rparr>"
      by (simp_all add: call_def Let_def)
    with Inl show ?thesis by (rule error)
  next
    case (Inr xs)
    obtain x w where xs: "xs = (x, w)" by (cases xs)
    with assms None Inr have "r = Inr x" "s' = w"
      by (simp_all add: call_def Let_def)
    with Inr xs show ?thesis by (intro ok) simp_all
  qed
qed

lemma queueMessage_tables:
  "queueMessage E m s = (r, s') \<Longrightarrow>
     posthog_person s' = posthog_person s
     \<and> posthog_persondistinctid s' = posthog_persondistinctid s
     \<and> (\<forall>e. r = Inl e \<longrightarrow> (\<exists>tag i. fault E tag i = Some e))"
  unfolding queueMessage_def by (erule call_cases) auto

lemma clickhouseQuery_tables:
  "clickhouseQuery E q s = (r, s') \<Longrightarrow>
     posthog_person s' = posthog_person s
     \<and> posthog_persondistinctid s' = posthog_persondistinctid s"
  unfolding clickhouseQuery_def throw_def
  by (cases "clickhouse E") (auto elim!: call_cases)

section \<open>The update of person properties\<close>

lemma updatePerson_result:
  "updatePerson E person update s = (Inr p, s') \<Longrightarrow> p = apply_update person update"
  by (auto simp: updatePerson_def bind_def Let_def return_def split: prod.splits sum.splits)

lemma fast_deep_equal_refl: "fast_deep_equal v v"
proof (induction v)
  case (PArr x)
  then show ?case by (auto simp: all_set_conv_all_nth)
next
  case (PObj x)
  show ?case
  proof (simp, intro conjI ballI)
    fix a assume "a \<in> set x"
    then show "\<exists>y. map_of x (fst a) = Some y"
      by (metis option.exhaust map_of_eq_None_iff image_eqI)
    then obtain y where y: "map_of x (fst a) = Some y" by blast
    then have "(fst a, y) \<in> set x" by (rule map_of_SomeD)
    with PObj have "fast_deep_equal y y" by fastforce
    with y show "case map_of x (fst a) of None \<Rightarrow> False
                 | Some xa \<Rightarrow> (case map_of x (fst a) of None \<Rightarrow> False
                              | Some y \<Rightarrow> fast_deep_equal xa y)" by simp
  qed
qed simp_all

lemma equal_props_refl: "equal_props a a"
  by (simp only: equal_props_def fast_deep_equal_refl)

lemma forEach_queueMessage_tables:
  "forEach ms (queueMessage E) s = (r, s') \<Longrightarrow> posthog_person s' = posthog_person s"
proof (induction ms arbitrary: s)
  case Nil
  then show ?case by (simp add: return_def)
next
  case (Cons m ms)
  then show ?case
    by (auto simp: bind_def split: prod.splits sum.splits dest!: queueMessage_tables)
qed

lemma fetchPerson_found:
  assumes "fetchPerson E teamId distinctId s = (Inr (Some p), s')"
  shows "p \<in> set (posthog_person s') \<and> posthog_person s' = posthog_person s"
proof -
  from assms show ?thesis
    unfolding fetchPerson_def
  proof (cases rule: call_cases)
    case (ok x)
    then show ?thesis
      by (auto simp: Let_def split: list.splits dest!: arg_cong [where f = set])
  qed simp_all
qed

lemma addDistinctIds_persons:
  "addDistinctIds E person ds ms s = Inr (ms', s') \<Longrightarrow> posthog_person s' = posthog_person s"
proof (induction ds arbitrary: ms s)
  case Nil
  then show ?case by simp
next
  case (Cons d ds)
  from Cons.prems obtain m s1 where
    a: "addDistinctIdPooled E person d s = Inr (m, s1)" and
    b: "addDistinctIds E person ds (case m of Some x \<Rightarrow> ms @ [x] | None \<Rightarrow> ms) s1 = Inr (ms', s')"
    by (auto split: sum.splits)
  from a have "posthog_person s1 = posthog_person s"
    by (auto simp: addDistinctIdPooled_def Let_def split: option.splits if_splits)
  with Cons.IH [OF b] show ?case by simp
qed

lemma createPerson_row:
  assumes "createPerson E createdAt props teamId isUserId isIdentified u ds s = (Inr p, s')"
  shows "p \<in> set (posthog_person s') \<and> properties p = props"
proof -
  from assms obtain ms s1 where
    t: "createPerson_transaction E createdAt props teamId isUserId isIdentified u ds
          (s\<lparr>calls := Suc (calls s)\<rparr>) = Inr ((p, ms), s1)" and
    q: "(if kafkaProducer E then forEach ms (queueMessage E) else return ()) s1 = (Inr (), s')"
    by (auto simp: createPerson_def bind_def call_def Let_def return_def
        split: option.splits sum.splits prod.splits)
  let ?s = "s\<lparr>calls := Suc (calls s)\<rparr>"
  let ?p = "\<lparr>pid = next_id ?s, created_at = createdAt, team_id = teamId,
                     properties = props, is_user_id = isUserId,
                     is_identified = isIdentified, uuid = u\<rparr>"
  let ?s1 = "?s\<lparr>posthog_person := posthog_person ?s @ [?p], next_id := Suc (next_id ?s)\<rparr>"
  from t obtain ms0 where a: "addDistinctIds E ?p ds ms0 ?s1 = Inr (ms, s1)" and p: "p = ?p"
    by (auto simp: createPerson_transaction_def Let_def split: sum.splits)
  from addDistinctIds_persons [OF a] p have "p \<in> set (posthog_person s1)" by simp
  moreover from q have "posthog_person s' = posthog_person s1"
    by (auto simp: return_def split: if_splits dest: forEach_queueMessage_tables)
  ultimately show ?thesis using p by simp
qed

lemma updatePerson_row:
  assumes "updatePerson E person update s = (Inr p, s')"
      and "person \<in> set (posthog_person s)"
  shows "p \<in> set (posthog_person s')"
proof -
  let ?f = "\<lambda>r. if pid r = pid person then apply_update r update else r"
  from assms(1) obtain s1 where
    c: "call E ''updatePerson'' (\<lambda>s. Inr ((), s\<lparr>posthog_person := map ?f (posthog_person s)\<rparr>)) s
          = (Inr (), s1)" and
    q: "(if kafkaProducer E
         then queueMessage E (person_message E (apply_update person update) ClickHouseSecondPrecision)
         else return ()) s1 = (Inr (), s')"
    by (auto simp: updatePerson_def bind_def Let_def return_def split: prod.splits sum.splits)
  from c have "posthog_person s1 = map ?f (posthog_person s)"
    by (rule call_cases) auto
  moreover from assms(2) have "?f person \<in> set (map ?f (posthog_person s))"
    unfolding set_map by (rule imageI)
  ultimately have "apply_update person update \<in> set (posthog_person s1)" by simp
  moreover from q have "posthog_person s' = posthog_person s1"
    by (auto simp: return_def split: if_splits dest: queueMessage_tables)
  ultimately show ?thesis using updatePerson_result [OF assms(1)] by simp
qed

lemma update_found:
  assumes "(let updatedProperties = spread (spread propertiesOnce (properties personFound)) props
            in if equal_props (properties personFound) updatedProperties then return personFound
               else updatePerson E personFound
                      \<lparr>upd_created_at = None, upd_properties = Some updatedProperties,
                       upd_is_identified = None\<rparr>) s = (Inr p, s')"
      and "personFound \<in> set (posthog_person s)"
  shows "(properties p = spread (spread propertiesOnce (properties personFound)) props
          \<or> p = personFound)
     \<and> equal_props (properties p) (spread (spread propertiesOnce (properties personFound)) props)
     \<and> p \<in> set (posthog_person s') \<and> pid p = pid personFound"
proof (cases "equal_props (properties personFound)
                (spread (spread propertiesOnce (properties personFound)) props)")
  case True
  with assms show ?thesis by (simp add: Let_def return_def)
next
  case False
  with assms(1) have u: "updatePerson E personFound
                      \<lparr>upd_created_at = None,
                        upd_properties = Some (spread (spread propertiesOnce (properties personFound)) props),
                       upd_is_identified = None\<rparr> s = (Inr p, s')"
    by (simp add: Let_def)
  from updatePerson_result [OF u] updatePerson_row [OF u assms(2)] show ?thesis
    by (simp add: apply_update_def equal_props_refl)
qed

text \<open>
  Claim C5, as the code has it. When no property is to be incremented, the person that
  \<open>updatePersonProperties\<close> returns has the properties \<open>set_once\<close> overridden by the existing
  ones overridden by \<open>set\<close>: they are that merge as it is written, or the person is returned
  as it was found because its properties already equal the merge (by \<open>fast-deep-equal\<close>,
  which ignores the order of keys at every depth). The person returned is the row of that
  person in the table. The existing properties are those of the person fetched; for a
  person created on the way they are \<open>set\<close> itself; when the creation fails and the person
  is found by the second fetch, they are those of the person then fetched. Every call that
  returns a person has taken one of these three ways. A person with \<open>{color: "red"}\<close> and
  \<open>$set_once {color: "blue", size: "L"}\<close> ends with \<open>{color: "red", size: "L"}\<close>.
\<close>

theorem updatePersonProperties_merges:
  "(fetchPerson E teamId (Some distinctId) s = (Inr (Some personFound), s1)
    \<and> updatePersonProperties E teamId distinctId props propertiesOnce [] s = (Inr p, s')
      \<longrightarrow> (properties p = spread (spread propertiesOnce (properties personFound)) props
           \<or> p = personFound)
          \<and> equal_props (properties p)
               (spread (spread propertiesOnce (properties personFound)) props)
          \<and> p \<in> set (posthog_person s') \<and> pid p = pid personFound)
   \<and> (fetchPerson E teamId (Some distinctId) s = (Inr None, s1)
      \<and> createPerson E (DateTime_utc E s1) props teamId None False (fst (UUIDT_toString E s1))
          [Some distinctId] (snd (UUIDT_toString E s1)) = (Inr created, s2)
      \<and> updatePersonProperties E teamId distinctId props propertiesOnce [] s = (Inr p, s')
      \<longrightarrow> properties created = props
          \<and> (properties p = spread (spread propertiesOnce props) props \<or> p = created)
          \<and> equal_props (properties p) (spread (spread propertiesOnce props) props)
          \<and> p \<in> set (posthog_person s') \<and> pid p = pid created)
   \<and> (fetchPerson E teamId (Some distinctId) s = (Inr None, s1)
      \<and> createPerson E (DateTime_utc E s1) props teamId None False (fst (UUIDT_toString E s1))
          [Some distinctId] (snd (UUIDT_toString E s1)) = (Inl e, s2)
      \<and> fetchPerson E teamId (Some distinctId) s2 = (Inr (Some personFound), s3)
      \<and> updatePersonProperties E teamId distinctId props propertiesOnce [] s = (Inr p, s')
      \<longrightarrow> (properties p = spread (spread propertiesOnce (properties personFound)) props
           \<or> p = personFound)
          \<and> equal_props (properties p)
               (spread (spread propertiesOnce (properties personFound)) props)
          \<and> p \<in> set (posthog_person s') \<and> pid p = pid personFound)
   \<and> (updatePersonProperties E teamId distinctId props propertiesOnce [] s = (Inr p, s')
      \<longrightarrow> (\<exists>personFound s1. fetchPerson E teamId (Some distinctId) s = (Inr (Some personFound), s1))
          \<or> (\<exists>s1 r s2. fetchPerson E teamId (Some distinctId) s = (Inr None, s1)
                \<and> createPerson E (DateTime_utc E s1) props teamId None False
                    (fst (UUIDT_toString E s1)) [Some distinctId] (snd (UUIDT_toString E s1))
                    = (r, s2)
                \<and> ((\<exists>created. r = Inr created)
                    \<or> (\<exists>e personFound s3. r = Inl e
                          \<and> fetchPerson E teamId (Some distinctId) s2
                              = (Inr (Some personFound), s3)))))"
proof (intro conjI impI)
  assume a: "fetchPerson E teamId (Some distinctId) s = (Inr (Some personFound), s1)
    \<and> updatePersonProperties E teamId distinctId props propertiesOnce [] s = (Inr p, s')"
  then have "(let updatedProperties = spread (spread propertiesOnce (properties personFound)) props
            in if equal_props (properties personFound) updatedProperties then return personFound
               else updatePerson E personFound
                      \<lparr>upd_created_at = None, upd_properties = Some updatedProperties,
                       upd_is_identified = None\<rparr>) s1 = (Inr p, s')"
    by (auto simp: updatePersonProperties_def bind_def return_def Let_def split: if_splits)
  moreover from a fetchPerson_found have "personFound \<in> set (posthog_person s1)" by blast
  ultimately have r: "(properties p = spread (spread propertiesOnce (properties personFound)) props
          \<or> p = personFound)
     \<and> equal_props (properties p) (spread (spread propertiesOnce (properties personFound)) props)
     \<and> p \<in> set (posthog_person s') \<and> pid p = pid personFound"
    by (rule update_found)
  from r show "properties p = spread (spread propertiesOnce (properties personFound)) props
           \<or> p = personFound" by simp
  from r show "equal_props (properties p)
               (spread (spread propertiesOnce (properties personFound)) props)" by simp
  from r show "p \<in> set (posthog_person s')" by simp
  from r show "pid p = pid personFound" by simp
next
  assume a: "fetchPerson E teamId (Some distinctId) s = (Inr None, s1)
      \<and> createPerson E (DateTime_utc E s1) props teamId None False (fst (UUIDT_toString E s1))
          [Some distinctId] (snd (UUIDT_toString E s1)) = (Inr created, s2)
      \<and> updatePersonProperties E teamId distinctId props propertiesOnce [] s = (Inr p, s')"
  then have "(let updatedProperties = spread (spread propertiesOnce (properties created)) props
            in if equal_props (properties created) updatedProperties then return created
               else updatePerson E created
                      \<lparr>upd_created_at = None, upd_properties = Some updatedProperties,
                       upd_is_identified = None\<rparr>) s2 = (Inr p, s')"
    by (auto simp: updatePersonProperties_def bind_def return_def Let_def catch_def
        split_beta split: if_splits)
  moreover from a createPerson_row have c: "created \<in> set (posthog_person s2)"
    "properties created = props" by blast+
  ultimately have r: "(properties p = spread (spread propertiesOnce (properties created)) props
          \<or> p = created)
     \<and> equal_props (properties p) (spread (spread propertiesOnce (properties created)) props)
     \<and> p \<in> set (posthog_person s') \<and> pid p = pid created"
    by (intro update_found)
  from c show "properties created = props" by simp
  from r c show "properties p = spread (spread propertiesOnce props) props \<or> p = created" by simp
  from r c show "equal_props (properties p) (spread (spread propertiesOnce props) props)" by simp
  from r show "p \<in> set (posthog_person s')" by simp
  from r show "pid p = pid created" by simp
next
  assume a: "fetchPerson E teamId (Some distinctId) s = (Inr None, s1)
      \<and> createPerson E (DateTime_utc E s1) props teamId None False (fst (UUIDT_toString E s1))
          [Some distinctId] (snd (UUIDT_toString E s1)) = (Inl e, s2)
      \<and> fetchPerson E teamId (Some distinctId) s2 = (Inr (Some personFound), s3)
      \<and> updatePersonProperties E teamId distinctId props propertiesOnce [] s = (Inr p, s')"
  then have "(let updatedProperties = spread (spread propertiesOnce (properties personFound)) props
            in if equal_props (properties personFound) updatedProperties then return personFound
               else updatePerson E personFound
                      \<lparr>upd_created_at = None, upd_properties = Some updatedProperties,
                       upd_is_identified = None\<rparr>) s3 = (Inr p, s')"
    by (auto simp: updatePersonProperties_def bind_def return_def Let_def catch_def
        split_beta split: if_splits)
  moreover from a fetchPerson_found have "personFound \<in> set (posthog_person s3)" by blast
  ultimately have r: "(properties p = spread (spread propertiesOnce (properties personFound)) props
          \<or> p = personFound)
     \<and> equal_props (properties p) (spread (spread propertiesOnce (properties personFound)) props)
     \<and> p \<in> set (posthog_person s') \<and> pid p = pid personFound"
    by (rule update_found)
  from r show "properties p = spread (spread propertiesOnce (properties personFound)) props
           \<or> p = personFound" by simp
  from r show "equal_props (properties p)
               (spread (spread propertiesOnce (properties personFound)) props)" by simp
  from r show "p \<in> set (posthog_person s')" by simp
  from r show "pid p = pid personFound" by simp
next
  assume a: "updatePersonProperties E teamId distinctId props propertiesOnce [] s = (Inr p, s')"
  obtain r0 s1 where f: "fetchPerson E teamId (Some distinctId) s = (r0, s1)" by fastforce
  obtain r s2 where c: "createPerson E (DateTime_utc E s1) props teamId None False
                    (fst (UUIDT_toString E s1)) [Some distinctId] (snd (UUIDT_toString E s1))
                    = (r, s2)" by fastforce
  obtain r3 s3 where f3: "fetchPerson E teamId (Some distinctId) s2 = (r3, s3)" by fastforce
  from a f c f3
  show "(\<exists>personFound s1. fetchPerson E teamId (Some distinctId) s = (Inr (Some personFound), s1))
          \<or> (\<exists>s1 r s2. fetchPerson E teamId (Some distinctId) s = (Inr None, s1)
                \<and> createPerson E (DateTime_utc E s1) props teamId None False
                    (fst (UUIDT_toString E s1)) [Some distinctId] (snd (UUIDT_toString E s1))
                    = (r, s2)
                \<and> ((\<exists>created. r = Inr created)
                    \<or> (\<exists>e personFound s3. r = Inl e
                          \<and> fetchPerson E teamId (Some distinctId) s2
                              = (Inr (Some personFound), s3))))"
    by (cases r0; cases r; cases r3)
       (auto simp: updatePersonProperties_def bind_def return_def Let_def catch_def throw_def
        split_beta split: if_splits option.splits)
qed

theorem updatePersonProperties_merges_witness:
  "updatePersonProperties calm 2 ''d'' []
        [(''color'', PStr ''blue''), (''size'', PStr ''L'')] [] red_world
     = (Inr (red_person\<lparr>properties := [(''color'', PStr ''red''), (''size'', PStr ''L'')]\<rparr>),
        red_world\<lparr>posthog_person :=
            [red_person\<lparr>properties := [(''color'', PStr ''red''), (''size'', PStr ''L'')]\<rparr>],
          calls := 2\<rparr>)
   \<and> spread (spread [(''color'', PStr ''blue''), (''size'', PStr ''L'')] (properties red_person)) []
     = [(''color'', PStr ''red''), (''size'', PStr ''L'')]
   \<and> updatePersonProperties calm 2 ''d'' [(''a'', PObj [(''y'', PNum 2), (''x'', PNum 1)])] [] []
        nested_world
     = (Inr (red_person\<lparr>properties := [(''a'', PObj [(''x'', PNum 1), (''y'', PNum 2)])]\<rparr>),
        nested_world\<lparr>calls := 1\<rparr>)
   \<and> updatePersonProperties calm 2 ''e'' [(''plan'', PStr ''pro'')] [(''size'', PStr ''L'')] []
        empty_world
     = (Inr \<lparr>pid = 1, created_at = 0, team_id = 2,
            properties = [(''size'', PStr ''L''), (''plan'', PStr ''pro'')],
            is_user_id = None, is_identified = False, uuid = ''0179-0''\<rparr>,
        empty_world\<lparr>posthog_person :=
            [\<lparr>pid = 1, created_at = 0, team_id = 2,
              properties = [(''size'', PStr ''L''), (''plan'', PStr ''pro'')],
              is_user_id = None, is_identified = False, uuid = ''0179-0''\<rparr>],
          posthog_persondistinctid :=
            [\<lparr>pdi_id = 2, person_id = 1, distinct_id = ''e'', pdi_team_id = 2\<rparr>],
          next_id := 3, uuids_made := 1, calls := 3\<rparr>)
   \<and> fst (createPerson flaky_log (DateTime_utc flaky_log (empty_world\<lparr>calls := 1\<rparr>))
              [(''plan'', PStr ''pro'')] 2 None False
              (fst (UUIDT_toString flaky_log (empty_world\<lparr>calls := 1\<rparr>))) [Some ''e'']
              (snd (UUIDT_toString flaky_log (empty_world\<lparr>calls := 1\<rparr>))))
     = Inl (Error ''producer'')
   \<and> fst (updatePersonProperties flaky_log 2 ''e'' [(''plan'', PStr ''pro'')]
             [(''size'', PStr ''L'')] [] empty_world)
     = Inr \<lparr>pid = 1, created_at = 0, team_id = 2,
            properties = [(''size'', PStr ''L''), (''plan'', PStr ''pro'')],
            is_user_id = None, is_identified = False, uuid = ''0179-0''\<rparr>
   \<and> posthog_person (snd (updatePersonProperties flaky_log 2 ''e'' [(''plan'', PStr ''pro'')]
             [(''size'', PStr ''L'')] [] empty_world))
     = [\<lparr>pid = 1, created_at = 0, team_id = 2,
         properties = [(''size'', PStr ''L''), (''plan'', PStr ''pro'')],
         is_user_id = None, is_identified = False, uuid = ''0179-0''\<rparr>]"
proof -
  let ?new = "\<lparr>pid = 1, created_at = 0, team_id = 2, properties = [(''plan'', PStr ''pro'')],
               is_user_id = None, is_identified = False, uuid = ''0179-0''\<rparr>"
  let ?tables = "empty_world\<lparr>posthog_person := [?new],
          posthog_persondistinctid :=
            [\<lparr>pdi_id = 2, person_id = 1, distinct_id = ''e'', pdi_team_id = 2\<rparr>],
          next_id := 3, uuids_made := 1\<rparr>"
  have f: "fetchPerson calm 2 (Some ''d'') red_world = (Inr (Some red_person), red_world\<lparr>calls := 1\<rparr>)"
    by code_simp
  have u: "updatePersonProperties calm 2 ''d'' []
        [(''color'', PStr ''blue''), (''size'', PStr ''L'')] [] red_world
     = (Inr (red_person\<lparr>properties := [(''color'', PStr ''red''), (''size'', PStr ''L'')]\<rparr>),
        red_world\<lparr>posthog_person :=
            [red_person\<lparr>properties := [(''color'', PStr ''red''), (''size'', PStr ''L'')]\<rparr>],
          calls := 2\<rparr>)" by code_simp
  have m: "spread (spread [(''color'', PStr ''blue''), (''size'', PStr ''L'')] (properties red_person)) []
     = [(''color'', PStr ''red''), (''size'', PStr ''L'')]" by code_simp
  have fn: "fetchPerson calm 2 (Some ''d'') nested_world
     = (Inr (Some (red_person\<lparr>properties := [(''a'', PObj [(''x'', PNum 1), (''y'', PNum 2)])]\<rparr>)),
        nested_world\<lparr>calls := 1\<rparr>)" by code_simp
  have un: "updatePersonProperties calm 2 ''d'' [(''a'', PObj [(''y'', PNum 2), (''x'', PNum 1)])] [] []
        nested_world
     = (Inr (red_person\<lparr>properties := [(''a'', PObj [(''x'', PNum 1), (''y'', PNum 2)])]\<rparr>),
        nested_world\<lparr>calls := 1\<rparr>)" by code_simp
  have f2: "fetchPerson calm 2 (Some ''e'') empty_world = (Inr None, empty_world\<lparr>calls := 1\<rparr>)"
    by code_simp
  have c2: "createPerson calm (DateTime_utc calm (empty_world\<lparr>calls := 1\<rparr>))
              [(''plan'', PStr ''pro'')] 2 None False
              (fst (UUIDT_toString calm (empty_world\<lparr>calls := 1\<rparr>))) [Some ''e'']
              (snd (UUIDT_toString calm (empty_world\<lparr>calls := 1\<rparr>)))
     = (Inr ?new, ?tables\<lparr>calls := 2\<rparr>)" by code_simp
  have u2: "updatePersonProperties calm 2 ''e'' [(''plan'', PStr ''pro'')] [(''size'', PStr ''L'')] []
        empty_world
     = (Inr \<lparr>pid = 1, created_at = 0, team_id = 2,
            properties = [(''size'', PStr ''L''), (''plan'', PStr ''pro'')],
            is_user_id = None, is_identified = False, uuid = ''0179-0''\<rparr>,
        empty_world\<lparr>posthog_person :=
            [\<lparr>pid = 1, created_at = 0, team_id = 2,
              properties = [(''size'', PStr ''L''), (''plan'', PStr ''pro'')],
              is_user_id = None, is_identified = False, uuid = ''0179-0''\<rparr>],
          posthog_persondistinctid :=
            [\<lparr>pdi_id = 2, person_id = 1, distinct_id = ''e'', pdi_team_id = 2\<rparr>],
          next_id := 3, uuids_made := 1, calls := 3\<rparr>)" by code_simp
  have f3: "fetchPerson flaky_log 2 (Some ''e'') empty_world
              = (Inr None, empty_world\<lparr>calls := 1\<rparr>)" by code_simp
  have c3: "createPerson flaky_log (DateTime_utc flaky_log (empty_world\<lparr>calls := 1\<rparr>))
              [(''plan'', PStr ''pro'')] 2 None False
              (fst (UUIDT_toString flaky_log (empty_world\<lparr>calls := 1\<rparr>))) [Some ''e'']
              (snd (UUIDT_toString flaky_log (empty_world\<lparr>calls := 1\<rparr>)))
     = (Inl (Error ''producer''), ?tables\<lparr>calls := 3\<rparr>)" by code_simp
  have r3: "fetchPerson flaky_log 2 (Some ''e'') (?tables\<lparr>calls := 3\<rparr>)
     = (Inr (Some ?new), ?tables\<lparr>calls := 4\<rparr>)" by code_simp
  let ?u3 = "updatePersonProperties flaky_log 2 ''e'' [(''plan'', PStr ''pro'')]
             [(''size'', PStr ''L'')] [] empty_world"
  have u3: "?u3 = (Inr (projr (fst ?u3)), snd ?u3)" by code_simp
  have p3: "fst ?u3 = Inr \<lparr>pid = 1, created_at = 0, team_id = 2,
            properties = [(''size'', PStr ''L''), (''plan'', PStr ''pro'')],
            is_user_id = None, is_identified = False, uuid = ''0179-0''\<rparr>" by code_simp
  have t3: "posthog_person (snd ?u3)
     = [\<lparr>pid = 1, created_at = 0, team_id = 2,
         properties = [(''size'', PStr ''L''), (''plan'', PStr ''pro'')],
         is_user_id = None, is_identified = False, uuid = ''0179-0''\<rparr>]" by code_simp
  from updatePersonProperties_merges [THEN conjunct1, rule_format, OF conjI [OF f u]]
       updatePersonProperties_merges [THEN conjunct1, rule_format, OF conjI [OF fn un]]
       updatePersonProperties_merges [THEN conjunct2, THEN conjunct1, rule_format,
         OF conjI [OF f2 conjI [OF c2 u2]]]
       updatePersonProperties_merges [THEN conjunct2, THEN conjunct2, THEN conjunct1, rule_format,
         OF conjI [OF f3 conjI [OF c3 conjI [OF r3 u3]]]]
       u m un u2 c3 p3 t3
  show ?thesis by simp
qed

text \<open>
  Claim C5 as stated fails when properties are incremented: the properties of the row
  that the increment returns are laid over the merged ones, so for a person with
  \<open>{color: "red"}\<close>, \<open>$set {color: "green"}\<close> and \<open>$increment {n: 1}\<close> the person returned and the
  row stored have \<open>{color: "red", n: 1}\<close>, where \<open>set\<close> does not win.
\<close>

theorem updatePersonProperties_counterexample:
  "fst (updatePersonProperties calm 2 ''d'' [(''color'', PStr ''green'')] [] [(''n'', 1)] red_world)
     = Inr (red_person\<lparr>properties := [(''color'', PStr ''red''), (''n'', PNum 1)]\<rparr>)
   \<and> map properties (posthog_person (snd (updatePersonProperties calm 2 ''d''
        [(''color'', PStr ''green'')] [] [(''n'', 1)] red_world)))
     = [[(''color'', PStr ''red''), (''n'', PNum 1)]]
   \<and> (map_of [] ++ map_of (properties red_person) ++ map_of [(''color'', PStr ''green'')]) ''color''
     = Some (PStr ''green'')"
  by code_simp

section \<open>The budget of the merge protocol\<close>

lemma merge_loop_returns:
  "failedAttempts < MAX_FAILED_PERSON_MERGE_ATTEMPTS \<Longrightarrow>
   MAX_FAILED_PERSON_MERGE_ATTEMPTS - failedAttempts \<le> k \<Longrightarrow>
   \<exists>r. merge_loop k E mergeInto otherPerson failedAttempts s = Some r"
proof (induction k arbitrary: failedAttempts s)
  case 0
  then show ?case by simp
next
  case (Suc k)
  show ?case
  proof (cases "failedAttempts + 1 = MAX_FAILED_PERSON_MERGE_ATTEMPTS")
    case True
    then show ?thesis
      by (simp add: Let_def split: prod.splits sum.splits)
  next
    case False
    with Suc.prems have "failedAttempts + 1 < MAX_FAILED_PERSON_MERGE_ATTEMPTS"
      "MAX_FAILED_PERSON_MERGE_ATTEMPTS - (failedAttempts + 1) \<le> k" by simp_all
    from Suc.IH [OF this] False show ?thesis
      by (simp add: Let_def split: prod.splits sum.splits)
  qed
qed

lemma merge_loop_counter:
  "merge_loop k E mergeInto otherPerson failedAttempts s = Some (Inr (shouldRetry, n), s') \<Longrightarrow>
   failedAttempts \<le> n
   \<and> (shouldRetry \<longrightarrow> failedAttempts < n \<and> n < MAX_FAILED_PERSON_MERGE_ATTEMPTS)
   \<and> (failedAttempts < MAX_FAILED_PERSON_MERGE_ATTEMPTS \<longrightarrow> n < MAX_FAILED_PERSON_MERGE_ATTEMPTS)"
proof (induction k arbitrary: failedAttempts s)
  case 0
  then show ?case by simp
next
  case (Suc k)
  show ?case
  proof (cases "\<exists>s1 s2 e. moveDistinctIds E otherPerson mergeInto s = (Inr (), s1)
                  \<and> deletePerson E otherPerson s1 = (Inl e, s2) \<and> is_DatabaseError e
                  \<and> failedAttempts + 1 \<noteq> MAX_FAILED_PERSON_MERGE_ATTEMPTS")
    case True
    then obtain s1 s2 e where
      m: "moveDistinctIds E otherPerson mergeInto s = (Inr (), s1)" and
      d: "deletePerson E otherPerson s1 = (Inl e, s2)" "is_DatabaseError e" and
      n: "failedAttempts + 1 \<noteq> MAX_FAILED_PERSON_MERGE_ATTEMPTS" by blast
    with Suc.prems
    have "merge_loop k E mergeInto otherPerson (failedAttempts + 1) s2 = Some (Inr (shouldRetry, n), s')"
      by simp
    from Suc.IH [OF this] n show ?thesis by auto
  next
    case False
    with Suc.prems show ?thesis
      by (auto simp: Let_def split: prod.splits sum.splits if_splits)
  qed
qed

text \<open>How \<open>mergePeople\<close> and \<open>alias\<close> can fail to return.\<close>

lemma mergePeople_None:
  assumes "mergePeople (Suc k) E mergeInto mergeIntoDistinctId otherPerson otherPersonDistinctId
             totalMergeAttempts s = None"
  shows "\<exists>m s2. merge_loop k E m otherPerson totalMergeAttempts s2 = None
           \<or> (\<exists>n s3. merge_loop k E m otherPerson totalMergeAttempts s2 = Some (Inr (True, n), s3)
                \<and> alias' k E otherPersonDistinctId mergeIntoDistinctId (team_id mergeInto) False n s3
                    = None)"
  using assms
  by (simp add: Let_def split: prod.splits sum.splits option.splits if_splits) blast+

lemma alias_None:
  assumes "alias' (Suc k) E previousDistinctId distinctId teamId retryIfFailed totalMergeAttempts s
             = None"
  shows "(retryIfFailed \<and> (\<exists>s4. alias' k E previousDistinctId distinctId teamId False 0 s4 = None))
         \<or> (\<exists>new old s2. mergePeople k E new distinctId old previousDistinctId totalMergeAttempts s2
               = None)"
  using assms
  by (simp add: Let_def split: prod.splits sum.splits option.splits if_splits) blast+

lemma protocol_returns_aux:
  "\<forall>n k s mergeInto mergeIntoDistinctId otherPerson otherPersonDistinctId teamId.
     MAX_FAILED_PERSON_MERGE_ATTEMPTS - n \<le> m \<and> n < MAX_FAILED_PERSON_MERGE_ATTEMPTS \<longrightarrow>
       (2 * (MAX_FAILED_PERSON_MERGE_ATTEMPTS - n) \<le> k \<longrightarrow>
          mergePeople k E mergeInto mergeIntoDistinctId otherPerson otherPersonDistinctId n s \<noteq> None)
     \<and> (2 * (MAX_FAILED_PERSON_MERGE_ATTEMPTS - n) + 1 \<le> k \<longrightarrow>
          alias' k E otherPersonDistinctId mergeIntoDistinctId teamId False n s \<noteq> None)"
proof (induction m)
  case 0
  show ?case by auto
next
  case (Suc m)
  show ?case
  proof (intro allI impI)
    fix n k s mergeInto mergeIntoDistinctId otherPerson otherPersonDistinctId teamId
    assume a: "MAX_FAILED_PERSON_MERGE_ATTEMPTS - n \<le> Suc m \<and> n < MAX_FAILED_PERSON_MERGE_ATTEMPTS"
    have merge: "mergePeople k E mi mid op opid n s0 \<noteq> None"
      if k: "2 * (MAX_FAILED_PERSON_MERGE_ATTEMPTS - n) \<le> k" for k mi mid op opid s0
    proof
      assume none: "mergePeople k E mi mid op opid n s0 = None"
      from k a obtain k' where k': "k = Suc k'" by (cases k) auto
      from mergePeople_None [OF none [unfolded k']] obtain x s2 where
        "merge_loop k' E x op n s2 = None
           \<or> (\<exists>n' s3. merge_loop k' E x op n s2 = Some (Inr (True, n'), s3)
                \<and> alias' k' E opid mid (team_id mi) False n' s3 = None)" by blast
      then show False
      proof
        assume "merge_loop k' E x op n s2 = None"
        moreover from k k' a have "MAX_FAILED_PERSON_MERGE_ATTEMPTS - n \<le> k'" by simp
        ultimately show False using merge_loop_returns [of n k' E x op s2] a by simp
      next
        assume "\<exists>n' s3. merge_loop k' E x op n s2 = Some (Inr (True, n'), s3)
                \<and> alias' k' E opid mid (team_id mi) False n' s3 = None"
        then obtain n' s3 where
          l: "merge_loop k' E x op n s2 = Some (Inr (True, n'), s3)" and
          r: "alias' k' E opid mid (team_id mi) False n' s3 = None" by blast
        from merge_loop_counter [OF l] have n': "n < n'" "n' < MAX_FAILED_PERSON_MERGE_ATTEMPTS"
          by simp_all
        with a k k' have "MAX_FAILED_PERSON_MERGE_ATTEMPTS - n' \<le> m"
          "2 * (MAX_FAILED_PERSON_MERGE_ATTEMPTS - n') + 1 \<le> k'" by simp_all
        with Suc.IH n' r show False by blast
      qed
    qed
    have al: "alias' k E otherPersonDistinctId mergeIntoDistinctId teamId False n s \<noteq> None"
      if k: "2 * (MAX_FAILED_PERSON_MERGE_ATTEMPTS - n) + 1 \<le> k"
    proof
      assume none: "alias' k E otherPersonDistinctId mergeIntoDistinctId teamId False n s = None"
      from k obtain k' where k': "k = Suc k'" by (cases k) auto
      from alias_None [OF none [unfolded k']] obtain new old s2 where
        "mergePeople k' E new mergeIntoDistinctId old otherPersonDistinctId n s2 = None" by blast
      moreover from k k' have "2 * (MAX_FAILED_PERSON_MERGE_ATTEMPTS - n) \<le> k'" by simp
      ultimately show False using merge by blast
    qed
    from merge al
    show "(2 * (MAX_FAILED_PERSON_MERGE_ATTEMPTS - n) \<le> k \<longrightarrow>
          mergePeople k E mergeInto mergeIntoDistinctId otherPerson otherPersonDistinctId n s \<noteq> None)
     \<and> (2 * (MAX_FAILED_PERSON_MERGE_ATTEMPTS - n) + 1 \<le> k \<longrightarrow>
          alias' k E otherPersonDistinctId mergeIntoDistinctId teamId False n s \<noteq> None)"
      by blast
  qed
qed

lemma mergePeople_returns:
  "n < MAX_FAILED_PERSON_MERGE_ATTEMPTS \<Longrightarrow>
   2 * (MAX_FAILED_PERSON_MERGE_ATTEMPTS - n) \<le> k \<Longrightarrow>
   \<exists>r. mergePeople k E mergeInto mergeIntoDistinctId otherPerson otherPersonDistinctId n s = Some r"
  using protocol_returns_aux [of "MAX_FAILED_PERSON_MERGE_ATTEMPTS - n" E] by auto

lemma alias_no_retry_returns:
  "n < MAX_FAILED_PERSON_MERGE_ATTEMPTS \<Longrightarrow>
   2 * (MAX_FAILED_PERSON_MERGE_ATTEMPTS - n) + 1 \<le> k \<Longrightarrow>
   \<exists>r. alias' k E previousDistinctId distinctId teamId False n s = Some r"
  using protocol_returns_aux [of "MAX_FAILED_PERSON_MERGE_ATTEMPTS - n" E] by auto

lemma alias_returns:
  assumes "8 \<le> k"
  shows "\<exists>r. alias' k E previousDistinctId distinctId teamId retryIfFailed 0 s = Some r"
proof (rule ccontr)
  assume "\<not> ?thesis"
  then have none: "alias' k E previousDistinctId distinctId teamId retryIfFailed 0 s = None"
    by (cases "alias' k E previousDistinctId distinctId teamId retryIfFailed 0 s") blast+
  from assms obtain k' where k': "k = Suc k'" by (cases k) auto
  from alias_None [OF none [unfolded k']]
  show False
  proof
    assume "retryIfFailed \<and> (\<exists>s4. alias' k' E previousDistinctId distinctId teamId False 0 s4 = None)"
    then obtain s4 where "alias' k' E previousDistinctId distinctId teamId False 0 s4 = None" by blast
    moreover from assms k' have "2 * (MAX_FAILED_PERSON_MERGE_ATTEMPTS - 0) + 1 \<le> k'"
      by (simp add: MAX_FAILED_PERSON_MERGE_ATTEMPTS_def)
    ultimately show False
      using alias_no_retry_returns [of 0 k' E previousDistinctId distinctId teamId s4]
      by (simp add: MAX_FAILED_PERSON_MERGE_ATTEMPTS_def)
  next
    assume "\<exists>new old s2. mergePeople k' E new distinctId old previousDistinctId 0 s2 = None"
    then obtain new old s2 where "mergePeople k' E new distinctId old previousDistinctId 0 s2 = None"
      by blast
    moreover from assms k' have "2 * (MAX_FAILED_PERSON_MERGE_ATTEMPTS - 0) \<le> k'"
      by (simp add: MAX_FAILED_PERSON_MERGE_ATTEMPTS_def)
    ultimately show False
      using mergePeople_returns [of 0 k' E new distinctId old previousDistinctId s2]
      by (simp add: MAX_FAILED_PERSON_MERGE_ATTEMPTS_def)
  qed
qed

lemma handleIdentifyOrAlias_returns:
  "8 \<le> fuel \<Longrightarrow> \<exists>r. handleIdentifyOrAlias fuel E event props distinctId teamId s = Some r"
  using alias_returns [of fuel E]
  by (auto simp: handleIdentifyOrAlias_def split: option.splits prod.splits sum.splits)
     (metis option.distinct(1))+

text \<open>
  A \<open>mergePeople\<close> that returns has failed before its loop, or has left its loop once:
  with an error, with the merge done, or with the request for the one restart of \<open>alias\<close>,
  whose result is then its own.
\<close>

lemma mergePeople_restart:
  assumes "mergePeople (Suc k) E mergeInto mergeIntoDistinctId otherPerson otherPersonDistinctId
             totalMergeAttempts s = Some (r, s')"
      and "m = mergeInto\<lparr>properties := spread (properties otherPerson) (properties mergeInto)\<rparr>"
  shows "(\<exists>e. r = Inl e
            \<and> (updatePerson E m
                   \<lparr>upd_created_at = Some (min (created_at mergeInto) (created_at otherPerson)),
                    upd_properties = Some (properties m), upd_is_identified = None\<rparr> s
                  = (Inl e, s')
                \<or> fault E ''updateCohortPeople'' (calls s' - 1) = Some e))
         \<or> (\<exists>s2 out s3.
               merge_loop k E m otherPerson totalMergeAttempts s2 = Some (out, s3)
               \<and> (case out of
                      Inl e \<Rightarrow> r = Inl e \<and> s' = s3
                    | Inr (shouldRetry, n) \<Rightarrow>
                        if shouldRetry
                        then alias' k E otherPersonDistinctId mergeIntoDistinctId
                               (team_id mergeInto) False n s3 = Some (r, s')
                        else r = Inr () \<and> s' = s3))"
  unfolding assms(2)
proof -
  let ?m = "mergeInto\<lparr>properties := spread (properties otherPerson) (properties mergeInto)\<rparr>"
  let ?u = "\<lparr>upd_created_at = Some (min (created_at mergeInto) (created_at otherPerson)),
             upd_properties = Some (properties ?m), upd_is_identified = None\<rparr>"
  let ?loop = "\<lambda>r s'. \<exists>s2 out s3.
               merge_loop k E ?m otherPerson totalMergeAttempts s2 = Some (out, s3)
               \<and> (case out of
                      Inl e \<Rightarrow> r = Inl e \<and> s' = s3
                    | Inr (shouldRetry, n) \<Rightarrow>
                        if shouldRetry
                        then alias' k E otherPersonDistinctId mergeIntoDistinctId
                               (team_id mergeInto) False n s3 = Some (r, s')
                        else r = Inr () \<and> s' = s3)"
  have fs: "(if created_at otherPerson < created_at mergeInto
             then created_at otherPerson else created_at mergeInto)
            = min (created_at mergeInto) (created_at otherPerson)" by (simp add: min_def)
  obtain r1 s1 where u: "updatePerson E ?m ?u s = (r1, s1)" by fastforce
  obtain r2 s2 where c: "call E ''updateCohortPeople'' (\<lambda>w.
             Inr ((), w\<lparr>posthog_cohortpeople :=
                         map (\<lambda>(c, p). if p = pid otherPerson then (c, pid mergeInto) else (c, p))
                             (posthog_cohortpeople w)\<rparr>)) s1 = (r2, s2)" by fastforce
  have unfold: "mergePeople (Suc k) E mergeInto mergeIntoDistinctId otherPerson
                  otherPersonDistinctId totalMergeAttempts s
     = (case r1 of
          Inl e \<Rightarrow> Some (Inl e, s1)
        | Inr _ \<Rightarrow>
            (case r2 of
               Inl e \<Rightarrow> Some (Inl e, s2)
             | Inr _ \<Rightarrow>
                 (case merge_loop k E ?m otherPerson totalMergeAttempts s2 of
                    None \<Rightarrow> None
                  | Some (Inl e, s3) \<Rightarrow> Some (Inl e, s3)
                  | Some (Inr (shouldRetryAliasOperation, failedAttempts), s3) \<Rightarrow>
                      if shouldRetryAliasOperation
                      then alias' k E otherPersonDistinctId mergeIntoDistinctId
                             (team_id mergeInto) False failedAttempts s3
                      else Some (Inr (), s3))))"
  proof -
    have u': "updatePerson E ?m
                \<lparr>upd_created_at = Some (if created_at otherPerson < created_at mergeInto
                                        then created_at otherPerson else created_at mergeInto),
                 upd_properties = Some (properties ?m), upd_is_identified = None\<rparr> s = (r1, s1)"
      unfolding fs by (rule u)
    show ?thesis
      using u' c by (cases r1; cases r2) (simp_all add: Let_def cong: if_cong split del: if_split)
  qed
  show "(\<exists>e. r = Inl e
            \<and> (updatePerson E ?m
                   \<lparr>upd_created_at = Some (min (created_at mergeInto) (created_at otherPerson)),
                    upd_properties = Some (properties ?m), upd_is_identified = None\<rparr> s
                  = (Inl e, s')
                \<or> fault E ''updateCohortPeople'' (calls s' - 1) = Some e))
         \<or> ?loop r s'"
  proof (cases r1)
    case (Inl e)
    with assms(1) unfold have "r = Inl e" "s' = s1" by simp_all
    with u Inl show ?thesis by auto
  next
    case r1: (Inr w)
    show ?thesis
    proof (cases r2)
      case (Inl e)
      with assms(1) unfold r1 have rs: "r = Inl e" "s' = s2" by simp_all
      from c Inl have "fault E ''updateCohortPeople'' (calls s2 - 1) = Some e"
        by (auto simp: call_def Let_def split: option.splits)
      with rs show ?thesis by auto
    next
      case (Inr v)
      with assms(1) unfold r1
      have "(case merge_loop k E ?m otherPerson totalMergeAttempts s2 of
               None \<Rightarrow> None
             | Some (Inl e, s3) \<Rightarrow> Some (Inl e, s3)
             | Some (Inr (shouldRetryAliasOperation, failedAttempts), s3) \<Rightarrow>
                 if shouldRetryAliasOperation
                 then alias' k E otherPersonDistinctId mergeIntoDistinctId (team_id mergeInto)
                        False failedAttempts s3
                 else Some (Inr (), s3)) = Some (r, s')"
        by simp
      then have "?loop r s'"
        by (intro exI [of _ s2])
           (auto split: option.splits prod.splits sum.splits if_splits)
      then show ?thesis by blast
    qed
  qed
qed

text \<open>
  Claim C2. \<open>MAX_FAILED_PERSON_MERGE_ATTEMPTS\<close> is 3. Every merge of the protocol starts with
  fewer failed attempts than that: \<open>alias\<close> enters with 0, and \<open>mergePeople\<close> asks for a restart
  only with a count below 3, which the restart passes on. For such a merge: the retry loop
  ends within \<open>3 - totalMergeAttempts\<close> iterations, each of which but the last is a failed
  attempt; the count of failed attempts only grows and the loop ends without an error only
  below 3, asking for a restart only after a further failure; \<open>mergePeople\<close> with its
  restarts returns; on the last attempt of the budget every failure of \<open>moveDistinctIds\<close> or
  \<open>deletePerson\<close> is propagated; a \<open>mergePeople\<close> that returns has failed before its loop
  or has left its loop once, and then it has restarted \<open>alias\<close> at most once: only when the
  loop asked for it, without a further retry and with the attempts counted so far, below
  3; and \<open>alias\<close>, entered as \<open>handleIdentifyOrAlias\<close> enters it, returns, as does
  \<open>handleIdentifyOrAlias\<close> itself.
\<close>

theorem merge_budget:
  assumes "totalMergeAttempts < MAX_FAILED_PERSON_MERGE_ATTEMPTS"
  shows "MAX_FAILED_PERSON_MERGE_ATTEMPTS = 3
     \<and> (\<exists>r. merge_loop (MAX_FAILED_PERSON_MERGE_ATTEMPTS - totalMergeAttempts) E mergeInto
               otherPerson totalMergeAttempts s = Some r)
     \<and> (\<forall>k shouldRetry n s'.
           merge_loop k E mergeInto otherPerson totalMergeAttempts s
             = Some (Inr (shouldRetry, n), s') \<longrightarrow>
           totalMergeAttempts \<le> n \<and> n < MAX_FAILED_PERSON_MERGE_ATTEMPTS
           \<and> (shouldRetry \<longrightarrow> totalMergeAttempts < n))
     \<and> (\<forall>k. 2 * (MAX_FAILED_PERSON_MERGE_ATTEMPTS - totalMergeAttempts) \<le> k \<longrightarrow>
           (\<exists>r. mergePeople k E mergeInto mergeIntoDistinctId otherPerson otherPersonDistinctId
                   totalMergeAttempts s = Some r))
     \<and> (totalMergeAttempts + 1 = MAX_FAILED_PERSON_MERGE_ATTEMPTS \<longrightarrow>
          (\<forall>k. merge_loop (Suc k) E mergeInto otherPerson totalMergeAttempts s
                 = (case moveDistinctIds E otherPerson mergeInto s of
                      (Inl error, s1) \<Rightarrow> Some (Inl error, s1\<lparr>sentry := sentry s1 @ [error]\<rparr>)
                    | (Inr _, s1) \<Rightarrow>
                        (case deletePerson E otherPerson s1 of
                           (Inr _, s2) \<Rightarrow> Some (Inr (False, totalMergeAttempts), s2)
                         | (Inl error, s2) \<Rightarrow> Some (Inl error, s2)))))
     \<and> (\<forall>k r s'.
           mergePeople (Suc k) E mergeInto mergeIntoDistinctId otherPerson otherPersonDistinctId
             totalMergeAttempts s = Some (r, s') \<longrightarrow>
           (\<exists>e. r = Inl e
               \<and> (updatePerson E
                      (mergeInto\<lparr>properties :=
                         spread (properties otherPerson) (properties mergeInto)\<rparr>)
                      \<lparr>upd_created_at = Some (min (created_at mergeInto) (created_at otherPerson)),
                       upd_properties =
                         Some (spread (properties otherPerson) (properties mergeInto)),
                       upd_is_identified = None\<rparr> s = (Inl e, s')
                   \<or> fault E ''updateCohortPeople'' (calls s' - 1) = Some e))
           \<or> (\<exists>s2 out s3.
                 merge_loop k E
                   (mergeInto\<lparr>properties :=
                      spread (properties otherPerson) (properties mergeInto)\<rparr>)
                   otherPerson totalMergeAttempts s2 = Some (out, s3)
                 \<and> (case out of
                        Inl e \<Rightarrow> r = Inl e \<and> s' = s3
                      | Inr (shouldRetry, n) \<Rightarrow>
                          if shouldRetry
                          then totalMergeAttempts < n \<and> n < MAX_FAILED_PERSON_MERGE_ATTEMPTS
                               \<and> alias' k E otherPersonDistinctId mergeIntoDistinctId
                                    (team_id mergeInto) False n s3 = Some (r, s')
                          else r = Inr () \<and> s' = s3)))
     \<and> (\<forall>k previousDistinctId distinctId teamId retryIfFailed.
           8 \<le> k \<longrightarrow>
           (\<exists>r. alias' k E previousDistinctId distinctId teamId retryIfFailed 0 s = Some r))
     \<and> (\<forall>fuel event props distinctId teamId.
           8 \<le> fuel \<longrightarrow>
           (\<exists>r. handleIdentifyOrAlias fuel E event props distinctId teamId s = Some r))"
proof (intro conjI allI impI)
  show "MAX_FAILED_PERSON_MERGE_ATTEMPTS = 3" by (rule MAX_FAILED_PERSON_MERGE_ATTEMPTS_def)
  show "\<exists>r. merge_loop (MAX_FAILED_PERSON_MERGE_ATTEMPTS - totalMergeAttempts) E mergeInto
               otherPerson totalMergeAttempts s = Some r"
    using assms by (intro merge_loop_returns) simp_all
next
  fix k shouldRetry n s'
  assume l: "merge_loop k E mergeInto otherPerson totalMergeAttempts s
             = Some (Inr (shouldRetry, n), s')"
  from merge_loop_counter [OF l] assms
  show "totalMergeAttempts \<le> n" "n < MAX_FAILED_PERSON_MERGE_ATTEMPTS"
    by simp_all
  assume shouldRetry
  with merge_loop_counter [OF l] show "totalMergeAttempts < n" by simp
next
  fix k
  assume "2 * (MAX_FAILED_PERSON_MERGE_ATTEMPTS - totalMergeAttempts) \<le> k"
  with assms
  show "\<exists>r. mergePeople k E mergeInto mergeIntoDistinctId otherPerson otherPersonDistinctId
                   totalMergeAttempts s = Some r"
    by (rule mergePeople_returns)
next
  fix k
  assume "totalMergeAttempts + 1 = MAX_FAILED_PERSON_MERGE_ATTEMPTS"
  then show "merge_loop (Suc k) E mergeInto otherPerson totalMergeAttempts s
                 = (case moveDistinctIds E otherPerson mergeInto s of
                      (Inl error, s1) \<Rightarrow> Some (Inl error, s1\<lparr>sentry := sentry s1 @ [error]\<rparr>)
                    | (Inr _, s1) \<Rightarrow>
                        (case deletePerson E otherPerson s1 of
                           (Inr _, s2) \<Rightarrow> Some (Inr (False, totalMergeAttempts), s2)
                         | (Inl error, s2) \<Rightarrow> Some (Inl error, s2)))"
    by (simp add: Let_def Sentry_captureException_def split: prod.splits sum.splits)
next
  fix k r s'
  let ?m = "mergeInto\<lparr>properties := spread (properties otherPerson) (properties mergeInto)\<rparr>"
  assume m: "mergePeople (Suc k) E mergeInto mergeIntoDistinctId otherPerson otherPersonDistinctId
             totalMergeAttempts s = Some (r, s')"
  from mergePeople_restart [OF m refl]
  have "(\<exists>e. r = Inl e
            \<and> (updatePerson E ?m
                   \<lparr>upd_created_at = Some (min (created_at mergeInto) (created_at otherPerson)),
                    upd_properties = Some (properties ?m), upd_is_identified = None\<rparr> s
                  = (Inl e, s')
                \<or> fault E ''updateCohortPeople'' (calls s' - 1) = Some e))
         \<or> (\<exists>s2 out s3.
               merge_loop k E ?m otherPerson totalMergeAttempts s2 = Some (out, s3)
               \<and> (case out of
                      Inl e \<Rightarrow> r = Inl e \<and> s' = s3
                    | Inr (shouldRetry, n) \<Rightarrow>
                        if shouldRetry
                        then alias' k E otherPersonDistinctId mergeIntoDistinctId
                               (team_id mergeInto) False n s3 = Some (r, s')
                        else r = Inr () \<and> s' = s3))" .
  then show "(\<exists>e. r = Inl e
               \<and> (updatePerson E
                      (mergeInto\<lparr>properties :=
                         spread (properties otherPerson) (properties mergeInto)\<rparr>)
                      \<lparr>upd_created_at = Some (min (created_at mergeInto) (created_at otherPerson)),
                       upd_properties =
                         Some (spread (properties otherPerson) (properties mergeInto)),
                       upd_is_identified = None\<rparr> s = (Inl e, s')
                   \<or> fault E ''updateCohortPeople'' (calls s' - 1) = Some e))
           \<or> (\<exists>s2 out s3.
                 merge_loop k E
                   (mergeInto\<lparr>properties :=
                      spread (properties otherPerson) (properties mergeInto)\<rparr>)
                   otherPerson totalMergeAttempts s2 = Some (out, s3)
                 \<and> (case out of
                        Inl e \<Rightarrow> r = Inl e \<and> s' = s3
                      | Inr (shouldRetry, n) \<Rightarrow>
                          if shouldRetry
                          then totalMergeAttempts < n \<and> n < MAX_FAILED_PERSON_MERGE_ATTEMPTS
                               \<and> alias' k E otherPersonDistinctId mergeIntoDistinctId
                                    (team_id mergeInto) False n s3 = Some (r, s')
                          else r = Inr () \<and> s' = s3))"
  proof (elim disjE exE conjE)
    fix s2 out s3
    assume l: "merge_loop k E ?m otherPerson totalMergeAttempts s2 = Some (out, s3)"
      and o: "case out of
                      Inl e \<Rightarrow> r = Inl e \<and> s' = s3
                    | Inr (shouldRetry, n) \<Rightarrow>
                        if shouldRetry
                        then alias' k E otherPersonDistinctId mergeIntoDistinctId
                               (team_id mergeInto) False n s3 = Some (r, s')
                        else r = Inr () \<and> s' = s3"
    have "case out of
                        Inl e \<Rightarrow> r = Inl e \<and> s' = s3
                      | Inr (shouldRetry, n) \<Rightarrow>
                          if shouldRetry
                          then totalMergeAttempts < n \<and> n < MAX_FAILED_PERSON_MERGE_ATTEMPTS
                               \<and> alias' k E otherPersonDistinctId mergeIntoDistinctId
                                    (team_id mergeInto) False n s3 = Some (r, s')
                          else r = Inr () \<and> s' = s3"
    proof (cases out)
      case (Inl e)
      with o show ?thesis by simp
    next
      case (Inr bn)
      obtain b n where bn: "bn = (b, n)" by (cases bn)
      from l Inr bn merge_loop_counter [of k E ?m otherPerson totalMergeAttempts s2 b n s3]
      have "b \<longrightarrow> totalMergeAttempts < n \<and> n < MAX_FAILED_PERSON_MERGE_ATTEMPTS" by simp
      with o Inr bn show ?thesis by auto
    qed
    with l show ?thesis by blast
  qed auto
next
  fix k :: nat and previousDistinctId distinctId teamId retryIfFailed
  assume "8 \<le> k"
  then show "\<exists>r. alias' k E previousDistinctId distinctId teamId retryIfFailed 0 s = Some r"
    by (rule alias_returns)
next
  fix fuel :: nat and event props distinctId teamId
  assume "8 \<le> fuel"
  then show "\<exists>r. handleIdentifyOrAlias fuel E event props distinctId teamId s = Some r"
    by (rule handleIdentifyOrAlias_returns)
qed

theorem merge_budget_witness:
  "map_option fst (merge_loop 3 racy person_B person_A 0 (two_persons\<lparr>calls := 2\<rparr>))
     = Some (Inr (True, 2))
   \<and> map_option fst (mergePeople 6 racy person_B ''b'' person_A (Some ''a'') 0 two_persons)
     = Some (Inr ())
   \<and> merge_loop 2 hopeless person_B person_A 0 (two_persons\<lparr>calls := 2\<rparr>) = None
   \<and> map_option fst (merge_loop 3 hopeless person_B person_A 0 (two_persons\<lparr>calls := 2\<rparr>))
     = Some (Inl (DatabaseError ''23503''))
   \<and> map_option fst (merge_loop 1 hopeless person_B person_A 2 (two_persons\<lparr>calls := 2\<rparr>))
     = Some (Inl (DatabaseError ''23503''))
   \<and> map_option fst (alias' 8 hopeless (Some ''a'') ''b'' 2 True 0 two_persons)
     = Some (Inl (DatabaseError ''23503''))
   \<and> map_option fst (handleIdentifyOrAlias 8 hopeless ''$create_alias'' [(''alias'', PStr ''a'')]
        ''b'' 2 two_persons)
     = Some (Inl (DatabaseError ''23503''))"
proof -
  have h1: "map_option fst (merge_loop 3 racy person_B person_A 0 (two_persons\<lparr>calls := 2\<rparr>))
     = Some (Inr (True, 2))" by code_simp
  have h2: "map_option fst (mergePeople 6 racy person_B ''b'' person_A (Some ''a'') 0 two_persons)
     = Some (Inr ())" by code_simp
  have h3: "merge_loop 2 hopeless person_B person_A 0 (two_persons\<lparr>calls := 2\<rparr>) = None"
    by code_simp
  have h4: "map_option fst (merge_loop 3 hopeless person_B person_A 0 (two_persons\<lparr>calls := 2\<rparr>))
     = Some (Inl (DatabaseError ''23503''))" by code_simp
  have h5: "map_option fst (merge_loop 1 hopeless person_B person_A 2 (two_persons\<lparr>calls := 2\<rparr>))
     = Some (Inl (DatabaseError ''23503''))" by code_simp
  have h6: "map_option fst (alias' 8 hopeless (Some ''a'') ''b'' 2 True 0 two_persons)
     = Some (Inl (DatabaseError ''23503''))" by code_simp
  have h7: "map_option fst (handleIdentifyOrAlias 8 hopeless ''$create_alias''
        [(''alias'', PStr ''a'')] ''b'' 2 two_persons)
     = Some (Inl (DatabaseError ''23503''))" by code_simp
  have b0: "(0::nat) < MAX_FAILED_PERSON_MERGE_ATTEMPTS"
    and b2: "(2::nat) < MAX_FAILED_PERSON_MERGE_ATTEMPTS"
    by (simp_all add: MAX_FAILED_PERSON_MERGE_ATTEMPTS_def)
  from merge_budget [OF b0, of racy person_B person_A "two_persons\<lparr>calls := 2\<rparr>"]
       merge_budget [OF b0, of racy person_B person_A two_persons "''b''" "Some ''a''"]
       merge_budget [OF b0, of hopeless person_B person_A "two_persons\<lparr>calls := 2\<rparr>"]
       merge_budget [OF b2, of hopeless person_B person_A "two_persons\<lparr>calls := 2\<rparr>"]
       merge_budget [OF b0, of hopeless person_B person_A two_persons]
       h1 h2 h3 h4 h5 h6 h7
  show ?thesis by simp
qed

section \<open>What a merge leaves behind\<close>

lemma fetchDistinctIds_result:
  "fetchDistinctIds E p s = (r, s') \<Longrightarrow>
     posthog_person s' = posthog_person s
     \<and> posthog_persondistinctid s' = posthog_persondistinctid s
     \<and> (\<forall>e. r = Inl e \<longrightarrow> (\<exists>tag i. fault E tag i = Some e))
     \<and> (\<forall>ds. r = Inr ds \<longrightarrow>
           set ds = {d \<in> set (posthog_persondistinctid s).
                       person_id d = pid p \<and> pdi_team_id d = team_id p})"
  unfolding fetchDistinctIds_def by (erule call_cases) auto

lemma moveDistinctId_effect:
  assumes "moveDistinctId E p d t s = (r, s')"
  shows "posthog_person s' = posthog_person s
     \<and> (\<forall>x. x \<in> set (posthog_persondistinctid s) \<longrightarrow>
            x \<in> set (posthog_persondistinctid s')
            \<or> x\<lparr>person_id := pid t\<rparr> \<in> set (posthog_persondistinctid s'))
     \<and> (\<forall>x. x\<lparr>person_id := pid t\<rparr> \<in> set (posthog_persondistinctid s) \<longrightarrow>
            x\<lparr>person_id := pid t\<rparr> \<in> set (posthog_persondistinctid s'))
     \<and> (\<forall>e. r = Inl e \<longrightarrow> (\<exists>tag i. fault E tag i = Some e))
     \<and> ((\<exists>u. r = Inr u) \<longrightarrow> d \<in> set (posthog_persondistinctid s) \<longrightarrow>
            d\<lparr>person_id := pid t\<rparr> \<in> set (posthog_persondistinctid s'))"
proof -
  let ?f = "\<lambda>x. if pdi_id x = pdi_id d then x\<lparr>person_id := pid t\<rparr> else x"
  obtain r1 s1 where c: "call E ''updateDistinctIdPerson'' (\<lambda>w.
             Inr ((), w\<lparr>posthog_persondistinctid := map ?f (posthog_persondistinctid w)\<rparr>)) s
           = (r1, s1)" by fastforce
  from c have p1: "posthog_person s1 = posthog_person s"
    by (rule call_cases) auto
  from c have d1: "posthog_persondistinctid s1 = posthog_persondistinctid s \<and> (\<exists>e. r1 = Inl e)
                 \<or> posthog_persondistinctid s1 = map ?f (posthog_persondistinctid s) \<and> r1 = Inr ()"
    by (rule call_cases) auto
  from c have e1: "\<forall>e. r1 = Inl e \<longrightarrow> (\<exists>tag i. fault E tag i = Some e)"
    by (rule call_cases) auto
  have rest: "(r = r1 \<and> s' = s1) \<or> (r1 = Inr () \<and> (\<exists>m. queueMessage E m s1 = (r, s')))"
    using assms c
    by (auto simp: moveDistinctId_def bind_def return_def split: sum.splits if_splits)
  then have p: "posthog_person s' = posthog_person s1"
    and d: "posthog_persondistinctid s' = posthog_persondistinctid s1"
    and e: "\<forall>e. r = Inl e \<longrightarrow> (\<exists>tag i. fault E tag i = Some e)"
    and ok: "(\<exists>u. r = Inr u) \<longrightarrow> r1 = Inr ()"
    using e1 by (auto dest: queueMessage_tables)
  have f1: "?f x \<in> set (map ?f (posthog_persondistinctid s))"
    if "x \<in> set (posthog_persondistinctid s)" for x
    unfolding set_map using that by (rule imageI)
  have a: "x \<in> set (posthog_persondistinctid s') \<or> x\<lparr>person_id := pid t\<rparr> \<in> set (posthog_persondistinctid s')"
    if "x \<in> set (posthog_persondistinctid s)" for x
  proof (cases "posthog_persondistinctid s1 = posthog_persondistinctid s")
    case True
    with d that show ?thesis by simp
  next
    case False
    with d1 d have "posthog_persondistinctid s' = map ?f (posthog_persondistinctid s)" by auto
    with f1 [OF that] show ?thesis by (cases "pdi_id x = pdi_id d") simp_all
  qed
  have b: "x\<lparr>person_id := pid t\<rparr> \<in> set (posthog_persondistinctid s')"
    if "x\<lparr>person_id := pid t\<rparr> \<in> set (posthog_persondistinctid s)" for x
  proof (cases "posthog_persondistinctid s1 = posthog_persondistinctid s")
    case True
    with d that show ?thesis by simp
  next
    case False
    with d1 d have "posthog_persondistinctid s' = map ?f (posthog_persondistinctid s)" by auto
    with f1 [OF that] show ?thesis
      by (cases "pdi_id (x\<lparr>person_id := pid t\<rparr>) = pdi_id d") simp_all
  qed
  have g: "d\<lparr>person_id := pid t\<rparr> \<in> set (posthog_persondistinctid s')"
    if "\<exists>u. r = Inr u" "d \<in> set (posthog_persondistinctid s)"
  proof -
    from ok that(1) d1 d have "posthog_persondistinctid s' = map ?f (posthog_persondistinctid s)"
      by auto
    with f1 [OF that(2)] show ?thesis by simp
  qed
  show ?thesis
  proof (intro conjI allI impI)
    show "posthog_person s' = posthog_person s" using p p1 by simp
  qed (use a b e g in blast)+
qed

lemma forEach_moveDistinctId:
  "forEach ds (\<lambda>d. moveDistinctId E p d t) s = (r, s') \<Longrightarrow>
     posthog_person s' = posthog_person s
     \<and> (\<forall>x. x \<in> set (posthog_persondistinctid s)
             \<or> x\<lparr>person_id := pid t\<rparr> \<in> set (posthog_persondistinctid s) \<longrightarrow>
            x \<in> set (posthog_persondistinctid s')
            \<or> x\<lparr>person_id := pid t\<rparr> \<in> set (posthog_persondistinctid s'))
     \<and> (\<forall>x. x\<lparr>person_id := pid t\<rparr> \<in> set (posthog_persondistinctid s) \<longrightarrow>
            x\<lparr>person_id := pid t\<rparr> \<in> set (posthog_persondistinctid s'))
     \<and> (\<forall>e. r = Inl e \<longrightarrow> (\<exists>tag i. fault E tag i = Some e))
     \<and> ((\<exists>u. r = Inr u) \<longrightarrow>
          (\<forall>d \<in> set ds. d \<in> set (posthog_persondistinctid s)
                          \<or> d\<lparr>person_id := pid t\<rparr> \<in> set (posthog_persondistinctid s) \<longrightarrow>
             d\<lparr>person_id := pid t\<rparr> \<in> set (posthog_persondistinctid s')))"
proof (induction ds arbitrary: s)
  case Nil
  then show ?case by (auto simp: return_def)
next
  case (Cons d ds)
  obtain r1 s1 where m: "moveDistinctId E p d t s = (r1, s1)" by fastforce
  note m1 = moveDistinctId_effect [OF m]
  show ?case
  proof (cases r1)
    case (Inl e)
    with Cons.prems m have "r = Inl e" "s' = s1" by (simp_all add: bind_def)
    with m1 Inl show ?thesis by auto
  next
    case (Inr u)
    with Cons.prems m have "forEach ds (\<lambda>d. moveDistinctId E p d t) s1 = (r, s')"
      by (simp add: bind_def)
    note ih = Cons.IH [OF this]
    from m1 ih Inr show ?thesis by (simp (no_asm_simp); blast)
  qed
qed

lemma moveDistinctIds_effect:
  assumes "moveDistinctIds E src t s = (r, s')"
  shows "posthog_person s' = posthog_person s
     \<and> (\<forall>x. x\<lparr>person_id := pid t\<rparr> \<in> set (posthog_persondistinctid s) \<longrightarrow>
            x\<lparr>person_id := pid t\<rparr> \<in> set (posthog_persondistinctid s'))
     \<and> (\<forall>e. r = Inl e \<longrightarrow> (\<exists>tag i. fault E tag i = Some e))
     \<and> ((\<exists>u. r = Inr u) \<longrightarrow>
          (\<forall>d \<in> set (posthog_persondistinctid s).
             person_id d = pid src \<and> pdi_team_id d = team_id src \<longrightarrow>
             d\<lparr>person_id := pid t\<rparr> \<in> set (posthog_persondistinctid s')))"
proof -
  obtain r0 s0 where c: "call E ''moveDistinctIds'' (\<lambda>w. Inr ((), w)) s = (r0, s0)" by fastforce
  from c have t0: "posthog_person s0 = posthog_person s"
    "posthog_persondistinctid s0 = posthog_persondistinctid s"
    "\<forall>e. r0 = Inl e \<longrightarrow> (\<exists>tag i. fault E tag i = Some e)"
    by (auto elim!: call_cases)
  show ?thesis
  proof (cases r0)
    case (Inl e)
    with assms c have "r = Inl e" "s' = s0" by (simp_all add: moveDistinctIds_def bind_def)
    with t0 Inl show ?thesis by auto
  next
    case (Inr u)
    obtain r1 s1 where f: "fetchDistinctIds E src s0 = (r1, s1)" by fastforce
    note f1 = fetchDistinctIds_result [OF f]
    show ?thesis
    proof (cases r1)
      case (Inl e)
      with assms c f Inr have "r = Inl e" "s' = s1" by (simp_all add: moveDistinctIds_def bind_def)
      with t0 f1 Inl show ?thesis by auto
    next
      case (Inr ds)
      with assms c f \<open>r0 = Inr u\<close>
      have "forEach ds (\<lambda>d. moveDistinctId E src d t) s1 = (r, s')"
        by (simp add: moveDistinctIds_def bind_def)
      note m = forEach_moveDistinctId [OF this]
      from f1 Inr have ds: "set ds = {d \<in> set (posthog_persondistinctid s).
                       person_id d = pid src \<and> pdi_team_id d = team_id src}"
        and t1: "posthog_person s1 = posthog_person s"
          "posthog_persondistinctid s1 = posthog_persondistinctid s"
        using t0 by auto
      from m ds t1 show ?thesis by (simp (no_asm_simp); blast)
    qed
  qed
qed

lemma deletePerson_effect:
  assumes "deletePerson E p s = (r, s')"
  shows "(posthog_person s' = posthog_person s
          \<or> posthog_person s' = filter (\<lambda>x. pid x \<noteq> pid p) (posthog_person s))
     \<and> ((\<exists>u. r = Inr u) \<longrightarrow> posthog_person s' = filter (\<lambda>x. pid x \<noteq> pid p) (posthog_person s))
     \<and> (\<forall>x. person_id x \<noteq> pid p \<longrightarrow> x \<in> set (posthog_persondistinctid s) \<longrightarrow>
            x \<in> set (posthog_persondistinctid s'))"
proof -
  obtain r1 s1 where c: "call E ''deletePerson'' (\<lambda>w.
             Inr ((), w\<lparr>posthog_persondistinctid :=
                         filter (\<lambda>d. person_id d \<noteq> pid p) (posthog_persondistinctid w),
                       posthog_person :=
                         filter (\<lambda>r. pid r \<noteq> pid p) (posthog_person w)\<rparr>)) s = (r1, s1)"
    by fastforce
  from c have c1: "(\<exists>e. r1 = Inl e) \<and> posthog_person s1 = posthog_person s
                     \<and> posthog_persondistinctid s1 = posthog_persondistinctid s
                 \<or> r1 = Inr () \<and> posthog_person s1 = filter (\<lambda>x. pid x \<noteq> pid p) (posthog_person s)
                     \<and> posthog_persondistinctid s1
                         = filter (\<lambda>d. person_id d \<noteq> pid p) (posthog_persondistinctid s)"
    by (rule call_cases) auto
  have rest: "(r = r1 \<and> s' = s1)
      \<or> (r1 = Inr () \<and> posthog_person s' = posthog_person s1
            \<and> posthog_persondistinctid s' = posthog_persondistinctid s1)"
    using assms c
    by (auto simp: deletePerson_def bind_def return_def
        split: sum.splits if_splits prod.splits dest!: clickhouseQuery_tables)
  from c1 rest show ?thesis by auto
qed

lemma filter_pid_idem:
  "filter (\<lambda>x. pid x \<noteq> a) (filter (\<lambda>x. pid x \<noteq> a) xs) = filter (\<lambda>x. pid x \<noteq> a) xs"
  by simp

lemma merge_loop_effect:
  "merge_loop k E mergeInto otherPerson failedAttempts s = Some (Inr (False, n), s') \<Longrightarrow>
   pid mergeInto \<noteq> pid otherPerson \<Longrightarrow>
     posthog_person s' = filter (\<lambda>x. pid x \<noteq> pid otherPerson) (posthog_person s)
     \<and> (\<forall>d \<in> set (posthog_persondistinctid s).
           person_id d = pid otherPerson \<and> pdi_team_id d = team_id otherPerson \<longrightarrow>
           d\<lparr>person_id := pid mergeInto\<rparr> \<in> set (posthog_persondistinctid s'))
     \<and> (\<forall>x. x\<lparr>person_id := pid mergeInto\<rparr> \<in> set (posthog_persondistinctid s) \<longrightarrow>
            x\<lparr>person_id := pid mergeInto\<rparr> \<in> set (posthog_persondistinctid s'))"
proof (induction k arbitrary: failedAttempts s)
  case 0
  then show ?case by simp
next
  case (Suc k)
  obtain r1 s1 where m: "moveDistinctIds E otherPerson mergeInto s = (r1, s1)" by fastforce
  note m1 = moveDistinctIds_effect [OF m]
  from Suc.prems(1) m obtain u where r1: "r1 = Inr u"
    by (cases r1) (auto simp: Let_def split: if_splits)
  obtain r2 s2 where d: "deletePerson E otherPerson s1 = (r2, s2)" by fastforce
  note d1 = deletePerson_effect [OF d]
  have keep: "x\<lparr>person_id := pid mergeInto\<rparr> \<in> set (posthog_persondistinctid s2)"
    if "x\<lparr>person_id := pid mergeInto\<rparr> \<in> set (posthog_persondistinctid s1)" for x
    using d1 that Suc.prems(2) by auto
  show ?case
  proof (cases r2)
    case (Inr v)
    with Suc.prems(1) m d r1 have "s' = s2" by simp
    with m1 d1 r1 Inr keep show ?thesis by (simp (no_asm_simp); blast)
  next
    case (Inl e)
    with Suc.prems(1) m d r1
    have "merge_loop k E mergeInto otherPerson (failedAttempts + 1) s2 = Some (Inr (False, n), s')"
      by (simp split: if_splits)
    note ih = Suc.IH [OF this Suc.prems(2)]
    from d1 m1 have "filter (\<lambda>x. pid x \<noteq> pid otherPerson) (posthog_person s2)
                       = filter (\<lambda>x. pid x \<noteq> pid otherPerson) (posthog_person s)"
      by auto
    with ih m1 r1 keep show ?thesis by (simp (no_asm_simp); blast)
  qed
qed

lemma merge_loop_no_race:
  "no_race E \<Longrightarrow>
   merge_loop k E mergeInto otherPerson failedAttempts s = Some (Inr (b, n), s') \<Longrightarrow> \<not> b"
proof (induction k arbitrary: failedAttempts s)
  case 0
  then show ?case by simp
next
  case (Suc k)
  obtain r1 s1 where m: "moveDistinctIds E otherPerson mergeInto s = (r1, s1)" by fastforce
  note m1 = moveDistinctIds_effect [OF m]
  show ?case
  proof (cases r1)
    case (Inl e)
    with m1 Suc.prems(1) have "\<not> is_RaceConditionError e" by (auto simp: no_race_def)
    with Suc.prems(2) m Inl show ?thesis by (simp add: Let_def)
  next
    case (Inr u)
    obtain r2 s2 where d: "deletePerson E otherPerson s1 = (r2, s2)" by fastforce
    show ?thesis
    proof (cases r2)
      case (Inr v)
      with Suc.prems(2) m d \<open>r1 = Inr u\<close> show ?thesis by simp
    next
      case (Inl e)
      with Suc.prems(2) m d \<open>r1 = Inr u\<close>
      have "merge_loop k E mergeInto otherPerson (failedAttempts + 1) s2 = Some (Inr (b, n), s')"
        by (simp split: if_splits)
      from Suc.IH [OF Suc.prems(1) this] show ?thesis .
    qed
  qed
qed

lemma mergePeople_success:
  assumes "mergePeople (Suc k) E mergeInto mergeIntoDistinctId otherPerson otherPersonDistinctId
             totalMergeAttempts s = Some (Inr u, s')"
  shows "\<exists>s2 b n s3.
           posthog_person s2
             = map (\<lambda>r. if pid r = pid mergeInto
                         then r\<lparr>created_at := min (created_at mergeInto) (created_at otherPerson),
                                properties := spread (properties otherPerson) (properties mergeInto)\<rparr>
                         else r) (posthog_person s)
           \<and> posthog_persondistinctid s2 = posthog_persondistinctid s
           \<and> merge_loop k E
                (mergeInto\<lparr>properties := spread (properties otherPerson) (properties mergeInto)\<rparr>)
                otherPerson totalMergeAttempts s2 = Some (Inr (b, n), s3)
           \<and> (\<not> b \<longrightarrow> s' = s3)"
proof -
  let ?m = "mergeInto\<lparr>properties := spread (properties otherPerson) (properties mergeInto)\<rparr>"
  let ?U = "\<lparr>upd_created_at = Some (if created_at otherPerson < created_at ?m
                       then created_at otherPerson else created_at ?m),
             upd_properties = Some (properties ?m), upd_is_identified = None\<rparr>"
  obtain r1 s1 where u: "updatePerson E ?m ?U s = (r1, s1)" by fastforce
  from assms u obtain p where r1: "r1 = Inr p"
    by (cases r1) (auto simp: Let_def)
  let ?c = "call E ''updateCohortPeople'' (\<lambda>w.
             Inr ((), w\<lparr>posthog_cohortpeople :=
                         map (\<lambda>(c, p). if p = pid otherPerson then (c, pid ?m) else (c, p))
                             (posthog_cohortpeople w)\<rparr>))"
  obtain r2 s2 where c: "?c s1 = (r2, s2)" by fastforce
  from assms u r1 c obtain v where r2: "r2 = Inr v"
    by (cases r2) (auto simp: Let_def)
  from assms u r1 c r2 obtain b n s3 where
    l: "merge_loop k E ?m otherPerson totalMergeAttempts s2 = Some (Inr (b, n), s3)" and
    e: "\<not> b \<longrightarrow> s' = s3"
    by (auto simp: Let_def split: option.splits sum.splits prod.splits if_splits)
  have upd: "apply_update r ?U
                 = r\<lparr>created_at := min (created_at mergeInto) (created_at otherPerson),
                      properties := spread (properties otherPerson) (properties mergeInto)\<rparr>" for r
    by (simp add: apply_update_def min_def)
  from u r1 have p1: "posthog_person s1
             = map (\<lambda>r. if pid r = pid mergeInto then apply_update r ?U else r) (posthog_person s)"
    and d1: "posthog_persondistinctid s1 = posthog_persondistinctid s"
    by (auto simp: updatePerson_def Let_def bind_def return_def
        split: prod.splits sum.splits if_splits elim!: call_cases dest!: queueMessage_tables)
  from c have "posthog_person s2 = posthog_person s1"
    "posthog_persondistinctid s2 = posthog_persondistinctid s1"
    by (auto elim!: call_cases)
  with p1 d1 have "posthog_person s2
             = map (\<lambda>r. if pid r = pid mergeInto
                         then r\<lparr>created_at := min (created_at mergeInto) (created_at otherPerson),
                                properties := spread (properties otherPerson) (properties mergeInto)\<rparr>
                         else r) (posthog_person s)"
    "posthog_persondistinctid s2 = posthog_persondistinctid s"
    unfolding upd by simp_all
  with l e show ?thesis by (intro exI [of _ s2] exI [of _ b] exI [of _ n] exI [of _ s3]) simp
qed

text \<open>
  Claim C1, as the code has it. When \<open>mergePeople(mergeInto, otherPerson)\<close> for two different
  persons returns normally and no call failed with a \<open>RaceConditionError\<close> (so \<open>alias\<close> was
  not restarted): no row of \<open>otherPerson\<close> is left; every distinct-id row that was attached
  to \<open>otherPerson\<close> in its team is attached to \<open>mergeInto\<close>; the row of \<open>mergeInto\<close> has the
  properties of \<open>otherPerson\<close> overridden by those of \<open>mergeInto\<close> and the smaller of the two
  \<open>created_at\<close>; and that row is still there.
\<close>

theorem mergePeople_merges:
  assumes "no_race E"
    and "pid mergeInto \<noteq> pid otherPerson"
    and "mergePeople k E mergeInto mergeIntoDistinctId otherPerson otherPersonDistinctId
           totalMergeAttempts s = Some (Inr u, s')"
  shows "(\<forall>r \<in> set (posthog_person s'). pid r \<noteq> pid otherPerson)
     \<and> (\<forall>d \<in> set (posthog_persondistinctid s).
           person_id d = pid otherPerson \<and> pdi_team_id d = team_id otherPerson \<longrightarrow>
           d\<lparr>person_id := pid mergeInto\<rparr> \<in> set (posthog_persondistinctid s'))
     \<and> (\<forall>r \<in> set (posthog_person s'). pid r = pid mergeInto \<longrightarrow>
           map_of (properties r) = map_of (properties otherPerson) ++ map_of (properties mergeInto)
           \<and> created_at r = min (created_at mergeInto) (created_at otherPerson))
     \<and> ((\<exists>r \<in> set (posthog_person s). pid r = pid mergeInto) \<longrightarrow>
          (\<exists>r \<in> set (posthog_person s'). pid r = pid mergeInto))"
proof -
  let ?m = "mergeInto\<lparr>properties := spread (properties otherPerson) (properties mergeInto)\<rparr>"
  let ?f = "\<lambda>r. if pid r = pid mergeInto
                then r\<lparr>created_at := min (created_at mergeInto) (created_at otherPerson),
                       properties := spread (properties otherPerson) (properties mergeInto)\<rparr>
                else r"
  from assms(3) obtain k' where k: "k = Suc k'" by (cases k) auto
  from mergePeople_success [OF assms(3) [unfolded k]] obtain s2 b n s3 where
    p2: "posthog_person s2 = map ?f (posthog_person s)" and
    d2: "posthog_persondistinctid s2 = posthog_persondistinctid s" and
    l: "merge_loop k' E ?m otherPerson totalMergeAttempts s2 = Some (Inr (b, n), s3)" and
    e: "\<not> b \<longrightarrow> s' = s3" by blast
  from merge_loop_no_race [OF assms(1) l] e have b: "\<not> b" and s': "s' = s3" by simp_all
  from assms(2) have "pid ?m \<noteq> pid otherPerson" by simp
  from l b have "merge_loop k' E ?m otherPerson totalMergeAttempts s2 = Some (Inr (False, n), s3)"
    by simp
  from merge_loop_effect [OF this \<open>pid ?m \<noteq> pid otherPerson\<close>]
  have p3: "posthog_person s' = filter (\<lambda>x. pid x \<noteq> pid otherPerson) (map ?f (posthog_person s))"
    and d3: "\<forall>d \<in> set (posthog_persondistinctid s).
           person_id d = pid otherPerson \<and> pdi_team_id d = team_id otherPerson \<longrightarrow>
           d\<lparr>person_id := pid mergeInto\<rparr> \<in> set (posthog_persondistinctid s')"
    using p2 d2 s' by simp_all
  have pidf: "pid (?f r) = pid r" for r by simp
  show ?thesis
  proof (intro conjI)
    show "\<forall>r \<in> set (posthog_person s'). pid r \<noteq> pid otherPerson"
      unfolding p3 by simp
    show "\<forall>d \<in> set (posthog_persondistinctid s).
           person_id d = pid otherPerson \<and> pdi_team_id d = team_id otherPerson \<longrightarrow>
           d\<lparr>person_id := pid mergeInto\<rparr> \<in> set (posthog_persondistinctid s')"
      by (rule d3)
    show "\<forall>r \<in> set (posthog_person s'). pid r = pid mergeInto \<longrightarrow>
           map_of (properties r) = map_of (properties otherPerson) ++ map_of (properties mergeInto)
           \<and> created_at r = min (created_at mergeInto) (created_at otherPerson)"
      unfolding p3 by (auto simp: spread_def merge_conv')
    show "(\<exists>r \<in> set (posthog_person s). pid r = pid mergeInto) \<longrightarrow>
          (\<exists>r \<in> set (posthog_person s'). pid r = pid mergeInto)"
    proof
      assume "\<exists>r \<in> set (posthog_person s). pid r = pid mergeInto"
      then obtain r where r: "r \<in> set (posthog_person s)" "pid r = pid mergeInto" by blast
      with assms(2) have "?f r \<in> set (posthog_person s')" "pid (?f r) = pid mergeInto"
        unfolding p3 by auto
      then show "\<exists>r \<in> set (posthog_person s'). pid r = pid mergeInto" by blast
    qed
  qed
qed

theorem mergePeople_merges_witness:
  "mergePeople 5 calm person_B ''b'' person_A (Some ''a'') 0 two_persons
     = Some (Inr (),
         two_persons\<lparr>posthog_person := [person_B\<lparr>created_at := 0\<rparr>],
           posthog_persondistinctid :=
             [\<lparr>pdi_id = 3, person_id = 2, distinct_id = ''a'', pdi_team_id = 2\<rparr>,
              \<lparr>pdi_id = 4, person_id = 2, distinct_id = ''b'', pdi_team_id = 2\<rparr>],
           calls := 6\<rparr>)
   \<and> min (created_at person_B) (created_at person_A) = 0
   \<and> (map_of (properties person_A) ++ map_of (properties person_B)) ''x'' = Some (PNum 2)"
proof -
  have h: "mergePeople 5 calm person_B ''b'' person_A (Some ''a'') 0 two_persons
     = Some (Inr (),
         two_persons\<lparr>posthog_person := [person_B\<lparr>created_at := 0\<rparr>],
           posthog_persondistinctid :=
             [\<lparr>pdi_id = 3, person_id = 2, distinct_id = ''a'', pdi_team_id = 2\<rparr>,
              \<lparr>pdi_id = 4, person_id = 2, distinct_id = ''b'', pdi_team_id = 2\<rparr>],
           calls := 6\<rparr>)" by code_simp
  have nr: "no_race calm" by (simp add: no_race_def calm_def)
  have ne: "pid person_B \<noteq> pid person_A" by (simp add: person_A_def person_B_def)
  from mergePeople_merges [OF nr ne h] h show ?thesis
    by (simp add: person_A_def person_B_def)
qed

text \<open>
  Claim C1 as stated fails when the call returns through the restart of \<open>alias\<close>. Here the
  first \<open>deletePerson\<close> fails with a database error, after the distinct id \<open>a\<close> has moved,
  and the next \<open>moveDistinctIds\<close> fails with a \<open>RaceConditionError\<close>; the restarted \<open>alias\<close>
  finds both distinct ids on person 2 and does nothing. \<open>mergePeople\<close> returns normally
  and the row of the other person, 1, is still in the table.
\<close>

theorem mergePeople_counterexample:
  "map_option fst (mergePeople 5 racy person_B ''b'' person_A (Some ''a'') 0 two_persons)
     = Some (Inr ())
   \<and> map_option (map pid \<circ> posthog_person \<circ> snd)
        (mergePeople 5 racy person_B ''b'' person_A (Some ''a'') 0 two_persons) = Some [1, 2]
   \<and> pid person_A = 1 \<and> pid person_B = 2"
  by code_simp

section \<open>Errors of the identity step\<close>

text \<open>The identity step does nothing for an event that is neither an alias nor an identify.\<close>

lemma handleIdentifyOrAlias_error:
  "handleIdentifyOrAlias fuel E event props distinctId teamId s = Some (Inl e, s') \<Longrightarrow>
     event = ''$create_alias'' \<or> event = ''$identify''"
  by (auto simp: handleIdentifyOrAlias_def split: if_splits)

text \<open>
  Claim C4. Let the UUID be valid, and let \<open>ts\<close> be the timestamp that \<open>handleTimestamp\<close>
  returns, valid or not. An error of \<open>handleIdentifyOrAlias\<close> (which only an alias or an
  identify event can raise) is reported, and \<open>processEvent\<close> goes on to \<open>capture\<close> in the
  state the identity step has left: its result is the event of \<open>capture\<close>, and an error of
  \<open>capture\<close> is its error. After an identity step without an error it goes on likewise, to
  \<open>createSessionRecordingEvent\<close> for \<open>$snapshot\<close> and to \<open>capture\<close> otherwise. The identity
  step always returns, and so does \<open>processEvent\<close> (eight units of fuel suffice). Whenever
  \<open>processEvent\<close> returns a result the event has been emitted: for a result with an event,
  the message with the UUID of the event as its key is the last one queued, or the row of
  the event is the last one of the event table; for a snapshot, the same holds of the
  session recording.
\<close>

theorem identity_errors_swallowed:
  assumes "UUID_validateString E eventUuid"
      and "personUuid = fst (UUIDT_toString E s)"
      and "ts = fst (handleTimestamp E data now sentAt (snd (UUIDT_toString E s)))"
      and "s1 = snd (handleTimestamp E data now sentAt (snd (UUIDT_toString E s)))"
      and "props = sanitized_properties data"
  shows "(handleIdentifyOrAlias fuel E (d_event data) props distinctId teamId s1 = Some (Inl e, s2)
          \<longrightarrow> d_event data \<noteq> ''$snapshot''
              \<and> processEvent fuel E distinctId ip siteUrl data teamId now sentAt eventUuid s
                  = Some (case capture E eventUuid personUuid ip siteUrl teamId (d_event data)
                                 distinctId props ts sentAt (s2\<lparr>sentry := sentry s2 @ [e]\<rparr>) of
                            (Inl error, s') \<Rightarrow> (Inl error, s')
                          | (Inr (event, eventId, elements), s') \<Rightarrow>
                              (Inr (Some \<lparr>res_event = event, res_eventId = eventId,
                                          res_elements = elements\<rparr>), s')))
     \<and> (handleIdentifyOrAlias fuel E (d_event data) props distinctId teamId s1 = Some (Inr u, s2)
          \<longrightarrow> processEvent fuel E distinctId ip siteUrl data teamId now sentAt eventUuid s
                = Some (if d_event data = ''$snapshot''
                        then (case createSessionRecordingEvent E eventUuid teamId distinctId
                                     (map_of props ''$session_id'') ts
                                     (map_of props ''$snapshot_data'') personUuid s2 of
                                (Inl error, s') \<Rightarrow> (Inl error, s')
                              | (Inr recorded, s') \<Rightarrow> (Inr None, s'))
                        else (case capture E eventUuid personUuid ip siteUrl teamId (d_event data)
                                     distinctId props ts sentAt s2 of
                                (Inl error, s') \<Rightarrow> (Inl error, s')
                              | (Inr (event, eventId, elements), s') \<Rightarrow>
                                  (Inr (Some \<lparr>res_event = event, res_eventId = eventId,
                                              res_elements = elements\<rparr>), s'))))
     \<and> (8 \<le> fuel
          \<longrightarrow> (\<exists>r. handleIdentifyOrAlias fuel E (d_event data) props distinctId teamId s1 = Some r))
     \<and> (processEvent fuel E distinctId ip siteUrl data teamId now sentAt eventUuid s
           = Some (Inr (Some result), s')
          \<longrightarrow> d_event data \<noteq> ''$snapshot''
              \<and> ev_uuid (res_event result) = eventUuid
              \<and> ev_event (res_event result) = sanitizeEventName E (d_event data)
              \<and> ev_teamId (res_event result) = teamId
              \<and> ev_distinctId (res_event result) = distinctId
              \<and> (if kafkaProducer E
                  then \<exists>m. last (kafka_queue s') = \<lparr>topic = KAFKA_EVENTS, messages = [m]\<rparr>
                         \<and> msg_key m = Some eventUuid
                  else posthog_event s' \<noteq> []
                       \<and> res_eventId result = Some (row_id (last (posthog_event s')))
                       \<and> row_event (last (posthog_event s')) = sanitizeEventName E (d_event data)
                       \<and> row_distinct_id (last (posthog_event s')) = distinctId
                       \<and> row_team_id (last (posthog_event s')) = teamId))
     \<and> (processEvent fuel E distinctId ip siteUrl data teamId now sentAt eventUuid s
           = Some (Inr None, s')
          \<longrightarrow> d_event data = ''$snapshot''
              \<and> (if kafkaProducer E
                  then \<exists>m. last (kafka_queue s')
                              = \<lparr>topic = KAFKA_SESSION_RECORDING_EVENTS, messages = [m]\<rparr>
                         \<and> msg_key m = Some eventUuid
                  else posthog_sessionrecordingevent s' \<noteq> []
                       \<and> psre_distinct_id (last (posthog_sessionrecordingevent s')) = distinctId
                       \<and> psre_team_id (last (posthog_sessionrecordingevent s')) = teamId))
     \<and> (8 \<le> fuel
          \<longrightarrow> (\<exists>r. processEvent fuel E distinctId ip siteUrl data teamId now sentAt eventUuid s
                     = Some r))"
proof -
  obtain pu s0 where u: "UUIDT_toString E s = (pu, s0)" by fastforce
  obtain t s1' where h: "handleTimestamp E data now sentAt s0 = (t, s1')" by fastforce
  from assms u h have eqs: "personUuid = pu" "ts = t" "s1 = s1'" by simp_all
  have unfold: "processEvent fuel E distinctId ip siteUrl data teamId now sentAt eventUuid s
      = (case handleIdentifyOrAlias fuel E (d_event data) props distinctId teamId s1 of
           None \<Rightarrow> None
         | Some (r, s2) \<Rightarrow>
             (let s3 = (case r of Inl e \<Rightarrow> s2\<lparr>sentry := sentry s2 @ [e]\<rparr> | Inr _ \<Rightarrow> s2) in
              if d_event data = ''$snapshot''
              then Some (case createSessionRecordingEvent E eventUuid teamId distinctId
                                (map_of props ''$session_id'') ts
                                (map_of props ''$snapshot_data'') personUuid s3 of
                           (Inl error, s') \<Rightarrow> (Inl error, s')
                         | (Inr recorded, s') \<Rightarrow> (Inr None, s'))
              else Some (case capture E eventUuid personUuid ip siteUrl teamId (d_event data)
                                distinctId props ts sentAt s3 of
                           (Inl error, s') \<Rightarrow> (Inl error, s')
                         | (Inr (event, eventId, elements), s') \<Rightarrow>
                             (Inr (Some \<lparr>res_event = event, res_eventId = eventId,
                                         res_elements = elements\<rparr>), s'))))"
    using assms(1) u h unfolding eqs assms(5)
    by (simp add: processEvent_def processEvent_try_def Let_def bind_def return_def
        Sentry_captureException_def split: option.splits prod.splits sum.splits)
  show ?thesis
  proof (intro conjI impI)
    assume i: "handleIdentifyOrAlias fuel E (d_event data) props distinctId teamId s1
                 = Some (Inl e, s2)"
    from handleIdentifyOrAlias_error [OF this] show n: "d_event data \<noteq> ''$snapshot''" by auto
    from unfold i n
    show "processEvent fuel E distinctId ip siteUrl data teamId now sentAt eventUuid s
                  = Some (case capture E eventUuid personUuid ip siteUrl teamId (d_event data)
                                 distinctId props ts sentAt (s2\<lparr>sentry := sentry s2 @ [e]\<rparr>) of
                            (Inl error, s') \<Rightarrow> (Inl error, s')
                          | (Inr (event, eventId, elements), s') \<Rightarrow>
                              (Inr (Some \<lparr>res_event = event, res_eventId = eventId,
                                          res_elements = elements\<rparr>), s'))"
      by simp
  next
    assume i: "handleIdentifyOrAlias fuel E (d_event data) props distinctId teamId s1
                 = Some (Inr u, s2)"
    with unfold
    show "processEvent fuel E distinctId ip siteUrl data teamId now sentAt eventUuid s
                = Some (if d_event data = ''$snapshot''
                        then (case createSessionRecordingEvent E eventUuid teamId distinctId
                                     (map_of props ''$session_id'') ts
                                     (map_of props ''$snapshot_data'') personUuid s2 of
                                (Inl error, s') \<Rightarrow> (Inl error, s')
                              | (Inr recorded, s') \<Rightarrow> (Inr None, s'))
                        else (case capture E eventUuid personUuid ip siteUrl teamId (d_event data)
                                     distinctId props ts sentAt s2 of
                                (Inl error, s') \<Rightarrow> (Inl error, s')
                              | (Inr (event, eventId, elements), s') \<Rightarrow>
                                  (Inr (Some \<lparr>res_event = event, res_eventId = eventId,
                                              res_elements = elements\<rparr>), s')))"
      by simp
  next
    assume "8 \<le> fuel"
    then show "\<exists>r. handleIdentifyOrAlias fuel E (d_event data) props distinctId teamId s1 = Some r"
      by (rule handleIdentifyOrAlias_returns)
  next
    assume p: "processEvent fuel E distinctId ip siteUrl data teamId now sentAt eventUuid s
           = Some (Inr (Some result), s')"
    from p unfold show n: "d_event data \<noteq> ''$snapshot''"
      by (auto simp: Let_def split: option.splits prod.splits sum.splits if_splits)
    from p unfold n obtain s3 where
      c: "capture E eventUuid personUuid ip siteUrl teamId (d_event data) distinctId props ts
            sentAt s3 = (Inr (res_event result, res_eventId result, res_elements result), s')"
      by (auto simp: Let_def split: option.splits prod.splits sum.splits if_splits)
    note e = capture_emits [OF c]
    from e show "ev_uuid (res_event result) = eventUuid" by simp
    from e show "ev_event (res_event result) = sanitizeEventName E (d_event data)" by simp
    from e show "ev_teamId (res_event result) = teamId" by simp
    from e show "ev_distinctId (res_event result) = distinctId" by simp
    from e show "if kafkaProducer E
                  then \<exists>m. last (kafka_queue s') = \<lparr>topic = KAFKA_EVENTS, messages = [m]\<rparr>
                         \<and> msg_key m = Some eventUuid
                  else posthog_event s' \<noteq> []
                       \<and> res_eventId result = Some (row_id (last (posthog_event s')))
                       \<and> row_event (last (posthog_event s')) = sanitizeEventName E (d_event data)
                       \<and> row_distinct_id (last (posthog_event s')) = distinctId
                       \<and> row_team_id (last (posthog_event s')) = teamId"
      by simp
  next
    assume p: "processEvent fuel E distinctId ip siteUrl data teamId now sentAt eventUuid s
           = Some (Inr None, s')"
    from p unfold show n: "d_event data = ''$snapshot''"
      by (auto simp: Let_def split: option.splits prod.splits sum.splits if_splits)
    from p unfold n obtain s3 recorded where
      c: "createSessionRecordingEvent E eventUuid teamId distinctId
            (map_of props ''$session_id'') ts (map_of props ''$snapshot_data'') personUuid s3
            = (Inr recorded, s')"
      by (auto simp: Let_def split: option.splits prod.splits sum.splits if_splits)
    from createSessionRecordingEvent_emits [OF c]
    show "if kafkaProducer E
                  then \<exists>m. last (kafka_queue s')
                              = \<lparr>topic = KAFKA_SESSION_RECORDING_EVENTS, messages = [m]\<rparr>
                         \<and> msg_key m = Some eventUuid
                  else posthog_sessionrecordingevent s' \<noteq> []
                       \<and> psre_distinct_id (last (posthog_sessionrecordingevent s')) = distinctId
                       \<and> psre_team_id (last (posthog_sessionrecordingevent s')) = teamId"
      by (auto split: if_splits)
  next
    assume "8 \<le> fuel"
    then obtain r s2 where
      "handleIdentifyOrAlias fuel E (d_event data) props distinctId teamId s1 = Some (r, s2)"
      using handleIdentifyOrAlias_returns [of fuel E "d_event data" props distinctId teamId s1]
      by auto
    with unfold
    show "\<exists>r. processEvent fuel E distinctId ip siteUrl data teamId now sentAt eventUuid s = Some r"
      by (simp add: Let_def)
  qed
qed

theorem identity_errors_swallowed_witness:
  "handleIdentifyOrAlias 8 lossy (d_event alias_event) (sanitized_properties alias_event) ''b'' 2
     (snd (handleTimestamp lossy alias_event 5 None (snd (UUIDT_toString lossy empty_world))))
     = Some (Inl (DatabaseError ''08006''), empty_world\<lparr>uuids_made := 1, calls := 1\<rparr>)
   \<and> map_option fst (processEvent 8 lossy ''b'' None ''url'' alias_event 2 5 None
        ''0179aaaa-0000-0000-0000-000000000001'' empty_world)
     = Some (Inr (Some
         \<lparr>res_event =
            \<lparr>ev_uuid = ''0179aaaa-0000-0000-0000-000000000001'', ev_event = ''$create_alias'',
             ev_properties = [(''alias'', PStr ''a'')], ev_timestamp = ''5'', ev_teamId = 2,
             ev_distinctId = ''b'', ev_elementsChain = [], ev_createdAt = ''5''\<rparr>,
          res_eventId = Some 3, res_elements = []\<rparr>))
   \<and> map_option (sentry \<circ> snd) (processEvent 8 lossy ''b'' None ''url'' alias_event 2 5 None
        ''0179aaaa-0000-0000-0000-000000000001'' empty_world)
     = Some [DatabaseError ''08006'']
   \<and> map_option (posthog_event \<circ> snd) (processEvent 8 lossy ''b'' None ''url'' alias_event 2 5
        None ''0179aaaa-0000-0000-0000-000000000001'' empty_world)
     = Some [\<lparr>row_id = 3, row_created_at = ''5'', row_event = ''$create_alias'',
              row_distinct_id = ''b'', row_properties = [(''alias'', PStr ''a'')],
              row_team_id = 2, row_timestamp = ''5'', row_elements = [],
              row_elements_hash = []\<rparr>]
   \<and> map_option (map row_timestamp \<circ> posthog_event \<circ> snd)
        (processEvent 8 lossy ''b'' None ''url'' (alias_event\<lparr>d_timestamp := Some ''yesterday''\<rparr>)
           2 5 None ''0179aaaa-0000-0000-0000-000000000001'' empty_world)
     = Some [''Invalid DateTime'']
   \<and> map_option fst (processEvent 8 lossy_sinkless ''b'' None ''url'' alias_event 2 5 None
        ''0179aaaa-0000-0000-0000-000000000001'' empty_world)
     = Some (Inl (DatabaseError ''08006''))
   \<and> map_option (sentry \<circ> snd) (processEvent 8 lossy_sinkless ''b'' None ''url'' alias_event 2 5
        None ''0179aaaa-0000-0000-0000-000000000001'' empty_world)
     = Some [DatabaseError ''08006'']
   \<and> map_option fst (processEvent 8 calm ''b'' None ''url''
        (alias_event\<lparr>d_event := ''$snapshot''\<rparr>) 2 5 None
        ''0179aaaa-0000-0000-0000-000000000001'' empty_world)
     = Some (Inr None)
   \<and> map_option (map psre_distinct_id \<circ> posthog_sessionrecordingevent \<circ> snd)
        (processEvent 8 calm ''b'' None ''url'' (alias_event\<lparr>d_event := ''$snapshot''\<rparr>) 2 5 None
           ''0179aaaa-0000-0000-0000-000000000001'' empty_world)
     = Some [''b'']"
proof -
  let ?u = "''0179aaaa-0000-0000-0000-000000000001''"
  have v: "UUID_validateString lossy ?u" "UUID_validateString lossy_sinkless ?u"
    "UUID_validateString calm ?u"
    by (simp_all add: lossy_def lossy_sinkless_def calm_def)
  have i: "handleIdentifyOrAlias 8 lossy (d_event alias_event) (sanitized_properties alias_event)
             ''b'' 2
             (snd (handleTimestamp lossy alias_event 5 None (snd (UUIDT_toString lossy empty_world))))
     = Some (Inl (DatabaseError ''08006''), empty_world\<lparr>uuids_made := 1, calls := 1\<rparr>)"
    by code_simp
  have p: "map_option fst (processEvent 8 lossy ''b'' None ''url'' alias_event 2 5 None ?u
             empty_world)
     = Some (Inr (Some
         \<lparr>res_event =
            \<lparr>ev_uuid = ?u, ev_event = ''$create_alias'',
             ev_properties = [(''alias'', PStr ''a'')], ev_timestamp = ''5'', ev_teamId = 2,
             ev_distinctId = ''b'', ev_elementsChain = [], ev_createdAt = ''5''\<rparr>,
          res_eventId = Some 3, res_elements = []\<rparr>))" by code_simp
  have q: "map_option (sentry \<circ> snd) (processEvent 8 lossy ''b'' None ''url'' alias_event 2 5 None
             ?u empty_world) = Some [DatabaseError ''08006'']" by code_simp
  have r: "map_option (posthog_event \<circ> snd) (processEvent 8 lossy ''b'' None ''url'' alias_event
             2 5 None ?u empty_world)
     = Some [\<lparr>row_id = 3, row_created_at = ''5'', row_event = ''$create_alias'',
              row_distinct_id = ''b'', row_properties = [(''alias'', PStr ''a'')],
              row_team_id = 2, row_timestamp = ''5'', row_elements = [],
              row_elements_hash = []\<rparr>]" by code_simp
  have y: "map_option (map row_timestamp \<circ> posthog_event \<circ> snd)
        (processEvent 8 lossy ''b'' None ''url'' (alias_event\<lparr>d_timestamp := Some ''yesterday''\<rparr>)
           2 5 None ?u empty_world) = Some [''Invalid DateTime'']" by code_simp
  have k: "map_option fst (processEvent 8 lossy_sinkless ''b'' None ''url'' alias_event 2 5 None ?u
             empty_world) = Some (Inl (DatabaseError ''08006''))" by code_simp
  have k': "map_option (sentry \<circ> snd) (processEvent 8 lossy_sinkless ''b'' None ''url''
             alias_event 2 5 None ?u empty_world) = Some [DatabaseError ''08006'']" by code_simp
  have n: "map_option fst (processEvent 8 calm ''b'' None ''url''
        (alias_event\<lparr>d_event := ''$snapshot''\<rparr>) 2 5 None ?u empty_world) = Some (Inr None)"
    by code_simp
  have n': "map_option (map psre_distinct_id \<circ> posthog_sessionrecordingevent \<circ> snd)
        (processEvent 8 calm ''b'' None ''url'' (alias_event\<lparr>d_event := ''$snapshot''\<rparr>) 2 5 None
           ?u empty_world) = Some [''b'']" by code_simp
  from identity_errors_swallowed [OF v(1) refl refl refl refl, THEN conjunct1, rule_format, OF i]
       i p q r y k k' n n'
  show ?thesis by simp
qed

end
